theory Spec2Isabelle
  imports Complex_Main
begin

section \<open>Errors\<close>

text \<open>
  Every failure of the sources is an exception. \<open>utility::LogError\<close> throws with the
  message it is given; \<open>std::unordered_map::at\<close> throws \<open>std::out_of_range\<close>; the
  assertions and primitives of \<open>core::Tensor\<close> throw on a wrong device, dtype, shape,
  dimension or index. An exception is the left summand of a result.
\<close>

datatype Dtype = Float32 | Float64 | Int32 | Int64 | Bool

datatype Device = Device string

datatype error =
    LogError string
  | OutOfRange string
  | DeviceError Device Device
  | DtypeError Dtype Dtype
  | ShapeError "nat list"
  | DimError int nat
  | IndexError int nat
  | ItemError nat
  | NoBlob nat

definition bind_e :: "error + 'a \<Rightarrow> ('a \<Rightarrow> error + 'b) \<Rightarrow> error + 'b" where
  "bind_e m f = (case m of Inl e \<Rightarrow> Inl e | Inr x \<Rightarrow> f x)"

section \<open>Tensors\<close>

text \<open>
  Modelled from the spec: \<open>core::Tensor\<close> (open3d/core/Tensor.h is not among the sources).
  The spec names it as a collaborator "with device/dtype metadata and a GetLength()".
  A tensor is its shape, its dtype tag, its device and its data. The data of a tensor
  value are its elements, a list in row-major order; the data of a tensor in a store
  (the last sections) are the address of the blob that holds its elements. Floating
  elements are real numbers: rounding is not modelled. Index elements are integers; no
  arithmetic is done on them.
\<close>

record 'd Tensor =
  shape :: "nat list"
  dtype :: Dtype
  device :: Device
  data :: 'd

text \<open>Modelled from the spec: \<open>Tensor::GetLength\<close>, the first dimension; a 0-dimensional
  tensor has none.\<close>

definition GetLength :: "'a Tensor \<Rightarrow> error + nat" where
  "GetLength t = (case shape t of [] \<Rightarrow> Inl (ShapeError []) | n # _ \<Rightarrow> Inr n)"

text \<open>Modelled from the spec: \<open>Tensor::AssertDevice\<close> and \<open>Tensor::AssertDtype\<close>.\<close>

definition AssertDevice :: "'a Tensor \<Rightarrow> Device \<Rightarrow> error + unit" where
  "AssertDevice t d = (if device t = d then Inr () else Inl (DeviceError (device t) d))"

definition AssertDtype :: "'a Tensor \<Rightarrow> Dtype \<Rightarrow> error + unit" where
  "AssertDtype t d = (if dtype t = d then Inr () else Inl (DtypeError (dtype t) d))"

text \<open>Modelled from the spec: \<open>Tensor::AssertShapeCompatible\<close>; \<open>None\<close> is
  \<open>utility::nullopt\<close>, a dimension of any size.\<close>

definition AssertShapeCompatible :: "'a Tensor \<Rightarrow> nat option list \<Rightarrow> error + unit" where
  "AssertShapeCompatible t dyn =
     (if list_all2 (\<lambda>n d. d = None \<or> d = Some n) (shape t) dyn then Inr ()
      else Inl (ShapeError (shape t)))"

section \<open>The attribute store\<close>

text \<open>
  Modelled from the spec: \<open>TensorMap\<close> (open3d/t/geometry/TensorMap.h is not among the
  sources), "generic mapping from attribute name to a tensor". \<open>at_key\<close> is
  \<open>std::unordered_map::at\<close>; \<open>Erase\<close> follows the comment of
  \<open>LineSet::RemovePointAttr\<close>: the primary attribute cannot be removed.
\<close>

type_synonym 'a TensorMap = "string \<rightharpoonup> 'a Tensor"

definition Contains :: "'a TensorMap \<Rightarrow> string \<Rightarrow> bool" where
  "Contains m key = (m key \<noteq> None)"

definition at_key :: "'a TensorMap \<Rightarrow> string \<Rightarrow> error + 'a Tensor" where
  "at_key m key = (case m key of None \<Rightarrow> Inl (OutOfRange key) | Some t \<Rightarrow> Inr t)"

definition Erase :: "string \<Rightarrow> 'a TensorMap \<Rightarrow> string \<Rightarrow> error + 'a TensorMap" where
  "Erase primary_key m key =
     (if key = primary_key then Inl (LogError ''Primary key cannot be deleted.'')
      else Inr (m(key := None)))"

section \<open>LineSet\<close>

record 'a LineSet =
  ls_device :: Device
  point_attr :: "'a TensorMap"
  line_attr :: "'a TensorMap"

text \<open>\<open>LineSet(const core::Device &device)\<close>: an empty line set on the device.\<close>

definition LineSet_new :: "Device \<Rightarrow> 'a LineSet" where
  "LineSet_new d = \<lparr>ls_device = d, point_attr = Map.empty, line_attr = Map.empty\<rparr>"

definition GetPointAttr :: "'a LineSet \<Rightarrow> string \<Rightarrow> error + 'a Tensor" where
  "GetPointAttr ls key = at_key (point_attr ls) key"

definition GetPointPositions :: "'a LineSet \<Rightarrow> error + 'a Tensor" where
  "GetPointPositions ls = GetPointAttr ls ''positions''"

definition GetLineAttr :: "'a LineSet \<Rightarrow> string \<Rightarrow> error + 'a Tensor" where
  "GetLineAttr ls key = at_key (line_attr ls) key"

definition GetLineIndices :: "'a LineSet \<Rightarrow> error + 'a Tensor" where
  "GetLineIndices ls = GetLineAttr ls ''indices''"

definition RemovePointAttr :: "'a LineSet \<Rightarrow> string \<Rightarrow> error + 'a LineSet" where
  "RemovePointAttr ls key =
     bind_e (Erase ''positions'' (point_attr ls) key) (\<lambda>m. Inr (ls\<lparr>point_attr := m\<rparr>))"

definition RemoveLineAttr :: "'a LineSet \<Rightarrow> string \<Rightarrow> error + 'a LineSet" where
  "RemoveLineAttr ls key =
     bind_e (Erase ''indices'' (line_attr ls) key) (\<lambda>m. Inr (ls\<lparr>line_attr := m\<rparr>))"

definition SetPointAttr :: "'a LineSet \<Rightarrow> string \<Rightarrow> 'a Tensor \<Rightarrow> error + 'a LineSet" where
  "SetPointAttr ls key v =
     bind_e (AssertDevice v (ls_device ls))
       (\<lambda>_. Inr (ls\<lparr>point_attr := (point_attr ls)(key \<mapsto> v)\<rparr>))"

definition SetPointPositions :: "'a LineSet \<Rightarrow> 'a Tensor \<Rightarrow> error + 'a LineSet" where
  "SetPointPositions ls v =
     bind_e (AssertShapeCompatible v [None, Some 3])
       (\<lambda>_. SetPointAttr ls ''positions'' v)"

definition SetLineAttr :: "'a LineSet \<Rightarrow> string \<Rightarrow> 'a Tensor \<Rightarrow> error + 'a LineSet" where
  "SetLineAttr ls key v =
     bind_e (AssertDevice v (ls_device ls))
       (\<lambda>_. Inr (ls\<lparr>line_attr := (line_attr ls)(key \<mapsto> v)\<rparr>))"

definition SetLineIndices :: "'a LineSet \<Rightarrow> 'a Tensor \<Rightarrow> error + 'a LineSet" where
  "SetLineIndices ls v =
     bind_e (AssertShapeCompatible v [None, Some 2])
       (\<lambda>_. SetLineAttr ls ''indices'' v)"

definition SetLineColors :: "'a LineSet \<Rightarrow> 'a Tensor \<Rightarrow> error + 'a LineSet" where
  "SetLineColors ls v =
     bind_e (AssertShapeCompatible v [None, Some 3])
       (\<lambda>_. SetLineAttr ls ''colors'' v)"

text \<open>
  \<open>HasPointAttr\<close>: the conjunction is evaluated left to right and stops at the first
  false conjunct, so the getters run only for a key the map contains; the last conjunct
  reads "positions" with \<open>at_key\<close>, which throws when that key is absent.
\<close>

definition HasPointAttr :: "'a LineSet \<Rightarrow> string \<Rightarrow> error + bool" where
  "HasPointAttr ls key =
     (if \<not> Contains (point_attr ls) key then Inr False
      else bind_e (GetPointAttr ls key) (\<lambda>t.
           bind_e (GetLength t) (\<lambda>n.
           if \<not> 0 < n then Inr False
           else bind_e (GetPointAttr ls key) (\<lambda>t'.
                bind_e (GetLength t') (\<lambda>n'.
                bind_e (GetPointPositions ls) (\<lambda>p.
                bind_e (GetLength p) (\<lambda>np.
                Inr (n' = np))))))))"

definition HasPointPositions :: "'a LineSet \<Rightarrow> error + bool" where
  "HasPointPositions ls = HasPointAttr ls ''positions''"

definition HasLineAttr :: "'a LineSet \<Rightarrow> string \<Rightarrow> error + bool" where
  "HasLineAttr ls key =
     (if \<not> Contains (line_attr ls) key then Inr False
      else bind_e (GetLineAttr ls key) (\<lambda>t.
           bind_e (GetLength t) (\<lambda>n.
           if \<not> 0 < n then Inr False
           else bind_e (GetLineAttr ls key) (\<lambda>t'.
                bind_e (GetLength t') (\<lambda>n'.
                bind_e (GetLineIndices ls) (\<lambda>p.
                bind_e (GetLength p) (\<lambda>np.
                Inr (n' = np))))))))"

definition Clear :: "'a LineSet \<Rightarrow> 'a LineSet" where
  "Clear ls = ls\<lparr>point_attr := Map.empty, line_attr := Map.empty\<rparr>"

text \<open>
  The member functions of the header that change a line set, as one type of calls.
  A call that throws leaves the object as it was: each setter asserts before it assigns.
\<close>

datatype 'a LineSetCall =
    CallSetPointAttr string "'a Tensor"
  | CallSetPointPositions "'a Tensor"
  | CallSetLineAttr string "'a Tensor"
  | CallSetLineIndices "'a Tensor"
  | CallSetLineColors "'a Tensor"
  | CallRemovePointAttr string
  | CallRemoveLineAttr string
  | CallClear

fun call :: "'a LineSet \<Rightarrow> 'a LineSetCall \<Rightarrow> error + 'a LineSet" where
  "call ls (CallSetPointAttr key v) = SetPointAttr ls key v"
| "call ls (CallSetPointPositions v) = SetPointPositions ls v"
| "call ls (CallSetLineAttr key v) = SetLineAttr ls key v"
| "call ls (CallSetLineIndices v) = SetLineIndices ls v"
| "call ls (CallSetLineColors v) = SetLineColors ls v"
| "call ls (CallRemovePointAttr key) = RemovePointAttr ls key"
| "call ls (CallRemoveLineAttr key) = RemoveLineAttr ls key"
| "call ls CallClear = Inr (Clear ls)"

definition after_call :: "'a LineSet \<Rightarrow> 'a LineSetCall \<Rightarrow> 'a LineSet" where
  "after_call ls c = (case call ls c of Inl e \<Rightarrow> ls | Inr ls' \<Rightarrow> ls')"

definition after_calls :: "'a LineSet \<Rightarrow> 'a LineSetCall list \<Rightarrow> 'a LineSet" where
  "after_calls ls cs = foldl after_call ls cs"

text \<open>The invariant: every stored point and line attribute is on the line set's device.\<close>

definition on_device :: "'a LineSet \<Rightarrow> bool" where
  "on_device ls =
     ((\<forall>t \<in> ran (point_attr ls). device t = ls_device ls) \<and>
      (\<forall>t \<in> ran (line_attr ls). device t = ls_device ls))"

section \<open>Tensor primitives\<close>

text \<open>
  Modelled from the spec: the primitives of \<open>core::Tensor\<close> the estimators call
  ("element-wise arithmetic, reductions, gather/indexing"; their code is not among the
  sources). Shapes follow the usual broadcasting rules; \<open>Mul_inplace\<close> and
  \<open>Add_inplace\<close> are the in-place \<open>Mul_\<close> and \<open>Add_\<close> and give the new value of
  their receiver.
\<close>

fun map_e :: "('a \<Rightarrow> error + 'b) \<Rightarrow> 'a list \<Rightarrow> error + 'b list" where
  "map_e f [] = Inr []"
| "map_e f (x # xs) = bind_e (f x) (\<lambda>y. bind_e (map_e f xs) (\<lambda>ys. Inr (y # ys)))"

text \<open>\<open>chunk k d i\<close> is the \<open>i\<close>-th block of \<open>k\<close> elements; \<open>row t i\<close> is the
  \<open>i\<close>-th entry of \<open>t\<close> along its first dimension.\<close>

definition chunk :: "nat \<Rightarrow> 'a list \<Rightarrow> nat \<Rightarrow> 'a list" where
  "chunk k d i = take k (drop (i * k) d)"

definition row :: "'a list Tensor \<Rightarrow> nat \<Rightarrow> 'a list" where
  "row t i = chunk (prod_list (tl (shape t))) (data t) i"

definition Ne :: "'a list Tensor \<Rightarrow> 'a \<Rightarrow> bool list Tensor" where
  "Ne t v = \<lparr>shape = shape t, dtype = Bool, device = device t,
             data = map (\<lambda>x. x \<noteq> v) (data t)\<rparr>"

text \<open>\<open>Reshape({-1})\<close>: the same data as one dimension.\<close>

definition Reshape_flat :: "'d Tensor \<Rightarrow> 'd Tensor" where
  "Reshape_flat t = t\<lparr>shape := [prod_list (shape t)]\<rparr>"

text \<open>An index \<open>i\<close> into a dimension of size \<open>n\<close>: a negative index counts from the
  end; an index outside \<open>[-n, n)\<close> is an error.\<close>

definition wrap_index :: "nat \<Rightarrow> int \<Rightarrow> error + nat" where
  "wrap_index n i =
     (let j = (if i < 0 then i + int n else i)
      in if 0 \<le> j \<and> j < int n then Inr (nat j) else Inl (IndexError i n))"

text \<open>\<open>IndexGet({index})\<close> with an Int64 index tensor: the entries of the first
  dimension that the indices name, in the order of the indices.\<close>

definition IndexGet :: "'a list Tensor \<Rightarrow> int list Tensor \<Rightarrow> error + 'a list Tensor" where
  "IndexGet t idx =
     (case shape t of
        [] \<Rightarrow> Inl (ShapeError [])
      | n # s \<Rightarrow>
          if dtype idx \<noteq> Int64 then Inl (DtypeError (dtype idx) Int64)
          else bind_e (map_e (wrap_index n) (data idx)) (\<lambda>js.
               Inr \<lparr>shape = shape idx @ s, dtype = dtype t, device = device t,
                    data = concat (map (row t) js)\<rparr>))"

text \<open>The positions of the true elements of a mask, as the Int64 index tensor that
  indexing by a boolean mask uses.\<close>

definition NonZero :: "bool list Tensor \<Rightarrow> int list Tensor" where
  "NonZero m =
     (let js = filter (\<lambda>i. data m ! i) [0..<length (data m)]
      in \<lparr>shape = [length js], dtype = Int64, device = device m, data = map int js\<rparr>)"

text \<open>\<open>IndexGet({mask})\<close> with a one-dimensional Bool tensor.\<close>

definition IndexGet_mask :: "'a list Tensor \<Rightarrow> bool list Tensor \<Rightarrow> error + 'a list Tensor" where
  "IndexGet_mask t m =
     (if dtype m \<noteq> Bool then Inl (DtypeError (dtype m) Bool)
      else if length (shape m) \<noteq> 1 then Inl (ShapeError (shape m))
      else IndexGet t (NonZero m))"

text \<open>Broadcasting: shapes are aligned at their last dimension; two sizes agree when
  they are equal or one of them is 1.\<close>

fun broadcast_rev :: "nat list \<Rightarrow> nat list \<Rightarrow> nat list option" where
  "broadcast_rev [] ys = Some ys"
| "broadcast_rev xs [] = Some xs"
| "broadcast_rev (x # xs) (y # ys) =
     (if x = y \<or> y = 1 then map_option ((#) x) (broadcast_rev xs ys)
      else if x = 1 then map_option ((#) y) (broadcast_rev xs ys)
      else None)"

definition BroadcastedShape :: "nat list \<Rightarrow> nat list \<Rightarrow> error + nat list" where
  "BroadcastedShape a b =
     (case broadcast_rev (rev a) (rev b) of
        None \<Rightarrow> Inl (ShapeError a)
      | Some r \<Rightarrow> Inr (rev r))"

text \<open>\<open>expand s out d\<close>: the elements \<open>d\<close> of a tensor of shape \<open>s\<close> repeated to the
  shape \<open>out\<close> of the same rank, each dimension of size 1 stretched.\<close>

fun expand :: "nat list \<Rightarrow> nat list \<Rightarrow> 'a list \<Rightarrow> 'a list" where
  "expand (a # s) (b # out) d =
     (if a = b then concat (map (\<lambda>i. expand s out (chunk (prod_list s) d i)) [0..<a])
      else concat (replicate b (expand s out d)))"
| "expand s out d = d"

definition broadcast_to :: "nat list \<Rightarrow> 'a list Tensor \<Rightarrow> 'a list" where
  "broadcast_to out t =
     expand (replicate (length out - length (shape t)) 1 @ shape t) out (data t)"

text \<open>A binary element-wise operation: operands on one device and of one dtype, the
  result of the broadcast shape.\<close>

definition BinaryEW ::
  "('a \<Rightarrow> 'a \<Rightarrow> 'a) \<Rightarrow> 'a list Tensor \<Rightarrow> 'a list Tensor \<Rightarrow> error + 'a list Tensor" where
  "BinaryEW f a b =
     (if device a \<noteq> device b then Inl (DeviceError (device b) (device a))
      else if dtype a \<noteq> dtype b then Inl (DtypeError (dtype b) (dtype a))
      else bind_e (BroadcastedShape (shape a) (shape b)) (\<lambda>out.
           Inr \<lparr>shape = out, dtype = dtype a, device = device a,
                data = map2 f (broadcast_to out a) (broadcast_to out b)\<rparr>))"

text \<open>The in-place form: the result must have the shape of the receiver.\<close>

definition BinaryEW_inplace ::
  "('a \<Rightarrow> 'a \<Rightarrow> 'a) \<Rightarrow> 'a list Tensor \<Rightarrow> 'a list Tensor \<Rightarrow> error + 'a list Tensor" where
  "BinaryEW_inplace f a b =
     bind_e (BinaryEW f a b) (\<lambda>r.
       if shape r = shape a then Inr r else Inl (ShapeError (shape r)))"

definition Sub :: "real list Tensor \<Rightarrow> real list Tensor \<Rightarrow> error + real list Tensor" where
  "Sub = BinaryEW (-)"

definition Mul :: "real list Tensor \<Rightarrow> real list Tensor \<Rightarrow> error + real list Tensor" where
  "Mul = BinaryEW (*)"

definition Add :: "real list Tensor \<Rightarrow> real list Tensor \<Rightarrow> error + real list Tensor" where
  "Add = BinaryEW (+)"

definition Mul_inplace :: "real list Tensor \<Rightarrow> real list Tensor \<Rightarrow> error + real list Tensor" where
  "Mul_inplace = BinaryEW_inplace (*)"

definition Add_inplace :: "real list Tensor \<Rightarrow> real list Tensor \<Rightarrow> error + real list Tensor" where
  "Add_inplace = BinaryEW_inplace (+)"

text \<open>\<open>Mul(scalar)\<close>: every element times the scalar.\<close>

definition Mul_scalar :: "real list Tensor \<Rightarrow> real \<Rightarrow> real list Tensor" where
  "Mul_scalar t c = t\<lparr>data := map (\<lambda>x. x * c) (data t)\<rparr>"

text \<open>A reduction dimension \<open>d\<close> of a tensor of rank \<open>r\<close>: \<open>-r \<le> d < r\<close>, a
  negative one counting from the end.\<close>

definition WrapDim :: "nat \<Rightarrow> int \<Rightarrow> error + nat" where
  "WrapDim r d =
     (if r = 0 \<or> d < - int r \<or> int r \<le> d then Inl (DimError d r)
      else Inr (nat (if d < 0 then d + int r else d)))"

fun sum_axis :: "nat \<Rightarrow> nat list \<Rightarrow> real list \<Rightarrow> real list" where
  "sum_axis 0 (a # s) d =
     foldr (map2 (+)) (map (chunk (prod_list s) d) [0..<a]) (replicate (prod_list s) 0)"
| "sum_axis (Suc j) (a # s) d =
     concat (map (\<lambda>i. sum_axis j s (chunk (prod_list s) d i)) [0..<a])"
| "sum_axis j [] d = d"

definition drop_axis :: "nat \<Rightarrow> nat list \<Rightarrow> nat list" where
  "drop_axis j s = take j s @ drop (Suc j) s"

definition reduce_axis :: "real list Tensor \<Rightarrow> nat \<Rightarrow> real list Tensor" where
  "reduce_axis t j = t\<lparr>shape := drop_axis j (shape t), data := sum_axis j (shape t) (data t)\<rparr>"

text \<open>\<open>Sum(dims)\<close>: the dimensions are checked, must not repeat, and are summed away
  from the last to the first.\<close>

definition Sum :: "real list Tensor \<Rightarrow> int list \<Rightarrow> error + real list Tensor" where
  "Sum t dims =
     bind_e (map_e (WrapDim (length (shape t))) dims) (\<lambda>axes.
       if \<not> distinct axes then Inl (DimError (int (length axes)) (length (shape t)))
       else Inr (foldl reduce_axis t (rev (sort axes))))"

text \<open>\<open>Mean(dims)\<close>: the sum divided by the number of elements summed into each entry.\<close>

definition Mean :: "real list Tensor \<Rightarrow> int list \<Rightarrow> error + real list Tensor" where
  "Mean t dims =
     bind_e (Sum t dims) (\<lambda>s.
       Inr (s\<lparr>data := map (\<lambda>x. x / real (prod_list (shape t) div prod_list (shape s)))
                        (data s)\<rparr>))"

definition To :: "'a list Tensor \<Rightarrow> Dtype \<Rightarrow> 'a list Tensor" where
  "To t d = t\<lparr>dtype := d\<rparr>"

text \<open>\<open>Item<double>()\<close>: the value of a tensor of exactly one element.\<close>

definition Item :: "'a list Tensor \<Rightarrow> error + 'a" where
  "Item t =
     (case data t of
        [x] \<Rightarrow> if prod_list (shape t) = 1 then Inr x else Inl (ItemError (prod_list (shape t)))
      | _ \<Rightarrow> Inl (ItemError (prod_list (shape t))))"

section \<open>Doubles\<close>

text \<open>
  The value a function returns as a \<open>double\<close>: a real number, an infinity or NaN.
  Division follows IEEE 754 where the divisor is zero; rounding is not modelled.
\<close>

datatype double = Finite real | PosInf | NegInf | NaN

definition ddiv :: "real \<Rightarrow> real \<Rightarrow> double" where
  "ddiv x y =
     (if y \<noteq> 0 then Finite (x / y)
      else if x = 0 then NaN
      else if 0 < x then PosInf else NegInf)"

fun dsqrt :: "double \<Rightarrow> double" where
  "dsqrt (Finite x) = (if x < 0 then NaN else Finite (sqrt x))"
| "dsqrt PosInf = PosInf"
| "dsqrt NegInf = NaN"
| "dsqrt NaN = NaN"

section \<open>PointCloud\<close>

text \<open>
  Modelled from the spec: \<open>t::geometry::PointCloud\<close> (PointCloud.h is not among the
  sources). It "owns a "positions" attribute" and optional "normals", "colors" and
  "color_gradients" in the same attribute store as a line set, and "attributes are
  considered valid only if present, non-empty, and of length equal to the point count":
  the check is the one \<open>LineSet::HasPointAttr\<close> makes, on the point cloud's store.
  \<open>GetPoints\<close> reads "positions".
\<close>

record 'd PointCloud =
  pc_device :: Device
  pc_point_attr :: "'d TensorMap"

definition GetDevice :: "'d PointCloud \<Rightarrow> Device" where
  "GetDevice pc = pc_device pc"

definition pc_GetPointAttr :: "'d PointCloud \<Rightarrow> string \<Rightarrow> error + 'd Tensor" where
  "pc_GetPointAttr pc key = at_key (pc_point_attr pc) key"

definition GetPoints :: "'d PointCloud \<Rightarrow> error + 'd Tensor" where
  "GetPoints pc = pc_GetPointAttr pc ''positions''"

definition GetPointNormals :: "'d PointCloud \<Rightarrow> error + 'd Tensor" where
  "GetPointNormals pc = pc_GetPointAttr pc ''normals''"

definition GetPointColors :: "'d PointCloud \<Rightarrow> error + 'd Tensor" where
  "GetPointColors pc = pc_GetPointAttr pc ''colors''"

definition pc_HasPointAttr :: "'d PointCloud \<Rightarrow> string \<Rightarrow> error + bool" where
  "pc_HasPointAttr pc key =
     (if \<not> Contains (pc_point_attr pc) key then Inr False
      else bind_e (pc_GetPointAttr pc key) (\<lambda>t.
           bind_e (GetLength t) (\<lambda>n.
           if \<not> 0 < n then Inr False
           else bind_e (pc_GetPointAttr pc key) (\<lambda>t'.
                bind_e (GetLength t') (\<lambda>n'.
                bind_e (GetPoints pc) (\<lambda>p.
                bind_e (GetLength p) (\<lambda>np.
                Inr (n' = np))))))))"

definition HasPointNormals :: "'d PointCloud \<Rightarrow> error + bool" where
  "HasPointNormals pc = pc_HasPointAttr pc ''normals''"

definition HasPointColors :: "'d PointCloud \<Rightarrow> error + bool" where
  "HasPointColors pc = pc_HasPointAttr pc ''colors''"

section \<open>Transformation estimation\<close>

text \<open>
  The three estimators of TransformationEstimation.cpp. Each definition follows its
  function statement by statement; a \<open>utility::LogError\<close> is the error with the
  message, the devices left out of it.
\<close>

subsection \<open>Point to point\<close>

definition ComputeRMSE_PointToPoint ::
  "real list PointCloud \<Rightarrow> real list PointCloud \<Rightarrow> int list Tensor \<Rightarrow> error + double" where
  "ComputeRMSE_PointToPoint source target correspondences =
     (let source_device = GetDevice source in
      bind_e (GetPoints target) (\<lambda>target_points.
      bind_e (GetPoints source) (\<lambda>source_points.
      bind_e (AssertDtype target_points (dtype source_points)) (\<lambda>_.
      if GetDevice target \<noteq> source_device
      then Inl (LogError ''Target Pointcloud device != Source Pointcloud device.'')
      else
        let valid = Reshape_flat (Ne correspondences (- 1)) in
        bind_e (IndexGet_mask correspondences valid) (\<lambda>gathered.
        let neighbour_indices = Reshape_flat gathered in
        bind_e (IndexGet_mask source_points valid) (\<lambda>source_points_indexed.
        bind_e (IndexGet target_points neighbour_indices) (\<lambda>target_points_indexed.
        bind_e (Sub source_points_indexed target_points_indexed) (\<lambda>difference.
        bind_e (Mul_inplace difference difference) (\<lambda>error_t.
        bind_e (Sum error_t [0, 1]) (\<lambda>total.
        bind_e (Item (To total Float64)) (\<lambda>error.
        bind_e (GetLength neighbour_indices) (\<lambda>n.
        Inr (dsqrt (ddiv error (real n)))))))))))))))"

text \<open>\<open>ComputeTransformation\<close> calls \<open>kernel::ComputeRtPointToPoint\<close> and
  \<open>kernel::RtToTransformation\<close>, which are not among the sources: they are parameters.\<close>

definition ComputeTransformation_PointToPoint ::
  "(real list Tensor \<Rightarrow> real list Tensor \<Rightarrow> int list Tensor \<Rightarrow> error + real list Tensor \<times> real list Tensor) \<Rightarrow>
   (real list Tensor \<Rightarrow> real list Tensor \<Rightarrow> error + real list Tensor) \<Rightarrow>
   real list PointCloud \<Rightarrow> real list PointCloud \<Rightarrow> int list Tensor \<Rightarrow> error + real list Tensor" where
  "ComputeTransformation_PointToPoint ComputeRtPointToPoint RtToTransformation
       source target correspondences =
     bind_e (GetPoints source) (\<lambda>source_points.
     bind_e (GetPoints target) (\<lambda>target_points.
     bind_e (ComputeRtPointToPoint source_points target_points correspondences) (\<lambda>(R, t).
     RtToTransformation R t)))"

subsection \<open>Point to plane\<close>

definition ComputeRMSE_PointToPlane ::
  "real list PointCloud \<Rightarrow> real list PointCloud \<Rightarrow> int list Tensor \<Rightarrow> error + double" where
  "ComputeRMSE_PointToPlane source target correspondences =
     bind_e (HasPointNormals target) (\<lambda>has_normals.
     if \<not> has_normals then Inl (LogError ''Target pointcloud missing normals attribute.'')
     else
       let source_device = GetDevice source in
       bind_e (GetPoints target) (\<lambda>target_points.
       bind_e (AssertDevice target_points source_device) (\<lambda>_.
       bind_e (AssertDevice correspondences source_device) (\<lambda>_.
       bind_e (GetPoints source) (\<lambda>source_points.
       let source_dtype = dtype source_points in
       bind_e (AssertDtype target_points source_dtype) (\<lambda>_.
       bind_e (GetPointNormals target) (\<lambda>target_normals.
       bind_e (AssertDtype target_normals source_dtype) (\<lambda>_.
       bind_e (AssertDtype correspondences Int64) (\<lambda>_.
       let valid = Reshape_flat (Ne correspondences (- 1)) in
       bind_e (IndexGet_mask correspondences valid) (\<lambda>gathered.
       let neighbour_indices = Reshape_flat gathered in
       bind_e (IndexGet_mask source_points valid) (\<lambda>source_points_indexed.
       bind_e (IndexGet target_points neighbour_indices) (\<lambda>target_points_indexed.
       bind_e (IndexGet target_normals neighbour_indices) (\<lambda>target_normals_indexed.
       bind_e (Sub source_points_indexed target_points_indexed) (\<lambda>difference.
       bind_e (Mul_inplace difference target_normals_indexed) (\<lambda>product.
       bind_e (Mul_inplace product product) (\<lambda>error_t.
       bind_e (Sum error_t [0, 1]) (\<lambda>total.
       bind_e (Item (To total Float64)) (\<lambda>error.
       bind_e (GetLength neighbour_indices) (\<lambda>n.
       Inr (dsqrt (ddiv error (real n))))))))))))))))))))))"

text \<open>\<open>kernel::ComputePosePointToPlane\<close> and \<open>kernel::PoseToTransformation\<close> are
  parameters; \<open>robust_kernel\<close> is the member \<open>kernel_\<close>.\<close>

definition ComputeTransformation_PointToPlane ::
  "(real list Tensor \<Rightarrow> real list Tensor \<Rightarrow> real list Tensor \<Rightarrow> int list Tensor \<Rightarrow> 'k \<Rightarrow> error + real list Tensor) \<Rightarrow>
   (real list Tensor \<Rightarrow> error + real list Tensor) \<Rightarrow> 'k \<Rightarrow>
   real list PointCloud \<Rightarrow> real list PointCloud \<Rightarrow> int list Tensor \<Rightarrow> error + real list Tensor" where
  "ComputeTransformation_PointToPlane ComputePosePointToPlane PoseToTransformation robust_kernel
       source target correspondences =
     bind_e (HasPointNormals target) (\<lambda>has_normals.
     if \<not> has_normals then Inl (LogError ''Target pointcloud missing normals attribute.'')
     else
       bind_e (GetPoints source) (\<lambda>source_points.
       bind_e (GetPoints target) (\<lambda>target_points.
       bind_e (GetPointNormals target) (\<lambda>target_normals.
       bind_e (ComputePosePointToPlane source_points target_points target_normals
                 correspondences robust_kernel) (\<lambda>pose.
       PoseToTransformation pose)))))"

subsection \<open>Colored ICP\<close>

text \<open>
  The attribute checks the two functions of the colored estimator share. The first
  condition is \<open>!target.HasPointColors() || !source.HasPointColors()\<close>: the source is
  asked only when the target has colors.
\<close>

definition ColoredICP_attributes :: "'d PointCloud \<Rightarrow> 'd PointCloud \<Rightarrow> error + unit" where
  "ColoredICP_attributes source target =
     bind_e (HasPointColors target) (\<lambda>target_colors.
     bind_e (if \<not> target_colors then Inr True
             else bind_e (HasPointColors source) (\<lambda>source_colors. Inr (\<not> source_colors)))
       (\<lambda>missing_colors.
     if missing_colors
     then Inl (LogError ''Source and/or Target pointcloud missing colors attribute.'')
     else
       bind_e (HasPointNormals target) (\<lambda>has_normals.
       if \<not> has_normals then Inl (LogError ''Target pointcloud missing normals attribute.'')
       else
         bind_e (pc_HasPointAttr target ''color_gradients'') (\<lambda>has_gradients.
         if \<not> has_gradients
         then Inl (LogError ''Target pointcloud missing color_gradients attribute.'')
         else Inr ()))))"

text \<open>
  \<open>lambda_geometric\<close> is the member \<open>lambda_geometric_\<close>, a weight in \<open>[0, 1]\<close>; on a
  negative argument the \<open>sqrt\<close> of C gives NaN, which a real number does not model.
\<close>

definition ComputeRMSE_ColoredICP ::
  "real \<Rightarrow> real list PointCloud \<Rightarrow> real list PointCloud \<Rightarrow> int list Tensor \<Rightarrow> error + double" where
  "ComputeRMSE_ColoredICP lambda_geometric source target correspondences =
     bind_e (ColoredICP_attributes source target) (\<lambda>_.
     bind_e (GetPoints source) (\<lambda>source_points.
     let source_device = device source_points in
     bind_e (GetPoints target) (\<lambda>target_points.
     bind_e (AssertDevice target_points source_device) (\<lambda>_.
     bind_e (AssertDevice correspondences source_device) (\<lambda>_.
     let source_dtype = dtype source_points in
     bind_e (GetPointColors source) (\<lambda>source_colors.
     bind_e (AssertDtype source_colors source_dtype) (\<lambda>_.
     bind_e (AssertDtype target_points source_dtype) (\<lambda>_.
     bind_e (GetPointNormals target) (\<lambda>target_normals.
     bind_e (AssertDtype target_normals source_dtype) (\<lambda>_.
     bind_e (GetPointColors target) (\<lambda>target_colors.
     bind_e (AssertDtype target_colors source_dtype) (\<lambda>_.
     bind_e (pc_GetPointAttr target ''color_gradients'') (\<lambda>target_gradients.
     bind_e (AssertDtype target_gradients source_dtype) (\<lambda>_.
     bind_e (AssertDtype correspondences Int64) (\<lambda>_.
     let sqrt_lambda_geometric = sqrt lambda_geometric;
         lambda_photometric = 1 - lambda_geometric;
         sqrt_lambda_photometric = sqrt lambda_photometric;
         valid = Reshape_flat (Ne correspondences (- 1)) in
     bind_e (IndexGet_mask correspondences valid) (\<lambda>gathered.
     let neighbour_indices = Reshape_flat gathered in
     bind_e (IndexGet_mask source_points valid) (\<lambda>vs.
     bind_e (IndexGet_mask source_colors valid) (\<lambda>cs.
     bind_e (IndexGet target_points neighbour_indices) (\<lambda>vt.
     bind_e (IndexGet target_normals neighbour_indices) (\<lambda>nt.
     bind_e (IndexGet target_colors neighbour_indices) (\<lambda>ct.
     bind_e (IndexGet target_gradients neighbour_indices) (\<lambda>dit.
     bind_e (Sub vs vt) (\<lambda>vs_minus_vt.
     bind_e (Mul vs_minus_vt nt) (\<lambda>along_normal.
     bind_e (Sum along_normal [1]) (\<lambda>d.
     bind_e (Mul d nt) (\<lambda>d_nt.
     bind_e (Sub vs d_nt) (\<lambda>vs_proj.
     bind_e (Mean cs [1]) (\<lambda>is.
     bind_e (Mean ct [1]) (\<lambda>it.
     bind_e (Sub vs_proj vt) (\<lambda>vs_proj_minus_vt.
     bind_e (Mul dit vs_proj_minus_vt) (\<lambda>gradient_term.
     bind_e (Sum gradient_term [1]) (\<lambda>gradient_sum.
     bind_e (Add gradient_sum it) (\<lambda>is_proj.
     bind_e (Sum (Mul_scalar d sqrt_lambda_geometric) [1]) (\<lambda>residual_geometric.
     bind_e (Mul residual_geometric residual_geometric) (\<lambda>sq_residual_geometric.
     bind_e (Sub is is_proj) (\<lambda>is_minus_is_proj.
     bind_e (Sum (Mul_scalar is_minus_is_proj sqrt_lambda_photometric) [1])
       (\<lambda>residual_photometric.
     bind_e (Mul residual_photometric residual_photometric) (\<lambda>sq_residual_photometric.
     bind_e (Add_inplace sq_residual_geometric sq_residual_photometric) (\<lambda>sq_residual.
     bind_e (Sum sq_residual [0]) (\<lambda>total.
     bind_e (Item (To total Float64)) (\<lambda>residual.
     Inr (Finite residual))))))))))))))))))))))))))))))))))))))))))"

text \<open>\<open>kernel::ComputePoseColoredICP\<close> and \<open>kernel::PoseToTransformation\<close> are
  parameters.\<close>

definition ComputeTransformation_ColoredICP ::
  "(real list Tensor \<Rightarrow> real list Tensor \<Rightarrow> real list Tensor \<Rightarrow> real list Tensor \<Rightarrow> real list Tensor \<Rightarrow> real list Tensor \<Rightarrow>
      int list Tensor \<Rightarrow> 'k \<Rightarrow> real \<Rightarrow> error + real list Tensor) \<Rightarrow>
   (real list Tensor \<Rightarrow> error + real list Tensor) \<Rightarrow> 'k \<Rightarrow> real \<Rightarrow>
   real list PointCloud \<Rightarrow> real list PointCloud \<Rightarrow> int list Tensor \<Rightarrow> error + real list Tensor" where
  "ComputeTransformation_ColoredICP ComputePoseColoredICP PoseToTransformation robust_kernel
       lambda_geometric source target correspondences =
     bind_e (ColoredICP_attributes source target) (\<lambda>_.
     bind_e (GetPoints source) (\<lambda>source_points.
     bind_e (GetPointColors source) (\<lambda>source_colors.
     bind_e (GetPoints target) (\<lambda>target_points.
     bind_e (GetPointNormals target) (\<lambda>target_normals.
     bind_e (GetPointColors target) (\<lambda>target_colors.
     bind_e (pc_GetPointAttr target ''color_gradients'') (\<lambda>target_gradients.
     bind_e (ComputePoseColoredICP source_points source_colors target_points target_normals
               target_colors target_gradients correspondences robust_kernel lambda_geometric)
       (\<lambda>pose.
     PoseToTransformation pose))))))))"

subsection \<open>The kernels\<close>

text \<open>
  Modelled from the spec: \<open>kernel::ComputeRtPointToPoint\<close>,
  \<open>kernel::ComputePosePointToPlane\<close> and \<open>kernel::ComputePoseColoredICP\<close>
  (open3d/t/pipelines/kernel/ComputeTransform.h is not among the sources).
  \<open>ComputeTransformation\<close> does the "same gather step, then delegates to the matching
  kernel", and a kernel is "given matched source points P and target points Q" (and the
  matched normals, colors and gradients). The gather step is the one \<open>ComputeRMSE\<close>
  writes out. What a kernel computes from the matched tensors, its own checks of them
  included, is not modelled: it is the parameter \<open>solve\<close>.
\<close>

definition gather_source :: "'a list Tensor \<Rightarrow> int list Tensor \<Rightarrow> error + 'a list Tensor" where
  "gather_source t correspondences =
     IndexGet_mask t (Reshape_flat (Ne correspondences (- 1)))"

definition gather_target :: "'a list Tensor \<Rightarrow> int list Tensor \<Rightarrow> error + 'a list Tensor" where
  "gather_target t correspondences =
     bind_e (IndexGet_mask correspondences (Reshape_flat (Ne correspondences (- 1))))
       (\<lambda>gathered. IndexGet t (Reshape_flat gathered))"

definition ComputeRtPointToPoint ::
  "(real list Tensor \<Rightarrow> real list Tensor \<Rightarrow> error + real list Tensor \<times> real list Tensor) \<Rightarrow>
   real list Tensor \<Rightarrow> real list Tensor \<Rightarrow> int list Tensor \<Rightarrow> error + real list Tensor \<times> real list Tensor" where
  "ComputeRtPointToPoint solve source_points target_points correspondences =
     bind_e (gather_source source_points correspondences) (\<lambda>P.
     bind_e (gather_target target_points correspondences) (\<lambda>Q.
     solve P Q))"

definition ComputePosePointToPlane ::
  "(real list Tensor \<Rightarrow> real list Tensor \<Rightarrow> real list Tensor \<Rightarrow> 'k \<Rightarrow> error + real list Tensor) \<Rightarrow>
   real list Tensor \<Rightarrow> real list Tensor \<Rightarrow> real list Tensor \<Rightarrow> int list Tensor \<Rightarrow> 'k \<Rightarrow> error + real list Tensor" where
  "ComputePosePointToPlane solve source_points target_points target_normals correspondences
       robust_kernel =
     bind_e (gather_source source_points correspondences) (\<lambda>P.
     bind_e (gather_target target_points correspondences) (\<lambda>Q.
     bind_e (gather_target target_normals correspondences) (\<lambda>N.
     solve P Q N robust_kernel)))"

definition ComputePoseColoredICP ::
  "(real list Tensor \<Rightarrow> real list Tensor \<Rightarrow> real list Tensor \<Rightarrow> real list Tensor \<Rightarrow> real list Tensor \<Rightarrow> real list Tensor \<Rightarrow>
      'k \<Rightarrow> real \<Rightarrow> error + real list Tensor) \<Rightarrow>
   real list Tensor \<Rightarrow> real list Tensor \<Rightarrow> real list Tensor \<Rightarrow> real list Tensor \<Rightarrow> real list Tensor \<Rightarrow> real list Tensor \<Rightarrow>
      int list Tensor \<Rightarrow> 'k \<Rightarrow> real \<Rightarrow> error + real list Tensor" where
  "ComputePoseColoredICP solve source_points source_colors target_points target_normals
       target_colors target_gradients correspondences robust_kernel lambda_geometric =
     bind_e (gather_source source_points correspondences) (\<lambda>vs.
     bind_e (gather_source source_colors correspondences) (\<lambda>cs.
     bind_e (gather_target target_points correspondences) (\<lambda>vt.
     bind_e (gather_target target_normals correspondences) (\<lambda>nt.
     bind_e (gather_target target_colors correspondences) (\<lambda>ct.
     bind_e (gather_target target_gradients correspondences) (\<lambda>dit.
     solve vs cs vt nt ct dit robust_kernel lambda_geometric))))))"

section \<open>Tensors in a store\<close>

text \<open>
  Modelled from the spec: how the tensors of \<open>core::Tensor\<close> share memory ("kernels
  allocate new tensors for intermediate gathered subsets and the final transform";
  "source mutates temporaries via compound operators"). A tensor of the program is a
  handle: shape, dtype, device and the address of the blob that holds its elements.
  A store maps addresses to blobs, apart for floating, index and boolean elements, and
  knows the next unused address. An operation that makes a tensor allocates a blob at
  the next unused address; an in-place operation overwrites the blob of its receiver;
  \<open>Reshape\<close> gives a view, a handle on the same blob. A blob is never freed. A handle
  without its blob (\<open>NoBlob\<close>) does not arise from handles that were allocated.
\<close>

record store =
  floats :: "nat \<rightharpoonup> real list"
  indices :: "nat \<rightharpoonup> int list"
  masks :: "nat \<rightharpoonup> bool list"
  next_blob :: nat

text \<open>A computation on the store returns a result or an error and the store it leaves.\<close>

definition bind_s ::
  "(store \<Rightarrow> (error + 'a) \<times> store) \<Rightarrow> ('a \<Rightarrow> store \<Rightarrow> (error + 'b) \<times> store) \<Rightarrow>
   store \<Rightarrow> (error + 'b) \<times> store" where
  "bind_s c f s = (case c s of (Inl e, s') \<Rightarrow> (Inl e, s') | (Inr x, s') \<Rightarrow> f x s')"

definition pure_s :: "error + 'a \<Rightarrow> store \<Rightarrow> (error + 'a) \<times> store" where
  "pure_s r s = (r, s)"

definition with_data :: "'d Tensor \<Rightarrow> 'e \<Rightarrow> 'e Tensor" where
  "with_data t x = \<lparr>shape = shape t, dtype = dtype t, device = device t, data = x\<rparr>"

definition load_floats :: "nat Tensor \<Rightarrow> store \<Rightarrow> (error + real list Tensor) \<times> store" where
  "load_floats h s =
     (case floats s (data h) of
        None \<Rightarrow> (Inl (NoBlob (data h)), s)
      | Some xs \<Rightarrow> (Inr (with_data h xs), s))"

definition load_indices :: "nat Tensor \<Rightarrow> store \<Rightarrow> (error + int list Tensor) \<times> store" where
  "load_indices h s =
     (case indices s (data h) of
        None \<Rightarrow> (Inl (NoBlob (data h)), s)
      | Some xs \<Rightarrow> (Inr (with_data h xs), s))"

definition load_masks :: "nat Tensor \<Rightarrow> store \<Rightarrow> (error + bool list Tensor) \<times> store" where
  "load_masks h s =
     (case masks s (data h) of
        None \<Rightarrow> (Inl (NoBlob (data h)), s)
      | Some xs \<Rightarrow> (Inr (with_data h xs), s))"

definition new_floats :: "real list Tensor \<Rightarrow> store \<Rightarrow> (error + nat Tensor) \<times> store" where
  "new_floats t s =
     (Inr (with_data t (next_blob s)),
      s\<lparr>floats := (floats s)(next_blob s \<mapsto> data t), next_blob := Suc (next_blob s)\<rparr>)"

definition new_indices :: "int list Tensor \<Rightarrow> store \<Rightarrow> (error + nat Tensor) \<times> store" where
  "new_indices t s =
     (Inr (with_data t (next_blob s)),
      s\<lparr>indices := (indices s)(next_blob s \<mapsto> data t), next_blob := Suc (next_blob s)\<rparr>)"

definition new_masks :: "bool list Tensor \<Rightarrow> store \<Rightarrow> (error + nat Tensor) \<times> store" where
  "new_masks t s =
     (Inr (with_data t (next_blob s)),
      s\<lparr>masks := (masks s)(next_blob s \<mapsto> data t), next_blob := Suc (next_blob s)\<rparr>)"

text \<open>The in-place write: the elements of \<open>t\<close> go into the blob of the receiver \<open>h\<close>.\<close>

definition write_floats :: "nat Tensor \<Rightarrow> real list Tensor \<Rightarrow> store \<Rightarrow> (error + nat Tensor) \<times> store" where
  "write_floats h t s = (Inr h, s\<lparr>floats := (floats s)(data h \<mapsto> data t)\<rparr>)"

subsection \<open>The primitives on handles\<close>

text \<open>Each primitive loads its operands, computes as the primitive on values does, and
  allocates its result; \<open>Mul_inplace_s\<close> and \<open>Add_inplace_s\<close> write it into their
  receiver instead. \<open>Reshape_flat\<close> serves for handles as it is.\<close>

definition Ne_s :: "nat Tensor \<Rightarrow> int \<Rightarrow> store \<Rightarrow> (error + nat Tensor) \<times> store" where
  "Ne_s h v = bind_s (load_indices h) (\<lambda>t. new_masks (Ne t v))"

definition IndexGet_mask_indices_s ::
  "nat Tensor \<Rightarrow> nat Tensor \<Rightarrow> store \<Rightarrow> (error + nat Tensor) \<times> store" where
  "IndexGet_mask_indices_s h m =
     bind_s (load_indices h) (\<lambda>t.
     bind_s (load_masks m) (\<lambda>mask.
     bind_s (pure_s (IndexGet_mask t mask)) new_indices))"

definition IndexGet_mask_s ::
  "nat Tensor \<Rightarrow> nat Tensor \<Rightarrow> store \<Rightarrow> (error + nat Tensor) \<times> store" where
  "IndexGet_mask_s h m =
     bind_s (load_floats h) (\<lambda>t.
     bind_s (load_masks m) (\<lambda>mask.
     bind_s (pure_s (IndexGet_mask t mask)) new_floats))"

definition IndexGet_s ::
  "nat Tensor \<Rightarrow> nat Tensor \<Rightarrow> store \<Rightarrow> (error + nat Tensor) \<times> store" where
  "IndexGet_s h i =
     bind_s (load_floats h) (\<lambda>t.
     bind_s (load_indices i) (\<lambda>idx.
     bind_s (pure_s (IndexGet t idx)) new_floats))"

definition binary_s ::
  "(real list Tensor \<Rightarrow> real list Tensor \<Rightarrow> error + real list Tensor) \<Rightarrow>
   nat Tensor \<Rightarrow> nat Tensor \<Rightarrow> store \<Rightarrow> (error + nat Tensor) \<times> store" where
  "binary_s f a b =
     bind_s (load_floats a) (\<lambda>x.
     bind_s (load_floats b) (\<lambda>y.
     bind_s (pure_s (f x y)) new_floats))"

definition binary_inplace_s ::
  "(real list Tensor \<Rightarrow> real list Tensor \<Rightarrow> error + real list Tensor) \<Rightarrow>
   nat Tensor \<Rightarrow> nat Tensor \<Rightarrow> store \<Rightarrow> (error + nat Tensor) \<times> store" where
  "binary_inplace_s f a b =
     bind_s (load_floats a) (\<lambda>x.
     bind_s (load_floats b) (\<lambda>y.
     bind_s (pure_s (f x y)) (write_floats a)))"

definition Sub_s :: "nat Tensor \<Rightarrow> nat Tensor \<Rightarrow> store \<Rightarrow> (error + nat Tensor) \<times> store" where
  "Sub_s = binary_s Sub"

definition Mul_s :: "nat Tensor \<Rightarrow> nat Tensor \<Rightarrow> store \<Rightarrow> (error + nat Tensor) \<times> store" where
  "Mul_s = binary_s Mul"

definition Add_s :: "nat Tensor \<Rightarrow> nat Tensor \<Rightarrow> store \<Rightarrow> (error + nat Tensor) \<times> store" where
  "Add_s = binary_s Add"

definition Mul_inplace_s :: "nat Tensor \<Rightarrow> nat Tensor \<Rightarrow> store \<Rightarrow> (error + nat Tensor) \<times> store" where
  "Mul_inplace_s = binary_inplace_s Mul_inplace"

definition Add_inplace_s :: "nat Tensor \<Rightarrow> nat Tensor \<Rightarrow> store \<Rightarrow> (error + nat Tensor) \<times> store" where
  "Add_inplace_s = binary_inplace_s Add_inplace"

definition Mul_scalar_s :: "nat Tensor \<Rightarrow> real \<Rightarrow> store \<Rightarrow> (error + nat Tensor) \<times> store" where
  "Mul_scalar_s h c = bind_s (load_floats h) (\<lambda>t. new_floats (Mul_scalar t c))"

definition Sum_s :: "nat Tensor \<Rightarrow> int list \<Rightarrow> store \<Rightarrow> (error + nat Tensor) \<times> store" where
  "Sum_s h dims = bind_s (load_floats h) (\<lambda>t. bind_s (pure_s (Sum t dims)) new_floats)"

definition Mean_s :: "nat Tensor \<Rightarrow> int list \<Rightarrow> store \<Rightarrow> (error + nat Tensor) \<times> store" where
  "Mean_s h dims = bind_s (load_floats h) (\<lambda>t. bind_s (pure_s (Mean t dims)) new_floats)"

text \<open>\<open>To(dtype)\<close> gives the tensor itself where it has the dtype, a new tensor
  otherwise.\<close>

definition To_s :: "nat Tensor \<Rightarrow> Dtype \<Rightarrow> store \<Rightarrow> (error + nat Tensor) \<times> store" where
  "To_s h d =
     (if dtype h = d then pure_s (Inr h)
      else bind_s (load_floats h) (\<lambda>t. new_floats (To t d)))"

definition Item_s :: "nat Tensor \<Rightarrow> store \<Rightarrow> (error + real) \<times> store" where
  "Item_s h = bind_s (load_floats h) (\<lambda>t. pure_s (Item t))"

subsection \<open>The estimators on handles\<close>

text \<open>
  The functions of TransformationEstimation.cpp again, statement by statement, on
  point clouds and correspondences that are handles into a store. The attribute, device
  and dtype checks read the handles only.
\<close>

definition ComputeRMSE_PointToPoint_s ::
  "nat PointCloud \<Rightarrow> nat PointCloud \<Rightarrow> nat Tensor \<Rightarrow> store \<Rightarrow> (error + double) \<times> store" where
  "ComputeRMSE_PointToPoint_s source target correspondences =
     (let source_device = GetDevice source in
      bind_s (pure_s (GetPoints target)) (\<lambda>target_points.
      bind_s (pure_s (GetPoints source)) (\<lambda>source_points.
      bind_s (pure_s (AssertDtype target_points (dtype source_points))) (\<lambda>_.
      if GetDevice target \<noteq> source_device
      then pure_s (Inl (LogError ''Target Pointcloud device != Source Pointcloud device.''))
      else
        bind_s (Ne_s correspondences (- 1)) (\<lambda>unequal.
        let valid = Reshape_flat unequal in
        bind_s (IndexGet_mask_indices_s correspondences valid) (\<lambda>gathered.
        let neighbour_indices = Reshape_flat gathered in
        bind_s (IndexGet_mask_s source_points valid) (\<lambda>source_points_indexed.
        bind_s (IndexGet_s target_points neighbour_indices) (\<lambda>target_points_indexed.
        bind_s (Sub_s source_points_indexed target_points_indexed) (\<lambda>error_t.
        bind_s (Mul_inplace_s error_t error_t) (\<lambda>_.
        bind_s (Sum_s error_t [0, 1]) (\<lambda>total.
        bind_s (To_s total Float64) (\<lambda>total64.
        bind_s (Item_s total64) (\<lambda>error.
        bind_s (pure_s (GetLength neighbour_indices)) (\<lambda>n.
        pure_s (Inr (dsqrt (ddiv error (real n))))))))))))))))))"

definition ComputeRMSE_PointToPlane_s ::
  "nat PointCloud \<Rightarrow> nat PointCloud \<Rightarrow> nat Tensor \<Rightarrow> store \<Rightarrow> (error + double) \<times> store" where
  "ComputeRMSE_PointToPlane_s source target correspondences =
     bind_s (pure_s (HasPointNormals target)) (\<lambda>has_normals.
     if \<not> has_normals
     then pure_s (Inl (LogError ''Target pointcloud missing normals attribute.''))
     else
       let source_device = GetDevice source in
       bind_s (pure_s (GetPoints target)) (\<lambda>target_points.
       bind_s (pure_s (AssertDevice target_points source_device)) (\<lambda>_.
       bind_s (pure_s (AssertDevice correspondences source_device)) (\<lambda>_.
       bind_s (pure_s (GetPoints source)) (\<lambda>source_points.
       let source_dtype = dtype source_points in
       bind_s (pure_s (AssertDtype target_points source_dtype)) (\<lambda>_.
       bind_s (pure_s (GetPointNormals target)) (\<lambda>target_normals.
       bind_s (pure_s (AssertDtype target_normals source_dtype)) (\<lambda>_.
       bind_s (pure_s (AssertDtype correspondences Int64)) (\<lambda>_.
       bind_s (Ne_s correspondences (- 1)) (\<lambda>unequal.
       let valid = Reshape_flat unequal in
       bind_s (IndexGet_mask_indices_s correspondences valid) (\<lambda>gathered.
       let neighbour_indices = Reshape_flat gathered in
       bind_s (IndexGet_mask_s source_points valid) (\<lambda>source_points_indexed.
       bind_s (IndexGet_s target_points neighbour_indices) (\<lambda>target_points_indexed.
       bind_s (IndexGet_s target_normals neighbour_indices) (\<lambda>target_normals_indexed.
       bind_s (Sub_s source_points_indexed target_points_indexed) (\<lambda>difference.
       bind_s (Mul_inplace_s difference target_normals_indexed) (\<lambda>error_t.
       bind_s (Mul_inplace_s error_t error_t) (\<lambda>_.
       bind_s (Sum_s error_t [0, 1]) (\<lambda>total.
       bind_s (To_s total Float64) (\<lambda>total64.
       bind_s (Item_s total64) (\<lambda>error.
       bind_s (pure_s (GetLength neighbour_indices)) (\<lambda>n.
       pure_s (Inr (dsqrt (ddiv error (real n)))))))))))))))))))))))))"

definition ComputeRMSE_ColoredICP_s ::
  "real \<Rightarrow> nat PointCloud \<Rightarrow> nat PointCloud \<Rightarrow> nat Tensor \<Rightarrow> store \<Rightarrow> (error + double) \<times> store" where
  "ComputeRMSE_ColoredICP_s lambda_geometric source target correspondences =
     bind_s (pure_s (ColoredICP_attributes source target)) (\<lambda>_.
     bind_s (pure_s (GetPoints source)) (\<lambda>source_points.
     let source_device = device source_points in
     bind_s (pure_s (GetPoints target)) (\<lambda>target_points.
     bind_s (pure_s (AssertDevice target_points source_device)) (\<lambda>_.
     bind_s (pure_s (AssertDevice correspondences source_device)) (\<lambda>_.
     let source_dtype = dtype source_points in
     bind_s (pure_s (GetPointColors source)) (\<lambda>source_colors.
     bind_s (pure_s (AssertDtype source_colors source_dtype)) (\<lambda>_.
     bind_s (pure_s (AssertDtype target_points source_dtype)) (\<lambda>_.
     bind_s (pure_s (GetPointNormals target)) (\<lambda>target_normals.
     bind_s (pure_s (AssertDtype target_normals source_dtype)) (\<lambda>_.
     bind_s (pure_s (GetPointColors target)) (\<lambda>target_colors.
     bind_s (pure_s (AssertDtype target_colors source_dtype)) (\<lambda>_.
     bind_s (pure_s (pc_GetPointAttr target ''color_gradients'')) (\<lambda>target_gradients.
     bind_s (pure_s (AssertDtype target_gradients source_dtype)) (\<lambda>_.
     bind_s (pure_s (AssertDtype correspondences Int64)) (\<lambda>_.
     let sqrt_lambda_geometric = sqrt lambda_geometric;
         lambda_photometric = 1 - lambda_geometric;
         sqrt_lambda_photometric = sqrt lambda_photometric in
     bind_s (Ne_s correspondences (- 1)) (\<lambda>unequal.
     let valid = Reshape_flat unequal in
     bind_s (IndexGet_mask_indices_s correspondences valid) (\<lambda>gathered.
     let neighbour_indices = Reshape_flat gathered in
     bind_s (IndexGet_mask_s source_points valid) (\<lambda>vs.
     bind_s (IndexGet_mask_s source_colors valid) (\<lambda>cs.
     bind_s (IndexGet_s target_points neighbour_indices) (\<lambda>vt.
     bind_s (IndexGet_s target_normals neighbour_indices) (\<lambda>nt.
     bind_s (IndexGet_s target_colors neighbour_indices) (\<lambda>ct.
     bind_s (IndexGet_s target_gradients neighbour_indices) (\<lambda>dit.
     bind_s (Sub_s vs vt) (\<lambda>vs_minus_vt.
     bind_s (Mul_s vs_minus_vt nt) (\<lambda>along_normal.
     bind_s (Sum_s along_normal [1]) (\<lambda>d.
     bind_s (Mul_s d nt) (\<lambda>d_nt.
     bind_s (Sub_s vs d_nt) (\<lambda>vs_proj.
     bind_s (Mean_s cs [1]) (\<lambda>is.
     bind_s (Mean_s ct [1]) (\<lambda>it.
     bind_s (Sub_s vs_proj vt) (\<lambda>vs_proj_minus_vt.
     bind_s (Mul_s dit vs_proj_minus_vt) (\<lambda>gradient_term.
     bind_s (Sum_s gradient_term [1]) (\<lambda>gradient_sum.
     bind_s (Add_s gradient_sum it) (\<lambda>is_proj.
     bind_s (Mul_scalar_s d sqrt_lambda_geometric) (\<lambda>d_scaled.
     bind_s (Sum_s d_scaled [1]) (\<lambda>residual_geometric.
     bind_s (Mul_s residual_geometric residual_geometric) (\<lambda>sq_residual_geometric.
     bind_s (Sub_s is is_proj) (\<lambda>is_minus_is_proj.
     bind_s (Mul_scalar_s is_minus_is_proj sqrt_lambda_photometric) (\<lambda>photometric_scaled.
     bind_s (Sum_s photometric_scaled [1]) (\<lambda>residual_photometric.
     bind_s (Mul_s residual_photometric residual_photometric) (\<lambda>sq_residual_photometric.
     bind_s (Add_inplace_s sq_residual_geometric sq_residual_photometric) (\<lambda>sq_residual.
     bind_s (Sum_s sq_residual [0]) (\<lambda>total.
     bind_s (To_s total Float64) (\<lambda>total64.
     bind_s (Item_s total64) (\<lambda>residual.
     pure_s (Inr (Finite residual)))))))))))))))))))))))))))))))))))))))))))))))"

subsection \<open>The kernels on handles\<close>

text \<open>
  Modelled from the spec: the kernels "allocate new tensors for intermediate gathered
  subsets and the final transform". The gather step is the one of \<open>ComputeRMSE\<close>; what
  is computed from the matched tensors is the parameter \<open>solve\<close>, a function of their
  values, and its result is allocated. \<open>RtToTransformation_s\<close> and
  \<open>PoseToTransformation_s\<close> allocate the transformation they build.
\<close>

definition gather_source_s ::
  "nat Tensor \<Rightarrow> nat Tensor \<Rightarrow> store \<Rightarrow> (error + nat Tensor) \<times> store" where
  "gather_source_s t correspondences =
     bind_s (Ne_s correspondences (- 1)) (\<lambda>unequal.
     IndexGet_mask_s t (Reshape_flat unequal))"

definition gather_target_s ::
  "nat Tensor \<Rightarrow> nat Tensor \<Rightarrow> store \<Rightarrow> (error + nat Tensor) \<times> store" where
  "gather_target_s t correspondences =
     bind_s (Ne_s correspondences (- 1)) (\<lambda>unequal.
     bind_s (IndexGet_mask_indices_s correspondences (Reshape_flat unequal)) (\<lambda>gathered.
     IndexGet_s t (Reshape_flat gathered)))"

definition ComputeRtPointToPoint_s ::
  "(real list Tensor \<Rightarrow> real list Tensor \<Rightarrow> error + real list Tensor \<times> real list Tensor) \<Rightarrow>
   nat Tensor \<Rightarrow> nat Tensor \<Rightarrow> nat Tensor \<Rightarrow> store \<Rightarrow> (error + nat Tensor \<times> nat Tensor) \<times> store" where
  "ComputeRtPointToPoint_s solve source_points target_points correspondences =
     bind_s (gather_source_s source_points correspondences) (\<lambda>P.
     bind_s (gather_target_s target_points correspondences) (\<lambda>Q.
     bind_s (load_floats P) (\<lambda>P_values.
     bind_s (load_floats Q) (\<lambda>Q_values.
     bind_s (pure_s (solve P_values Q_values)) (\<lambda>Rt.
     bind_s (new_floats (fst Rt)) (\<lambda>R.
     bind_s (new_floats (snd Rt)) (\<lambda>t.
     pure_s (Inr (R, t)))))))))"

definition RtToTransformation_s ::
  "(real list Tensor \<Rightarrow> real list Tensor \<Rightarrow> error + real list Tensor) \<Rightarrow>
   nat Tensor \<Rightarrow> nat Tensor \<Rightarrow> store \<Rightarrow> (error + nat Tensor) \<times> store" where
  "RtToTransformation_s convert R t =
     bind_s (load_floats R) (\<lambda>R_values.
     bind_s (load_floats t) (\<lambda>t_values.
     bind_s (pure_s (convert R_values t_values)) new_floats))"

definition ComputePosePointToPlane_s ::
  "(real list Tensor \<Rightarrow> real list Tensor \<Rightarrow> real list Tensor \<Rightarrow> 'k \<Rightarrow> error + real list Tensor) \<Rightarrow>
   nat Tensor \<Rightarrow> nat Tensor \<Rightarrow> nat Tensor \<Rightarrow> nat Tensor \<Rightarrow> 'k \<Rightarrow>
   store \<Rightarrow> (error + nat Tensor) \<times> store" where
  "ComputePosePointToPlane_s solve source_points target_points target_normals correspondences
       robust_kernel =
     bind_s (gather_source_s source_points correspondences) (\<lambda>P.
     bind_s (gather_target_s target_points correspondences) (\<lambda>Q.
     bind_s (gather_target_s target_normals correspondences) (\<lambda>N.
     bind_s (load_floats P) (\<lambda>P_values.
     bind_s (load_floats Q) (\<lambda>Q_values.
     bind_s (load_floats N) (\<lambda>N_values.
     bind_s (pure_s (solve P_values Q_values N_values robust_kernel)) new_floats))))))"

definition PoseToTransformation_s ::
  "(real list Tensor \<Rightarrow> error + real list Tensor) \<Rightarrow>
   nat Tensor \<Rightarrow> store \<Rightarrow> (error + nat Tensor) \<times> store" where
  "PoseToTransformation_s convert pose =
     bind_s (load_floats pose) (\<lambda>pose_values.
     bind_s (pure_s (convert pose_values)) new_floats)"

definition ComputePoseColoredICP_s ::
  "(real list Tensor \<Rightarrow> real list Tensor \<Rightarrow> real list Tensor \<Rightarrow> real list Tensor \<Rightarrow>
      real list Tensor \<Rightarrow> real list Tensor \<Rightarrow> 'k \<Rightarrow> real \<Rightarrow> error + real list Tensor) \<Rightarrow>
   nat Tensor \<Rightarrow> nat Tensor \<Rightarrow> nat Tensor \<Rightarrow> nat Tensor \<Rightarrow> nat Tensor \<Rightarrow> nat Tensor \<Rightarrow>
      nat Tensor \<Rightarrow> 'k \<Rightarrow> real \<Rightarrow> store \<Rightarrow> (error + nat Tensor) \<times> store" where
  "ComputePoseColoredICP_s solve source_points source_colors target_points target_normals
       target_colors target_gradients correspondences robust_kernel lambda_geometric =
     bind_s (gather_source_s source_points correspondences) (\<lambda>vs.
     bind_s (gather_source_s source_colors correspondences) (\<lambda>cs.
     bind_s (gather_target_s target_points correspondences) (\<lambda>vt.
     bind_s (gather_target_s target_normals correspondences) (\<lambda>nt.
     bind_s (gather_target_s target_colors correspondences) (\<lambda>ct.
     bind_s (gather_target_s target_gradients correspondences) (\<lambda>dit.
     bind_s (load_floats vs) (\<lambda>vs_values.
     bind_s (load_floats cs) (\<lambda>cs_values.
     bind_s (load_floats vt) (\<lambda>vt_values.
     bind_s (load_floats nt) (\<lambda>nt_values.
     bind_s (load_floats ct) (\<lambda>ct_values.
     bind_s (load_floats dit) (\<lambda>dit_values.
     bind_s (pure_s (solve vs_values cs_values vt_values nt_values ct_values dit_values
                       robust_kernel lambda_geometric)) new_floats))))))))))))"

subsection \<open>The transformations on handles\<close>

text \<open>The three \<open>ComputeTransformation\<close> of TransformationEstimation.cpp, with the
  kernels above.\<close>

definition ComputeTransformation_PointToPoint_s ::
  "(real list Tensor \<Rightarrow> real list Tensor \<Rightarrow> error + real list Tensor \<times> real list Tensor) \<Rightarrow>
   (real list Tensor \<Rightarrow> real list Tensor \<Rightarrow> error + real list Tensor) \<Rightarrow>
   nat PointCloud \<Rightarrow> nat PointCloud \<Rightarrow> nat Tensor \<Rightarrow> store \<Rightarrow> (error + nat Tensor) \<times> store" where
  "ComputeTransformation_PointToPoint_s solve convert source target correspondences =
     bind_s (pure_s (GetPoints source)) (\<lambda>source_points.
     bind_s (pure_s (GetPoints target)) (\<lambda>target_points.
     bind_s (ComputeRtPointToPoint_s solve source_points target_points correspondences) (\<lambda>Rt.
     RtToTransformation_s convert (fst Rt) (snd Rt))))"

definition ComputeTransformation_PointToPlane_s ::
  "(real list Tensor \<Rightarrow> real list Tensor \<Rightarrow> real list Tensor \<Rightarrow> 'k \<Rightarrow> error + real list Tensor) \<Rightarrow>
   (real list Tensor \<Rightarrow> error + real list Tensor) \<Rightarrow> 'k \<Rightarrow>
   nat PointCloud \<Rightarrow> nat PointCloud \<Rightarrow> nat Tensor \<Rightarrow> store \<Rightarrow> (error + nat Tensor) \<times> store" where
  "ComputeTransformation_PointToPlane_s solve convert robust_kernel source target
       correspondences =
     bind_s (pure_s (HasPointNormals target)) (\<lambda>has_normals.
     if \<not> has_normals
     then pure_s (Inl (LogError ''Target pointcloud missing normals attribute.''))
     else
       bind_s (pure_s (GetPoints source)) (\<lambda>source_points.
       bind_s (pure_s (GetPoints target)) (\<lambda>target_points.
       bind_s (pure_s (GetPointNormals target)) (\<lambda>target_normals.
       bind_s (ComputePosePointToPlane_s solve source_points target_points target_normals
                 correspondences robust_kernel) (\<lambda>pose.
       PoseToTransformation_s convert pose)))))"

definition ComputeTransformation_ColoredICP_s ::
  "(real list Tensor \<Rightarrow> real list Tensor \<Rightarrow> real list Tensor \<Rightarrow> real list Tensor \<Rightarrow>
      real list Tensor \<Rightarrow> real list Tensor \<Rightarrow> 'k \<Rightarrow> real \<Rightarrow> error + real list Tensor) \<Rightarrow>
   (real list Tensor \<Rightarrow> error + real list Tensor) \<Rightarrow> 'k \<Rightarrow> real \<Rightarrow>
   nat PointCloud \<Rightarrow> nat PointCloud \<Rightarrow> nat Tensor \<Rightarrow> store \<Rightarrow> (error + nat Tensor) \<times> store" where
  "ComputeTransformation_ColoredICP_s solve convert robust_kernel lambda_geometric source
       target correspondences =
     bind_s (pure_s (ColoredICP_attributes source target)) (\<lambda>_.
     bind_s (pure_s (GetPoints source)) (\<lambda>source_points.
     bind_s (pure_s (GetPointColors source)) (\<lambda>source_colors.
     bind_s (pure_s (GetPoints target)) (\<lambda>target_points.
     bind_s (pure_s (GetPointNormals target)) (\<lambda>target_normals.
     bind_s (pure_s (GetPointColors target)) (\<lambda>target_colors.
     bind_s (pure_s (pc_GetPointAttr target ''color_gradients'')) (\<lambda>target_gradients.
     bind_s (ComputePoseColoredICP_s solve source_points source_colors target_points
               target_normals target_colors target_gradients correspondences robust_kernel
               lambda_geometric) (\<lambda>pose.
     PoseToTransformation_s convert pose))))))))"

subsection \<open>Reading a store\<close>

text \<open>\<open>load_cloud s pc\<close> is the point cloud of the values that the handles of \<open>pc\<close>
  have in \<open>s\<close>; \<open>cloud_in s pc\<close> says that every attribute of \<open>pc\<close> has its blob in
  \<open>s\<close>, at an address in use. \<open>result_value\<close> reads the tensor that a computation
  returns from the store it leaves.\<close>

definition load_cloud :: "store \<Rightarrow> nat PointCloud \<Rightarrow> real list PointCloud" where
  "load_cloud s pc =
     \<lparr>pc_device = pc_device pc,
      pc_point_attr = (\<lambda>key. case pc_point_attr pc key of
                         None \<Rightarrow> None
                       | Some h \<Rightarrow> map_option (with_data h) (floats s (data h)))\<rparr>"

definition cloud_in :: "store \<Rightarrow> nat PointCloud \<Rightarrow> bool" where
  "cloud_in s pc =
     (\<forall>key h. pc_point_attr pc key = Some h \<longrightarrow>
        data h < next_blob s \<and> floats s (data h) \<noteq> None)"

definition result_value :: "(error + nat Tensor) \<times> store \<Rightarrow> error + real list Tensor" where
  "result_value rs =
     (case fst rs of Inl e \<Rightarrow> Inl e | Inr h \<Rightarrow> fst (load_floats h (snd rs)))"

subsection \<open>What a computation leaves alone\<close>

text \<open>\<open>same_blob a s s'\<close>: the address \<open>a\<close> holds in \<open>s'\<close> what it holds in \<open>s\<close>.
  \<open>keeps b Q c\<close>: started in a store whose addresses below \<open>b\<close> are in use, \<open>c\<close>
  changes no blob below \<open>b\<close>, frees no address, and what it returns satisfies \<open>Q\<close>.
  \<open>fresh b h\<close>: the blob of \<open>h\<close> is not below \<open>b\<close>.\<close>

definition same_blob :: "nat \<Rightarrow> store \<Rightarrow> store \<Rightarrow> bool" where
  "same_blob a s s' =
     (floats s' a = floats s a \<and> indices s' a = indices s a \<and> masks s' a = masks s a)"

definition keeps :: "nat \<Rightarrow> ('a \<Rightarrow> bool) \<Rightarrow> (store \<Rightarrow> (error + 'a) \<times> store) \<Rightarrow> bool" where
  "keeps b Q c =
     (\<forall>s. b \<le> next_blob s \<longrightarrow>
        b \<le> next_blob (snd (c s)) \<and> (\<forall>a<b. same_blob a s (snd (c s))) \<and>
        (\<forall>x. fst (c s) = Inr x \<longrightarrow> Q x))"

definition fresh :: "nat \<Rightarrow> nat Tensor \<Rightarrow> bool" where
  "fresh b h = (b \<le> data h)"

section \<open>Well-formed inputs\<close>

text \<open>
  A tensor holds as many elements as its shape says. The correspondences of a source of
  \<open>n\<close> points and a target of \<open>m\<close> points are one entry per source point, each
  either the sentinel \<open>-1\<close> or the index of a target point.
\<close>

definition wf_tensor :: "'a list Tensor \<Rightarrow> bool" where
  "wf_tensor t = (length (data t) = prod_list (shape t))"

definition correspondences_ok :: "int list Tensor \<Rightarrow> nat \<Rightarrow> nat \<Rightarrow> bool" where
  "correspondences_ok cors n m =
     (shape cors = [n] \<and> length (data cors) = n \<and>
      (\<forall>c \<in> set (data cors). c = - 1 \<or> (0 \<le> c \<and> c < int m)))"

text \<open>The source indices with a valid correspondence, in increasing order, and the rows
  of a source and of a target tensor that they select.\<close>

definition valid_indices :: "int list Tensor \<Rightarrow> nat list" where
  "valid_indices cors = filter (\<lambda>i. data cors ! i \<noteq> - 1) [0..<length (data cors)]"

definition gathered_source :: "'a list Tensor \<Rightarrow> int list Tensor \<Rightarrow> 'a list list" where
  "gathered_source t cors = map (row t) (valid_indices cors)"

definition gathered_target :: "'a list Tensor \<Rightarrow> int list Tensor \<Rightarrow> 'a list list" where
  "gathered_target t cors = map (\<lambda>i. row t (nat (data cors ! i))) (valid_indices cors)"

section \<open>Example inputs\<close>

definition cpu :: Device where
  "cpu = Device ''CPU:0''"

definition cuda :: Device where
  "cuda = Device ''CUDA:0''"

definition float_tensor :: "nat list \<Rightarrow> real list \<Rightarrow> real list Tensor" where
  "float_tensor s xs = \<lparr>shape = s, dtype = Float32, device = cpu, data = xs\<rparr>"

definition index_tensor :: "int list \<Rightarrow> int list Tensor" where
  "index_tensor xs = \<lparr>shape = [length xs], dtype = Int64, device = cpu, data = xs\<rparr>"

text \<open>A source of two points and a target of one point with a unit normal; the first
  source point is matched with the target point, the second with none.\<close>

definition source2 :: "real list PointCloud" where
  "source2 = \<lparr>pc_device = cpu, pc_point_attr =
     [''positions'' \<mapsto> float_tensor [2, 3] [1, 1, 0,  5, 5, 5],
      ''colors'' \<mapsto> float_tensor [2, 3] [1, 1, 1,  0, 0, 0]]\<rparr>"

definition target1 :: "real list PointCloud" where
  "target1 = \<lparr>pc_device = cpu, pc_point_attr =
     [''positions'' \<mapsto> float_tensor [1, 3] [0, 0, 0],
      ''normals'' \<mapsto> float_tensor [1, 3] [3 / 5, 4 / 5, 0],
      ''colors'' \<mapsto> float_tensor [1, 3] [1, 1, 1],
      ''color_gradients'' \<mapsto> float_tensor [1, 3] [0, 0, 0]]\<rparr>"

definition cors2 :: "int list Tensor" where
  "cors2 = index_tensor [0, - 1]"

definition unmatched2 :: "int list Tensor" where
  "unmatched2 = index_tensor [- 1, - 1]"

section \<open>What the specification says of the point-to-plane RMSE\<close>

text \<open>
  The value the specification gives to the point-to-plane RMSE, in its words: the
  square root of the sum, over the valid correspondences, of the squared dot product of
  the target normal with the displacement of the source point from the target point,
  divided by the number of valid correspondences.
\<close>

definition claimed_PointToPlane_RMSE ::
  "real list Tensor \<Rightarrow> real list Tensor \<Rightarrow> real list Tensor \<Rightarrow> int list Tensor \<Rightarrow> real" where
  "claimed_PointToPlane_RMSE sp tp tn cors =
     sqrt ((\<Sum>i \<in> {i. i < length (data cors) \<and> data cors ! i \<noteq> - 1}.
              (\<Sum>k<3. row tn (nat (data cors ! i)) ! k
                        * (row sp i ! k - row tp (nat (data cors ! i)) ! k))\<^sup>2)
           / real (card {i. i < length (data cors) \<and> data cors ! i \<noteq> - 1}))"

text \<open>The correspondences \<open>cors2\<close> on another device; a target with positions only; a
  weight of the colored estimator.\<close>

definition cors2_cuda :: "int list Tensor" where
  "cors2_cuda = cors2\<lparr>device := cuda\<rparr>"

definition target_bare :: "real list PointCloud" where
  "target_bare = \<lparr>pc_device = cpu, pc_point_attr =
     [''positions'' \<mapsto> float_tensor [1, 3] [0, 0, 0]]\<rparr>"

definition lambda_example :: real where
  "lambda_example = 968 / 1000"

text \<open>Targets that lack the normals only, and the color gradients only.\<close>

definition target_colors :: "real list PointCloud" where
  "target_colors = \<lparr>pc_device = cpu, pc_point_attr =
     [''positions'' \<mapsto> float_tensor [1, 3] [0, 0, 0],
      ''colors'' \<mapsto> float_tensor [1, 3] [1, 1, 1]]\<rparr>"

definition target_no_gradients :: "real list PointCloud" where
  "target_no_gradients = \<lparr>pc_device = cpu, pc_point_attr =
     [''positions'' \<mapsto> float_tensor [1, 3] [0, 0, 0],
      ''normals'' \<mapsto> float_tensor [1, 3] [3 / 5, 4 / 5, 0],
      ''colors'' \<mapsto> float_tensor [1, 3] [1, 1, 1]]\<rparr>"

text \<open>Stand-ins for the kernels that \<open>ComputeTransformation\<close> calls: a zero pose and
  the identity transformation.\<close>

definition pose_zero :: "real list Tensor" where
  "pose_zero = \<lparr>shape = [6], dtype = Float64, device = cpu, data = [0, 0, 0, 0, 0, 0]\<rparr>"

definition pose_plane_zero ::
  "real list Tensor \<Rightarrow> real list Tensor \<Rightarrow> real list Tensor \<Rightarrow> int list Tensor \<Rightarrow> unit \<Rightarrow> error + real list Tensor" where
  "pose_plane_zero sp tp tn cors k = Inr pose_zero"

definition pose_colored_zero ::
  "real list Tensor \<Rightarrow> real list Tensor \<Rightarrow> real list Tensor \<Rightarrow> real list Tensor \<Rightarrow> real list Tensor \<Rightarrow> real list Tensor \<Rightarrow>
     int list Tensor \<Rightarrow> unit \<Rightarrow> real \<Rightarrow> error + real list Tensor" where
  "pose_colored_zero sp sc tp tn tc tg cors k l = Inr pose_zero"

definition transformation_identity :: "real list Tensor \<Rightarrow> error + real list Tensor" where
  "transformation_identity pose =
     Inr \<lparr>shape = [4, 4], dtype = Float64, device = cpu,
          data = [1, 0, 0, 0,  0, 1, 0, 0,  0, 0, 1, 0,  0, 0, 0, 1]\<rparr>"

section \<open>Appending unmatched source points\<close>

text \<open>
  \<open>append_rows k xs t\<close> is \<open>t\<close> with \<open>k\<close> more entries along its first dimension, of
  elements \<open>xs\<close>. \<open>append_points k extra pc\<close> gives every attribute of the point cloud
  \<open>k\<close> more entries, those of the attribute \<open>key\<close> being \<open>extra key\<close>;
  \<open>append_unmatched k cors\<close> gives the correspondences \<open>k\<close> more entries \<open>-1\<close>.
\<close>

definition append_rows :: "nat \<Rightarrow> 'a list \<Rightarrow> 'a list Tensor \<Rightarrow> 'a list Tensor" where
  "append_rows k xs t = t\<lparr>shape := (hd (shape t) + k) # tl (shape t), data := data t @ xs\<rparr>"

definition append_points :: "nat \<Rightarrow> (string \<Rightarrow> real list) \<Rightarrow> real list PointCloud \<Rightarrow> real list PointCloud" where
  "append_points k extra pc =
     pc\<lparr>pc_point_attr := (\<lambda>key. map_option (append_rows k (extra key)) (pc_point_attr pc key))\<rparr>"

definition append_unmatched :: "nat \<Rightarrow> int list Tensor \<Rightarrow> int list Tensor" where
  "append_unmatched k cors = append_rows k (replicate k (- 1)) cors"

text \<open>An empty source with colors, its empty correspondences, and one more point.\<close>

definition source0 :: "real list PointCloud" where
  "source0 = \<lparr>pc_device = cpu, pc_point_attr =
     [''positions'' \<mapsto> float_tensor [0, 3] [], ''colors'' \<mapsto> float_tensor [0, 3] []]\<rparr>"

definition cors0 :: "int list Tensor" where
  "cors0 = index_tensor []"

definition extra_point :: "string \<Rightarrow> real list" where
  "extra_point key = (if key = ''positions'' then [5, 5, 5] else [0, 0, 0])"

text \<open>Stand-ins for what a kernel computes from the matched tensors: the number of
  matched pairs, as a tensor.\<close>

definition count_tensor :: "real list Tensor \<Rightarrow> real list Tensor" where
  "count_tensor P = \<lparr>shape = [1], dtype = Float64, device = cpu,
     data = [real (length (data P))]\<rparr>"

definition solve_pairs :: "real list Tensor \<Rightarrow> real list Tensor \<Rightarrow> error + real list Tensor \<times> real list Tensor" where
  "solve_pairs P Q = Inr (count_tensor P, count_tensor Q)"

definition embed_Rt :: "real list Tensor \<Rightarrow> real list Tensor \<Rightarrow> error + real list Tensor" where
  "embed_Rt R t = Inr R"

definition solve_plane :: "real list Tensor \<Rightarrow> real list Tensor \<Rightarrow> real list Tensor \<Rightarrow> unit \<Rightarrow> error + real list Tensor" where
  "solve_plane P Q N k = Inr (count_tensor P)"

definition solve_colored ::
  "real list Tensor \<Rightarrow> real list Tensor \<Rightarrow> real list Tensor \<Rightarrow> real list Tensor \<Rightarrow> real list Tensor \<Rightarrow> real list Tensor \<Rightarrow>
     unit \<Rightarrow> real \<Rightarrow> error + real list Tensor" where
  "solve_colored vs cs vt nt ct dit k l = Inr (count_tensor vs)"

text \<open>The empty source after the extra point, and its correspondences.\<close>

definition source0_extended :: "real list PointCloud" where
  "source0_extended = \<lparr>pc_device = cpu, pc_point_attr =
     [''positions'' \<mapsto> float_tensor [1, 3] [5, 5, 5],
      ''colors'' \<mapsto> float_tensor [1, 3] [0, 0, 0]]\<rparr>"

definition cors0_extended :: "int list Tensor" where
  "cors0_extended = index_tensor [- 1]"

section \<open>The examples in a store\<close>

text \<open>The source \<open>source2\<close>, the target \<open>target1\<close> and the correspondences \<open>cors2\<close> as
  handles into a store of seven blobs.\<close>

definition float_handle :: "nat list \<Rightarrow> nat \<Rightarrow> nat Tensor" where
  "float_handle s a = \<lparr>shape = s, dtype = Float32, device = cpu, data = a\<rparr>"

definition source2_handles :: "nat PointCloud" where
  "source2_handles = \<lparr>pc_device = cpu, pc_point_attr =
     [''positions'' \<mapsto> float_handle [2, 3] 0,
      ''colors'' \<mapsto> float_handle [2, 3] 1]\<rparr>"

definition target1_handles :: "nat PointCloud" where
  "target1_handles = \<lparr>pc_device = cpu, pc_point_attr =
     [''positions'' \<mapsto> float_handle [1, 3] 2,
      ''normals'' \<mapsto> float_handle [1, 3] 3,
      ''colors'' \<mapsto> float_handle [1, 3] 4,
      ''color_gradients'' \<mapsto> float_handle [1, 3] 5]\<rparr>"

definition cors2_handle :: "nat Tensor" where
  "cors2_handle = \<lparr>shape = [2], dtype = Int64, device = cpu, data = 6\<rparr>"

definition store_example :: store where
  "store_example =
     \<lparr>floats = [0 \<mapsto> [1, 1, 0,  5, 5, 5], 1 \<mapsto> [1, 1, 1,  0, 0, 0], 2 \<mapsto> [0, 0, 0],
                3 \<mapsto> [3 / 5, 4 / 5, 0], 4 \<mapsto> [1, 1, 1], 5 \<mapsto> [0, 0, 0]],
      indices = [6 \<mapsto> [0, - 1]],
      masks = Map.empty,
      next_blob = 7\<rparr>"


section \<open>Auxiliary lemmas\<close>

lemma bind_e_Inr [simp]: "bind_e (Inr x) f = f x" by (simp add: bind_e_def)
lemma bind_e_Inl [simp]: "bind_e (Inl e) f = Inl e" by (simp add: bind_e_def)
lemma bind_e_weak_cong: "m = m' \<Longrightarrow> bind_e m f = bind_e m' f" by simp

lemma chunk_take: "i < a \<Longrightarrow> chunk k (take (a * k) d) i = chunk k d i"
proof -
  assume "i < a"
  then have "i * k + k \<le> a * k"
    by (metis mult_Suc mult_le_mono1 less_eq_Suc_le add.commute)
  then show ?thesis
    by (simp add: chunk_def take_drop min_def)
qed

lemma chunk_concat: "length d = a * k \<Longrightarrow> concat (map (chunk k d) [0..<a]) = d"
proof (induction a arbitrary: d rule: nat.induct)
  case zero
  then show ?case by simp
next
  case (Suc a)
  have "map (chunk k d) [0..<a] = map (chunk k (take (a * k) d)) [0..<a]"
    by (simp add: chunk_take)
  moreover have "length (take (a * k) d) = a * k"
    using Suc.prems by simp
  ultimately have "concat (map (chunk k d) [0..<a]) = take (a * k) d"
    using Suc.IH by metis
  moreover have "chunk k d a = drop (a * k) d"
    using Suc.prems by (simp add: chunk_def)
  ultimately show ?case by simp
qed

lemma length_chunk: "length d = a * k \<Longrightarrow> i < a \<Longrightarrow> length (chunk k d i) = k"
proof -
  assume d: "length d = a * k" and i: "i < a"
  from i have "i * k + k \<le> a * k"
    by (metis mult_Suc mult_le_mono1 less_eq_Suc_le add.commute)
  with d show ?thesis by (simp add: chunk_def)
qed

lemma expand_same: "length d = prod_list s \<Longrightarrow> expand s s d = d"
proof (induction s arbitrary: d)
  case Nil
  then show ?case by simp
next
  case (Cons a s)
  have len: "length d = a * prod_list s" using Cons.prems by simp
  have "map (\<lambda>i. expand s s (chunk (prod_list s) d i)) [0..<a] = map (chunk (prod_list s) d) [0..<a]"
    using Cons.IH length_chunk [OF len] by simp
  then have "concat (map (\<lambda>i. expand s s (chunk (prod_list s) d i)) [0..<a]) = d"
    using chunk_concat [OF len] by metis
  then show ?case by simp
qed

lemma broadcast_rev_same: "broadcast_rev xs xs = Some xs"
  by (induction xs) auto

lemma BroadcastedShape_same: "BroadcastedShape s s = Inr s"
  by (simp add: BroadcastedShape_def broadcast_rev_same)

lemma broadcast_to_same: "wf_tensor t \<Longrightarrow> broadcast_to (shape t) t = data t"
  by (simp add: broadcast_to_def wf_tensor_def expand_same)

lemma BinaryEW_same:
  assumes "wf_tensor a" "wf_tensor b" "shape a = shape b" "device a = device b" "dtype a = dtype b"
  shows "BinaryEW f a b = Inr \<lparr>shape = shape a, dtype = dtype a, device = device a,
           data = map2 f (data a) (data b)\<rparr>"
  using assms broadcast_to_same [of a] broadcast_to_same [of b]
  by (simp add: BinaryEW_def BroadcastedShape_same)

lemma BinaryEW_inplace_same:
  assumes "wf_tensor a" "wf_tensor b" "shape a = shape b" "device a = device b" "dtype a = dtype b"
  shows "BinaryEW_inplace f a b = Inr \<lparr>shape = shape a, dtype = dtype a, device = device a,
           data = map2 f (data a) (data b)\<rparr>"
  using assms by (simp add: BinaryEW_inplace_def BinaryEW_same)

lemma foldr_add_singletons: "foldr (map2 (+)) (map (\<lambda>x. [x]) xs) [0::real] = [sum_list xs]"
  by (induction xs) auto

lemma sum_axis_vector: "length c = m \<Longrightarrow> sum_axis 0 [m] c = [sum_list c]"
proof -
  assume len: "length c = m"
  have "map (chunk 1 c) [0..<m] = map (\<lambda>x. [x]) c"
  proof (rule nth_equalityI)
    show "length (map (chunk 1 c) [0..<m]) = length (map (\<lambda>x. [x]) c)" using len by simp
  next
    fix i assume "i < length (map (chunk 1 c) [0..<m])"
    then have i: "i < length c" using len by simp
    then have "take (Suc 0) (drop i c) = [c ! i]"
      by (metis Cons_nth_drop_Suc take0 take_Suc_Cons)
    then show "map (chunk 1 c) [0..<m] ! i = map (\<lambda>x. [x]) c ! i"
      using i len by (simp add: chunk_def)
  qed
  then show ?thesis by (simp add: foldr_add_singletons)
qed

lemma sum_list_concat_real: "sum_list (concat xss) = sum_list (map sum_list (xss :: real list list))"
  by (induction xss) auto

lemma sum_axis_rows:
  "length d = n * k \<Longrightarrow> sum_axis (Suc 0) [n, k] d = map (\<lambda>i. sum_list (chunk k d i)) [0..<n]"
proof -
  assume len: "length d = n * k"
  have "\<And>i. i < n \<Longrightarrow> sum_axis 0 [k] (chunk k d i) = [sum_list (chunk k d i)]"
    using length_chunk [OF len] by (simp add: sum_axis_vector del: sum_axis.simps)
  then have "map (\<lambda>i. sum_axis 0 [k] (chunk k d i)) [0..<n] = map (\<lambda>i. [sum_list (chunk k d i)]) [0..<n]"
    by simp
  then have "concat (map (\<lambda>i. sum_axis 0 [k] (chunk k d i)) [0..<n]) = concat (map (\<lambda>i. [sum_list (chunk k d i)]) [0..<n])"
    by metis
  also have "\<dots> = map (\<lambda>i. sum_list (chunk k d i)) [0..<n]"
    by (induction n) auto
  finally show ?thesis by (simp del: sum_axis.simps(1))
qed

lemma sum_list_chunks: "length d = n * k \<Longrightarrow> sum_list (map (\<lambda>i. sum_list (chunk k d i)) [0..<n]) = sum_list (d :: real list)"
proof -
  assume len: "length d = n * k"
  have "sum_list (map (\<lambda>i. sum_list (chunk k d i)) [0..<n]) = sum_list (concat (map (chunk k d) [0..<n]))"
    by (simp add: sum_list_concat_real comp_def)
  then show ?thesis using chunk_concat [OF len] by simp
qed

lemma Sum_all_matrix:
  assumes "shape t = [n, k]" "wf_tensor t"
  shows "Sum t [0, 1] = Inr \<lparr>shape = [], dtype = dtype t, device = device t, data = [sum_list (data t)]\<rparr>"
proof -
  have len: "length (data t) = n * k" using assms by (simp add: wf_tensor_def)
  have axes: "map_e (WrapDim (length (shape t))) [0, 1] = Inr [0, 1]"
    using assms by (simp add: WrapDim_def)
  have srt: "rev (sort [0, 1::nat]) = [1, 0]" by simp
  have r1: "reduce_axis t 1 = t\<lparr>shape := [n], data := map (\<lambda>i. sum_list (chunk k (data t) i)) [0..<n]\<rparr>"
    using assms len by (simp add: reduce_axis_def drop_axis_def sum_axis_rows del: sum_axis.simps)
  have r0: "reduce_axis (reduce_axis t 1) 0 = t\<lparr>shape := [], data := [sum_list (data t)]\<rparr>"
    unfolding r1 using len
    by (simp add: reduce_axis_def drop_axis_def sum_axis_vector sum_list_chunks del: sum_axis.simps)
  show ?thesis
    unfolding Sum_def axes using r0 srt by (simp del: sort_key_simps)
qed


lemma set_valid_indices:
  "set (valid_indices cors) = {i. i < length (data cors) \<and> data cors ! i \<noteq> - 1}"
  by (auto simp: valid_indices_def)

lemma distinct_valid_indices: "distinct (valid_indices cors)"
  by (simp add: valid_indices_def)

lemma map_nth_valid_indices:
  "map ((!) (data cors)) (valid_indices cors) = filter (\<lambda>c. c \<noteq> - 1) (data cors)"
proof -
  have "map ((!) (data cors)) (valid_indices cors)
      = filter (\<lambda>c. c \<noteq> - 1) (map ((!) (data cors)) [0..<length (data cors)])"
    by (simp add: valid_indices_def filter_map comp_def)
  then show ?thesis by (simp add: map_nth)
qed

lemma NonZero_valid:
  "NonZero (Reshape_flat (Ne cors (- 1))) =
     \<lparr>shape = [length (valid_indices cors)], dtype = Int64, device = device cors,
      data = map int (valid_indices cors)\<rparr>"
proof -
  have "filter (\<lambda>i. map (\<lambda>x. x \<noteq> - 1) (data cors) ! i) [0..<length (data cors)] = valid_indices cors"
    unfolding valid_indices_def by (rule filter_cong) auto
  then show ?thesis
    by (simp add: NonZero_def Reshape_flat_def Ne_def Let_def)
qed

lemma map_e_wrap_index_nat:
  "\<forall>i \<in> set js. i < n \<Longrightarrow> map_e (wrap_index n) (map int js) = Inr js"
  by (induction js) (auto simp: wrap_index_def)

lemma map_e_wrap_index_int:
  "\<forall>c \<in> set cs. 0 \<le> c \<and> c < int n \<Longrightarrow> map_e (wrap_index n) cs = Inr (map nat cs)"
  by (induction cs) (auto simp: wrap_index_def)

lemma IndexGet_mask_valid:
  assumes "shape t = n # s" "length (data cors) \<le> n"
  shows "IndexGet_mask t (Reshape_flat (Ne cors (- 1))) =
     Inr \<lparr>shape = length (valid_indices cors) # s, dtype = dtype t, device = device t,
          data = concat (map (row t) (valid_indices cors))\<rparr>"
proof -
  have "\<forall>i \<in> set (valid_indices cors). i < n"
    using assms by (auto simp: set_valid_indices)
  then have "map_e (wrap_index n) (map int (valid_indices cors)) = Inr (valid_indices cors)"
    by (rule map_e_wrap_index_nat)
  moreover have "dtype (Reshape_flat (Ne cors (- 1))) = Bool"
      "length (shape (Reshape_flat (Ne cors (- 1)))) = 1"
    by (simp_all add: Reshape_flat_def Ne_def)
  ultimately show ?thesis
    using assms by (simp add: IndexGet_mask_def NonZero_valid IndexGet_def)
qed

lemma row_vector: "shape t = [n] \<Longrightarrow> i < length (data t) \<Longrightarrow> row t i = [data t ! i]"
proof -
  assume "shape t = [n]" and i: "i < length (data t)"
  then have "row t i = take (Suc 0) (drop i (data t))"
    by (simp add: row_def chunk_def)
  also have "\<dots> = [data t ! i]"
    using i by (metis Cons_nth_drop_Suc take0 take_Suc_Cons)
  finally show ?thesis .
qed

lemma neighbour_indices_valid:
  assumes "shape cors = [n]" "length (data cors) = n"
  shows "IndexGet_mask cors (Reshape_flat (Ne cors (- 1))) =
     Inr \<lparr>shape = [length (valid_indices cors)], dtype = dtype cors, device = device cors,
        data = filter (\<lambda>c. c \<noteq> - 1) (data cors)\<rparr>"
proof -
  have "map (row cors) (valid_indices cors) = map (\<lambda>i. [data cors ! i]) (valid_indices cors)"
    using assms by (auto simp: set_valid_indices row_vector)
  then have "concat (map (row cors) (valid_indices cors))
      = concat (map (\<lambda>i. [data cors ! i]) (valid_indices cors))"
    by metis
  then have "concat (map (row cors) (valid_indices cors)) = map ((!) (data cors)) (valid_indices cors)"
    by (simp add: concat_map_singleton)
  then show ?thesis
    using assms IndexGet_mask_valid [of cors n "[]" cors]
    by (simp add: map_nth_valid_indices)
qed

lemma Reshape_flat_vector:
  "Reshape_flat \<lparr>shape = [k], dtype = dt, device = dv, data = xs\<rparr> =
     \<lparr>shape = [k], dtype = dt, device = dv, data = xs\<rparr>"
  by (simp add: Reshape_flat_def)

lemma IndexGet_neighbours:
  assumes "shape t = m # s" "\<forall>c \<in> set (data cors). c = - 1 \<or> (0 \<le> c \<and> c < int m)"
  shows "IndexGet t \<lparr>shape = [k], dtype = Int64, device = dv,
            data = filter (\<lambda>c. c \<noteq> - 1) (data cors)\<rparr> =
     Inr \<lparr>shape = k # s, dtype = dtype t, device = device t,
          data = concat (map (\<lambda>i. row t (nat (data cors ! i))) (valid_indices cors))\<rparr>"
proof -
  have "\<forall>c \<in> set (filter (\<lambda>c. c \<noteq> - 1) (data cors)). 0 \<le> c \<and> c < int m"
    using assms(2) by auto
  then have "map_e (wrap_index m) (filter (\<lambda>c. c \<noteq> - 1) (data cors))
      = Inr (map nat (filter (\<lambda>c. c \<noteq> - 1) (data cors)))"
    by (rule map_e_wrap_index_int)
  moreover have "map nat (filter (\<lambda>c. c \<noteq> - 1) (data cors))
      = map (\<lambda>i. nat (data cors ! i)) (valid_indices cors)"
    using map_nth_valid_indices [of cors, symmetric] by (simp add: comp_def)
  ultimately show ?thesis
    using assms(1) by (simp add: IndexGet_def comp_def)
qed


lemma length_row: "shape t = m # s \<Longrightarrow> wf_tensor t \<Longrightarrow> j < m \<Longrightarrow> length (row t j) = prod_list s"
  using length_chunk [of "data t" m "prod_list s" j] by (simp add: row_def wf_tensor_def)

lemma length_gathered:
  "shape t = m # s \<Longrightarrow> wf_tensor t \<Longrightarrow> \<forall>j \<in> set js. j < m \<Longrightarrow>
     length (concat (map (row t) js)) = length js * prod_list s"
  by (induction js) (auto simp: length_row)

lemma rows_gathered_source:
  assumes "shape t = n # s" "wf_tensor t" "length (data cors) \<le> n"
  shows "\<forall>r \<in> set (gathered_source t cors). length r = prod_list s"
  using assms by (auto simp: gathered_source_def set_valid_indices length_row)

lemma rows_gathered_target:
  assumes "shape t = m # s" "wf_tensor t" "\<forall>c \<in> set (data cors). c = - 1 \<or> (0 \<le> c \<and> c < int m)"
  shows "\<forall>r \<in> set (gathered_target t cors). length r = prod_list s"
proof -
  have "nat (data cors ! i) < m" if "i \<in> set (valid_indices cors)" for i
  proof -
    from that have "data cors ! i \<in> set (data cors)" "data cors ! i \<noteq> - 1"
      by (auto simp: set_valid_indices)
    with assms(3) show ?thesis by auto
  qed
  then show ?thesis
    using assms(1,2) by (auto simp: gathered_target_def length_row)
qed

lemma length_concat_rows:
  "\<forall>r \<in> set rs. length r = k \<Longrightarrow> length (concat rs) = length rs * k"
  by (induction rs) auto

lemma IndexGet_mask_source:
  assumes "shape t = n # s" "length (data cors) \<le> n"
  shows "IndexGet_mask t (Reshape_flat (Ne cors (- 1))) =
     Inr \<lparr>shape = length (valid_indices cors) # s, dtype = dtype t, device = device t,
          data = concat (gathered_source t cors)\<rparr>"
  using IndexGet_mask_valid [OF assms] by (simp add: gathered_source_def)

lemma IndexGet_target:
  assumes "shape t = m # s" "\<forall>c \<in> set (data cors). c = - 1 \<or> (0 \<le> c \<and> c < int m)"
  shows "IndexGet t \<lparr>shape = [k], dtype = Int64, device = dv,
            data = filter (\<lambda>c. c \<noteq> - 1) (data cors)\<rparr> =
     Inr \<lparr>shape = k # s, dtype = dtype t, device = device t,
          data = concat (gathered_target t cors)\<rparr>"
  using IndexGet_neighbours [OF assms] by (simp add: gathered_target_def)

lemma map2_self: "map2 f xs xs = map (\<lambda>x. f x x) xs"
  by (induction xs) auto

lemma Item_scalar: "Item \<lparr>shape = [], dtype = dt, device = dv, data = [x]\<rparr> = Inr x"
  by (simp add: Item_def)

lemma ComputeRMSE_PointToPoint_gathered:
  assumes sp: "pc_point_attr source ''positions'' = Some sp" "shape sp = [n, 3]" "wf_tensor sp"
    and tp: "pc_point_attr target ''positions'' = Some tp" "shape tp = [m, 3]" "wf_tensor tp"
    and same: "dtype tp = dtype sp" "device tp = device sp" "pc_device target = pc_device source"
    and cors: "correspondences_ok cors n m" "dtype cors = Int64"
  shows "ComputeRMSE_PointToPoint source target cors =
     Inr (dsqrt (ddiv
       (sum_list (map (\<lambda>x. x * x)
          (map2 (-) (concat (gathered_source sp cors)) (concat (gathered_target tp cors)))))
       (real (length (valid_indices cors)))))"
proof -
  define k where "k = length (valid_indices cors)"
  define G where "G = \<lparr>shape = [k], dtype = dtype cors, device = device cors,
    data = filter (\<lambda>c. c \<noteq> - 1) (data cors)\<rparr>"
  define P where "P = \<lparr>shape = [k, 3], dtype = dtype sp, device = device sp,
    data = concat (gathered_source sp cors)\<rparr>"
  define Q where "Q = \<lparr>shape = [k, 3], dtype = dtype tp, device = device tp,
    data = concat (gathered_target tp cors)\<rparr>"
  define D where "D = \<lparr>shape = [k, 3], dtype = dtype sp, device = device sp,
    data = map2 (-) (data P) (data Q)\<rparr>"
  define E where "E = \<lparr>shape = [k, 3], dtype = dtype sp, device = device sp,
    data = map2 (*) (data D) (data D)\<rparr>"
  define S where "S = \<lparr>shape = [], dtype = dtype sp, device = device sp,
    data = [sum_list (data E)]\<rparr>"
  have c: "shape cors = [n]" "length (data cors) = n"
      "\<forall>c \<in> set (data cors). c = - 1 \<or> (0 \<le> c \<and> c < int m)"
    using cors(1) by (simp_all add: correspondences_ok_def)
  have "\<forall>r \<in> set (gathered_source sp cors). length r = 3"
    using rows_gathered_source [OF sp(2,3), of cors] c(2) by simp
  then have lenP: "length (data P) = k * 3"
    using length_concat_rows [of "gathered_source sp cors" 3]
    by (simp add: gathered_source_def P_def k_def)
  have "\<forall>r \<in> set (gathered_target tp cors). length r = 3"
    using rows_gathered_target [OF tp(2,3) c(3)] by simp
  then have lenQ: "length (data Q) = k * 3"
    using length_concat_rows [of "gathered_target tp cors" 3]
    by (simp add: gathered_target_def Q_def k_def)
  have g: "IndexGet_mask cors (Reshape_flat (Ne cors (- 1))) = Inr G" "Reshape_flat G = G"
    using neighbour_indices_valid [OF c(1,2)] by (simp_all add: G_def k_def Reshape_flat_def)
  have p: "IndexGet_mask sp (Reshape_flat (Ne cors (- 1))) = Inr P"
    using IndexGet_mask_source [OF sp(2), of cors] c(2) by (simp add: P_def k_def)
  have q: "IndexGet tp G = Inr Q"
    using IndexGet_target [OF tp(2) c(3)] cors(2) by (simp add: Q_def G_def)
  have d: "Sub P Q = Inr D"
    unfolding Sub_def using lenP lenQ same
    by (subst BinaryEW_same) (simp_all add: wf_tensor_def P_def Q_def D_def)
  have e: "Mul_inplace D D = Inr E"
    unfolding Mul_inplace_def using lenP lenQ
    by (subst BinaryEW_inplace_same) (simp_all add: wf_tensor_def D_def E_def)
  have s: "Sum E [0, 1] = Inr S"
    using lenP lenQ
    by (subst Sum_all_matrix [of _ k 3]) (simp_all add: wf_tensor_def E_def D_def S_def)
  have i: "Item (To S Float64) = Inr (sum_list (data E))"
    by (simp add: Item_def To_def S_def)
  have l: "GetLength G = Inr k"
    by (simp add: GetLength_def G_def)
  have "ComputeRMSE_PointToPoint source target cors = Inr (dsqrt (ddiv (sum_list (data E)) (real k)))"
    unfolding ComputeRMSE_PointToPoint_def
    using sp(1) tp(1) same
    by (simp add: GetPoints_def pc_GetPointAttr_def at_key_def GetDevice_def AssertDtype_def
        g p q d e s i l Let_def cong: bind_e_weak_cong)
  then show ?thesis
    by (simp add: E_def D_def P_def Q_def k_def map2_self comp_def)
qed


lemma map2_concat_rows:
  "\<forall>i \<in> set js. length (A i) = length (B i) \<Longrightarrow>
     map2 f (concat (map A js)) (concat (map B js)) = concat (map (\<lambda>i. map2 f (A i) (B i)) js)"
  by (induction js) auto

lemma sum_list_map_concat_rows:
  "sum_list (map g (concat (map h js))) = sum_list (map (\<lambda>i. sum_list (map g (h i))) js)"
  for g :: "real \<Rightarrow> real"
  by (induction js) auto

lemma sum_upto_3: "(\<Sum>k<3. f k) = f 0 + f 1 + (f 2 :: real)" for f :: "nat \<Rightarrow> real"
  by (simp add: numeral_3_eq_3 lessThan_Suc numeral_2_eq_2)

lemma list_of_length_3:
  assumes "length p = 3"
  obtains a b c where "p = [a, b, c]"
proof -
  from assms obtain a p1 where p: "p = a # p1" and "length p1 = 2"
    by (cases p) auto
  then obtain b p2 where p1: "p1 = b # p2" and "length p2 = 1"
    by (cases p1) auto
  then obtain c where "p2 = [c]"
    by (cases p2) auto
  with p p1 that show thesis by simp
qed

lemma sum_squares_row:
  assumes "length p = 3" "length q = 3"
  shows "sum_list (map (\<lambda>x. x * x) (map2 (-) p q)) = (\<Sum>k<3. (p ! k - q ! k :: real)\<^sup>2)"
proof -
  obtain a b c where p: "p = [a, b, c]" using assms(1) by (rule list_of_length_3)
  obtain a' b' c' where q: "q = [a', b', c']" using assms(2) by (rule list_of_length_3)
  show ?thesis
    by (simp add: p q power2_eq_square numeral_3_eq_3 lessThan_Suc algebra_simps)
qed

lemma valid_target_index:
  assumes "\<forall>c \<in> set (data cors). c = - 1 \<or> (0 \<le> c \<and> c < int m)" "i \<in> set (valid_indices cors)"
  shows "nat (data cors ! i) < m"
proof -
  from assms(2) have "data cors ! i \<in> set (data cors)" "data cors ! i \<noteq> - 1"
    by (auto simp: set_valid_indices)
  with assms(1) show ?thesis by auto
qed

lemma sum_squared_distances:
  fixes sp tp :: "real list Tensor"
  assumes sp: "shape sp = [n, 3]" "wf_tensor sp"
    and tp: "shape tp = [m, 3]" "wf_tensor tp"
    and cors: "correspondences_ok cors n m"
  shows "sum_list (map (\<lambda>x. x * x)
          (map2 (-) (concat (gathered_source sp cors)) (concat (gathered_target tp cors))))
       = (\<Sum>i \<in> {i. i < n \<and> data cors ! i \<noteq> - 1}.
            \<Sum>k<3. (row sp i ! k - row tp (nat (data cors ! i)) ! k)\<^sup>2)"
proof -
  have c: "length (data cors) = n"
      "\<forall>c \<in> set (data cors). c = - 1 \<or> (0 \<le> c \<and> c < int m)"
    using cors by (simp_all add: correspondences_ok_def)
  have lp: "length (row sp i) = 3" if "i \<in> set (valid_indices cors)" for i
    using that sp c(1) by (simp add: set_valid_indices length_row)
  have lq: "length (row tp (nat (data cors ! i))) = 3" if "i \<in> set (valid_indices cors)" for i
    using valid_target_index [OF c(2) that] tp by (simp add: length_row)
  have "map2 (-) (concat (gathered_source sp cors)) (concat (gathered_target tp cors))
      = concat (map (\<lambda>i. map2 (-) (row sp i) (row tp (nat (data cors ! i)))) (valid_indices cors))"
    unfolding gathered_source_def gathered_target_def
    by (rule map2_concat_rows) (simp add: lp lq)
  then have "sum_list (map (\<lambda>x. x * x)
          (map2 (-) (concat (gathered_source sp cors)) (concat (gathered_target tp cors))))
      = sum_list (map (\<lambda>i. sum_list (map (\<lambda>x. x * x)
            (map2 (-) (row sp i) (row tp (nat (data cors ! i)))))) (valid_indices cors))"
    by (simp only: sum_list_map_concat_rows)
  also have "\<dots> = sum_list (map (\<lambda>i. \<Sum>k<3. (row sp i ! k - row tp (nat (data cors ! i)) ! k)\<^sup>2)
      (valid_indices cors))"
    by (rule arg_cong [where f = sum_list], rule map_cong [OF refl], rule sum_squares_row)
       (simp_all add: lp lq)
  also have "\<dots> = (\<Sum>i \<in> set (valid_indices cors).
      \<Sum>k<3. (row sp i ! k - row tp (nat (data cors ! i)) ! k)\<^sup>2)"
    by (rule sum_list_distinct_conv_sum_set) (rule distinct_valid_indices)
  finally show ?thesis
    by (simp add: set_valid_indices c(1))
qed

lemma dsqrt_ddiv: "0 \<le> x \<Longrightarrow> 0 < y \<Longrightarrow> dsqrt (ddiv x y) = Finite (sqrt (x / y))"
  by (simp add: ddiv_def not_less)

lemma length_valid_indices:
  "length (data cors) = n \<Longrightarrow> length (valid_indices cors) = card {i. i < n \<and> data cors ! i \<noteq> - 1}"
  using distinct_card [OF distinct_valid_indices, of cors] by (simp add: set_valid_indices)

lemma pc_HasPointAttr_true:
  assumes "pc_point_attr pc key = Some t" "shape t = n # s" "0 < n"
    and "pc_point_attr pc ''positions'' = Some p" "shape p = n # s'"
  shows "pc_HasPointAttr pc key = Inr True"
  using assms
  by (simp add: pc_HasPointAttr_def Contains_def pc_GetPointAttr_def GetPoints_def at_key_def GetLength_def)

lemma ComputeRMSE_PointToPlane_gathered:
  assumes sp: "pc_point_attr source ''positions'' = Some sp" "shape sp = [n, 3]" "wf_tensor sp"
    and tp: "pc_point_attr target ''positions'' = Some tp" "shape tp = [m, 3]" "wf_tensor tp"
    and tn: "pc_point_attr target ''normals'' = Some tn" "shape tn = [m, 3]" "wf_tensor tn"
    and m: "0 < m"
    and same: "dtype tp = dtype sp" "dtype tn = dtype sp"
      "device tp = pc_device source" "device sp = pc_device source" "device tn = pc_device source"
    and cors: "correspondences_ok cors n m" "dtype cors = Int64" "device cors = pc_device source"
  shows "ComputeRMSE_PointToPlane source target cors =
     Inr (dsqrt (ddiv
       (sum_list (map (\<lambda>x. x * x)
          (map2 (*)
            (map2 (-) (concat (gathered_source sp cors)) (concat (gathered_target tp cors)))
            (concat (gathered_target tn cors)))))
       (real (length (valid_indices cors)))))"
proof -
  define k where "k = length (valid_indices cors)"
  define G where "G = \<lparr>shape = [k], dtype = dtype cors, device = device cors,
    data = filter (\<lambda>c. c \<noteq> - 1) (data cors)\<rparr>"
  define P where "P = \<lparr>shape = [k, 3], dtype = dtype sp, device = device sp,
    data = concat (gathered_source sp cors)\<rparr>"
  define Q where "Q = \<lparr>shape = [k, 3], dtype = dtype tp, device = device tp,
    data = concat (gathered_target tp cors)\<rparr>"
  define N where "N = \<lparr>shape = [k, 3], dtype = dtype tn, device = device tn,
    data = concat (gathered_target tn cors)\<rparr>"
  define D where "D = \<lparr>shape = [k, 3], dtype = dtype sp, device = device sp,
    data = map2 (-) (data P) (data Q)\<rparr>"
  define M where "M = \<lparr>shape = [k, 3], dtype = dtype sp, device = device sp,
    data = map2 (*) (data D) (data N)\<rparr>"
  define E where "E = \<lparr>shape = [k, 3], dtype = dtype sp, device = device sp,
    data = map2 (*) (data M) (data M)\<rparr>"
  define S where "S = \<lparr>shape = [], dtype = dtype sp, device = device sp,
    data = [sum_list (data E)]\<rparr>"
  have c: "shape cors = [n]" "length (data cors) = n"
      "\<forall>c \<in> set (data cors). c = - 1 \<or> (0 \<le> c \<and> c < int m)"
    using cors(1) by (simp_all add: correspondences_ok_def)
  have "\<forall>r \<in> set (gathered_source sp cors). length r = 3"
    using rows_gathered_source [OF sp(2,3), of cors] c(2) by simp
  then have lenP: "length (data P) = k * 3"
    using length_concat_rows [of "gathered_source sp cors" 3]
    by (simp add: gathered_source_def P_def k_def)
  have "\<forall>r \<in> set (gathered_target tp cors). length r = 3"
    using rows_gathered_target [OF tp(2,3) c(3)] by simp
  then have lenQ: "length (data Q) = k * 3"
    using length_concat_rows [of "gathered_target tp cors" 3]
    by (simp add: gathered_target_def Q_def k_def)
  have "\<forall>r \<in> set (gathered_target tn cors). length r = 3"
    using rows_gathered_target [OF tn(2,3) c(3)] by simp
  then have lenN: "length (data N) = k * 3"
    using length_concat_rows [of "gathered_target tn cors" 3]
    by (simp add: gathered_target_def N_def k_def)
  have h: "HasPointNormals target = Inr True"
    unfolding HasPointNormals_def using tn(1,2) m tp(1,2) by (rule pc_HasPointAttr_true)
  have g: "IndexGet_mask cors (Reshape_flat (Ne cors (- 1))) = Inr G" "Reshape_flat G = G"
    using neighbour_indices_valid [OF c(1,2)] by (simp_all add: G_def k_def Reshape_flat_def)
  have p: "IndexGet_mask sp (Reshape_flat (Ne cors (- 1))) = Inr P"
    using IndexGet_mask_source [OF sp(2), of cors] c(2) by (simp add: P_def k_def)
  have q: "IndexGet tp G = Inr Q"
    using IndexGet_target [OF tp(2) c(3)] cors(2) by (simp add: Q_def G_def)
  have nn: "IndexGet tn G = Inr N"
    using IndexGet_target [OF tn(2) c(3)] cors(2) by (simp add: N_def G_def)
  have d: "Sub P Q = Inr D"
    unfolding Sub_def using lenP lenQ same
    by (subst BinaryEW_same) (simp_all add: wf_tensor_def P_def Q_def D_def)
  have mm: "Mul_inplace D N = Inr M"
    unfolding Mul_inplace_def using lenP lenQ lenN same
    by (subst BinaryEW_inplace_same) (simp_all add: wf_tensor_def D_def N_def M_def)
  have e: "Mul_inplace M M = Inr E"
    unfolding Mul_inplace_def using lenP lenQ lenN
    by (subst BinaryEW_inplace_same) (simp_all add: wf_tensor_def D_def M_def E_def)
  have s: "Sum E [0, 1] = Inr S"
    using lenP lenQ lenN
    by (subst Sum_all_matrix [of _ k 3]) (simp_all add: wf_tensor_def E_def M_def D_def S_def)
  have i: "Item (To S Float64) = Inr (sum_list (data E))"
    by (simp add: Item_def To_def S_def)
  have l: "GetLength G = Inr k"
    by (simp add: GetLength_def G_def)
  have "ComputeRMSE_PointToPlane source target cors = Inr (dsqrt (ddiv (sum_list (data E)) (real k)))"
    unfolding ComputeRMSE_PointToPlane_def
    using sp(1) tp(1) tn(1) same cors(2,3)
    by (simp add: h GetPoints_def GetPointNormals_def pc_GetPointAttr_def at_key_def GetDevice_def
        AssertDtype_def AssertDevice_def g p q nn d mm e s i l Let_def cong: bind_e_weak_cong)
  then show ?thesis
    by (simp add: E_def M_def D_def P_def Q_def N_def k_def map2_self comp_def)
qed

lemma valid_indices_unmatched:
  "\<forall>c \<in> set (data cors). c = - 1 \<Longrightarrow> valid_indices cors = []"
  by (auto simp: valid_indices_def filter_empty_conv)

lemmas ex_defs = source2_def target1_def cors2_def float_tensor_def index_tensor_def cpu_def
  cuda_def unmatched2_def

lemma unmatched_P2P:
  assumes "pc_point_attr source ''positions'' = Some sp" "shape sp = [n, 3]" "wf_tensor sp"
    and "pc_point_attr target ''positions'' = Some tp" "shape tp = [m, 3]" "wf_tensor tp"
    and "dtype tp = dtype sp" "device tp = device sp" "pc_device target = pc_device source"
    and "correspondences_ok cors n m" "dtype cors = Int64"
    and "\<forall>c \<in> set (data cors). c = - 1"
  shows "ComputeRMSE_PointToPoint source target cors = Inr NaN"
  using ComputeRMSE_PointToPoint_gathered [OF assms(1-11)] valid_indices_unmatched [OF assms(12)]
  by (simp add: gathered_source_def gathered_target_def ddiv_def)

lemma unmatched_P2Plane:
  assumes "pc_point_attr source ''positions'' = Some sp" "shape sp = [n, 3]" "wf_tensor sp"
    and "pc_point_attr target ''positions'' = Some tp" "shape tp = [m, 3]" "wf_tensor tp"
    and "pc_point_attr target ''normals'' = Some tn" "shape tn = [m, 3]" "wf_tensor tn"
    and "0 < m"
    and "dtype tp = dtype sp" "dtype tn = dtype sp"
      "device tp = pc_device source" "device sp = pc_device source" "device tn = pc_device source"
    and "correspondences_ok cors n m" "dtype cors = Int64" "device cors = pc_device source"
    and "\<forall>c \<in> set (data cors). c = - 1"
  shows "ComputeRMSE_PointToPlane source target cors = Inr NaN"
  using ComputeRMSE_PointToPlane_gathered [OF assms(1-18)] valid_indices_unmatched [OF assms(19)]
  by (simp add: gathered_source_def gathered_target_def ddiv_def)

lemma valid_cors2: "valid_indices cors2 = [0]"
  by (simp add: valid_indices_def cors2_def index_tensor_def upt_rec)

lemma gathered_cors2:
  "gathered_source t cors2 = [row t 0]" "gathered_target t cors2 = [row t 0]"
  unfolding gathered_source_def gathered_target_def valid_cors2
  by (simp_all add: cors2_def index_tensor_def)

lemmas pc_defs = GetPoints_def GetPointNormals_def GetPointColors_def pc_GetPointAttr_def
  pc_HasPointAttr_def HasPointNormals_def HasPointColors_def GetDevice_def at_key_def
  Contains_def GetLength_def

lemmas prim_defs = AssertDtype_def AssertDevice_def Reshape_flat_def Ne_def IndexGet_mask_def
  IndexGet_def NonZero_def wrap_index_def row_def chunk_def Sub_def Mul_def Add_def
  Mul_inplace_def Add_inplace_def BinaryEW_def BinaryEW_inplace_def BroadcastedShape_def
  broadcast_to_def Sum_def WrapDim_def reduce_axis_def drop_axis_def Mean_def Mul_scalar_def
  To_def Item_def

lemma ColoredICP_attributes_example: "ColoredICP_attributes source2 target1 = Inr ()"
  by (simp add: ColoredICP_attributes_def pc_defs source2_def target1_def float_tensor_def
      cong: bind_e_weak_cong)

lemma ColoredICP_attributes_colors:
  "HasPointColors target = Inr False \<or>
     (HasPointColors target = Inr True \<and> HasPointColors source = Inr False) \<Longrightarrow>
   ColoredICP_attributes source target =
     Inl (LogError ''Source and/or Target pointcloud missing colors attribute.'')"
  by (auto simp: ColoredICP_attributes_def)

lemma ColoredICP_attributes_normals:
  "HasPointColors target = Inr True \<Longrightarrow> HasPointColors source = Inr True \<Longrightarrow>
   HasPointNormals target = Inr False \<Longrightarrow>
   ColoredICP_attributes source target =
     Inl (LogError ''Target pointcloud missing normals attribute.'')"
  by (simp add: ColoredICP_attributes_def)

lemma ColoredICP_attributes_gradients:
  "HasPointColors target = Inr True \<Longrightarrow> HasPointColors source = Inr True \<Longrightarrow>
   HasPointNormals target = Inr True \<Longrightarrow>
   pc_HasPointAttr target ''color_gradients'' = Inr False \<Longrightarrow>
   ColoredICP_attributes source target =
     Inl (LogError ''Target pointcloud missing color_gradients attribute.'')"
  by (simp add: ColoredICP_attributes_def)

lemma ColoredICP_attributes_fail:
  "ColoredICP_attributes source target = Inl e \<Longrightarrow>
     ComputeRMSE_ColoredICP lam source target cors = Inl e \<and>
     ComputeTransformation_ColoredICP K conv rk lam source target cors = Inl e"
  by (simp add: ComputeRMSE_ColoredICP_def ComputeTransformation_ColoredICP_def)

lemma ColoredICP_colors_fail:
  assumes "HasPointColors target = Inr False \<or>
     (HasPointColors target = Inr True \<and> HasPointColors source = Inr False)"
  shows "ComputeRMSE_ColoredICP lam source target cors =
       Inl (LogError ''Source and/or Target pointcloud missing colors attribute.'') \<and>
     ComputeTransformation_ColoredICP K conv rk lam source target cors =
       Inl (LogError ''Source and/or Target pointcloud missing colors attribute.'')"
  using assms by (intro ColoredICP_attributes_fail ColoredICP_attributes_colors)

lemma ColoredICP_normals_fail:
  assumes "HasPointColors target = Inr True" "HasPointColors source = Inr True"
    "HasPointNormals target = Inr False"
  shows "ComputeRMSE_ColoredICP lam source target cors =
       Inl (LogError ''Target pointcloud missing normals attribute.'') \<and>
     ComputeTransformation_ColoredICP K conv rk lam source target cors =
       Inl (LogError ''Target pointcloud missing normals attribute.'')"
  using assms by (intro ColoredICP_attributes_fail ColoredICP_attributes_normals)

lemma ColoredICP_gradients_fail:
  assumes "HasPointColors target = Inr True" "HasPointColors source = Inr True"
    "HasPointNormals target = Inr True" "pc_HasPointAttr target ''color_gradients'' = Inr False"
  shows "ComputeRMSE_ColoredICP lam source target cors =
       Inl (LogError ''Target pointcloud missing color_gradients attribute.'') \<and>
     ComputeTransformation_ColoredICP K conv rk lam source target cors =
       Inl (LogError ''Target pointcloud missing color_gradients attribute.'')"
  using assms by (intro ColoredICP_attributes_fail ColoredICP_attributes_gradients)

lemma PointToPlane_normals_fail:
  "HasPointNormals target = Inr False \<Longrightarrow>
     ComputeRMSE_PointToPlane source target cors =
       Inl (LogError ''Target pointcloud missing normals attribute.'') \<and>
     ComputeTransformation_PointToPlane K conv rk source target cors =
       Inl (LogError ''Target pointcloud missing normals attribute.'')"
  by (simp add: ComputeRMSE_PointToPlane_def ComputeTransformation_PointToPlane_def)

lemma has_examples:
  "HasPointColors source2 = Inr True"
  "HasPointNormals target_bare = Inr False" "HasPointColors target_bare = Inr False"
  "HasPointColors target_colors = Inr True" "HasPointNormals target_colors = Inr False"
  "HasPointColors target_no_gradients = Inr True" "HasPointNormals target_no_gradients = Inr True"
  "pc_HasPointAttr target_no_gradients ''color_gradients'' = Inr False"
  by (simp_all add: pc_defs source2_def target_bare_def target_colors_def target_no_gradients_def
      float_tensor_def cong: bind_e_weak_cong)

subsection \<open>Appended unmatched points\<close>

lemma append_rows_simps [simp]:
  "dtype (append_rows k xs t) = dtype t" "device (append_rows k xs t) = device t"
  "data (append_rows k xs t) = data t @ xs"
  by (simp_all add: append_rows_def)

lemma shape_append_rows: "shape t = n # s \<Longrightarrow> shape (append_rows k xs t) = (n + k) # s"
  by (simp add: append_rows_def)

lemma row_append_rows:
  assumes "shape t = n # s" "wf_tensor t" "i < n"
  shows "row (append_rows k xs t) i = row t i"
proof -
  let ?K = "prod_list s"
  have "i * ?K + ?K \<le> n * ?K"
    using assms(3) by (metis mult_Suc mult_le_mono1 less_eq_Suc_le add.commute)
  then have "i * ?K + ?K \<le> length (data t)"
    using assms(1,2) by (simp add: wf_tensor_def)
  then show ?thesis
    using assms(1) by (simp add: row_def chunk_def append_rows_def)
qed

lemma valid_indices_append_unmatched:
  "valid_indices (append_unmatched k cors) = valid_indices cors"
proof -
  let ?d = "data cors"
  have "filter (\<lambda>i. (?d @ replicate k (- 1)) ! i \<noteq> - 1) [0..<length ?d + k]
      = filter (\<lambda>i. (?d @ replicate k (- 1)) ! i \<noteq> - 1) [0..<length ?d]
        @ filter (\<lambda>i. (?d @ replicate k (- 1)) ! i \<noteq> - 1) [length ?d..<length ?d + k]"
    by (metis filter_append upt_add_eq_append le0)
  moreover have "filter (\<lambda>i. (?d @ replicate k (- 1)) ! i \<noteq> - 1) [0..<length ?d]
      = filter (\<lambda>i. ?d ! i \<noteq> - 1) [0..<length ?d]"
    by (rule filter_cong) (simp_all add: nth_append)
  moreover have "filter (\<lambda>i. (?d @ replicate k (- 1)) ! i \<noteq> - 1) [length ?d..<length ?d + k] = []"
    by (auto simp: filter_empty_conv nth_append)
  ultimately show ?thesis
    by (simp add: valid_indices_def append_unmatched_def)
qed

lemma IndexGet_mask_append:
  assumes "shape t = n # s" "wf_tensor t" "length (data cors) = n"
  shows "IndexGet_mask (append_rows k xs t) (Reshape_flat (Ne (append_unmatched k cors) (- 1)))
       = IndexGet_mask t (Reshape_flat (Ne cors (- 1)))"
proof -
  have "map (row (append_rows k xs t)) (valid_indices cors) = map (row t) (valid_indices cors)"
    using assms by (auto simp: set_valid_indices row_append_rows)
  then have "concat (map (row (append_rows k xs t)) (valid_indices cors))
      = concat (map (row t) (valid_indices cors))"
    by (rule arg_cong)
  moreover have "length (data (append_unmatched k cors)) \<le> n + k"
    using assms(3) by (simp add: append_unmatched_def)
  ultimately show ?thesis
    using IndexGet_mask_valid [OF shape_append_rows [OF assms(1)], of "append_unmatched k cors" k xs]
      IndexGet_mask_valid [OF assms(1), of cors] assms(3)
    by (simp add: valid_indices_append_unmatched)
qed

lemma neighbours_append:
  assumes "shape cors = [n]" "length (data cors) = n"
  shows "IndexGet_mask (append_unmatched k cors) (Reshape_flat (Ne (append_unmatched k cors) (- 1)))
       = IndexGet_mask cors (Reshape_flat (Ne cors (- 1)))"
proof -
  have "IndexGet_mask (append_rows k (replicate k (- 1)) cors)
          (Reshape_flat (Ne (append_unmatched k cors) (- 1)))
      = IndexGet_mask cors (Reshape_flat (Ne cors (- 1)))"
    using assms by (intro IndexGet_mask_append) (simp_all add: wf_tensor_def)
  then show ?thesis
    by (simp add: append_unmatched_def)
qed

lemma append_points_simps [simp]:
  "pc_device (append_points k extra pc) = pc_device pc"
  "pc_point_attr (append_points k extra pc) key
     = map_option (append_rows k (extra key)) (pc_point_attr pc key)"
  by (simp_all add: append_points_def)

lemma Assert_append_unmatched [simp]:
  "AssertDevice (append_unmatched k cors) d = AssertDevice cors d"
  "AssertDtype (append_unmatched k cors) dt = AssertDtype cors dt"
  by (simp_all add: AssertDevice_def AssertDtype_def append_unmatched_def)

lemma Assert_append_rows [simp]:
  "AssertDevice (append_rows k xs t) d = AssertDevice t d"
  "AssertDtype (append_rows k xs t) dt = AssertDtype t dt"
  by (simp_all add: AssertDevice_def AssertDtype_def)

lemma pc_HasPointAttr_append:
  assumes "pc_point_attr pc ''positions'' = Some p" "shape p = n # s" "0 < n"
    and "pc_point_attr pc key = Some t" "shape t = n' # s'"
  shows "pc_HasPointAttr (append_points k extra pc) key = pc_HasPointAttr pc key"
  using assms
  by (auto simp: pc_HasPointAttr_def Contains_def pc_GetPointAttr_def GetPoints_def
      at_key_def GetLength_def append_rows_def)

lemma GetPoints_append:
  "pc_point_attr pc ''positions'' = Some p \<Longrightarrow>
     GetPoints (append_points k extra pc) = Inr (append_rows k (extra ''positions'') p)"
  "pc_point_attr pc ''colors'' = Some c \<Longrightarrow>
     GetPointColors (append_points k extra pc) = Inr (append_rows k (extra ''colors'') c)"
  by (simp_all add: GetPoints_def GetPointColors_def pc_GetPointAttr_def at_key_def)

lemma GetPoints_Some:
  "pc_point_attr pc ''positions'' = Some p \<Longrightarrow> GetPoints pc = Inr p"
  "pc_point_attr pc ''colors'' = Some c \<Longrightarrow> GetPointColors pc = Inr c"
  by (simp_all add: GetPoints_def GetPointColors_def pc_GetPointAttr_def at_key_def)

lemma sentinel_PointToPoint:
  assumes "pc_point_attr source ''positions'' = Some sp" "shape sp = n # s" "wf_tensor sp"
    and "shape cors = [n]" "length (data cors) = n"
  shows "ComputeRMSE_PointToPoint (append_points k extra source) target (append_unmatched k cors)
       = ComputeRMSE_PointToPoint source target cors"
    and "ComputeTransformation_PointToPoint (ComputeRtPointToPoint solve) to_transformation
         (append_points k extra source) target (append_unmatched k cors)
       = ComputeTransformation_PointToPoint (ComputeRtPointToPoint solve) to_transformation
         source target cors"
  unfolding ComputeRMSE_PointToPoint_def ComputeTransformation_PointToPoint_def
    ComputeRtPointToPoint_def gather_source_def gather_target_def
  by (simp_all add: GetPoints_append(1) [OF assms(1)] GetPoints_Some(1) [OF assms(1)]
      GetDevice_def Let_def
      IndexGet_mask_append [OF assms(2,3,5)] neighbours_append [OF assms(4,5)] cong: if_cong)

lemma sentinel_PointToPlane:
  assumes "pc_point_attr source ''positions'' = Some sp" "shape sp = n # s" "wf_tensor sp"
    and "shape cors = [n]" "length (data cors) = n"
  shows "ComputeRMSE_PointToPlane (append_points k extra source) target (append_unmatched k cors)
       = ComputeRMSE_PointToPlane source target cors"
    and "ComputeTransformation_PointToPlane (ComputePosePointToPlane solve) to_transformation
         robust_kernel (append_points k extra source) target (append_unmatched k cors)
       = ComputeTransformation_PointToPlane (ComputePosePointToPlane solve) to_transformation
         robust_kernel source target cors"
  unfolding ComputeRMSE_PointToPlane_def ComputeTransformation_PointToPlane_def
    ComputePosePointToPlane_def gather_source_def gather_target_def
  by (simp_all add: GetPoints_append(1) [OF assms(1)] GetPoints_Some(1) [OF assms(1)]
      GetDevice_def Let_def
      IndexGet_mask_append [OF assms(2,3,5)] neighbours_append [OF assms(4,5)] cong: if_cong)

lemma ColoredICP_attributes_append:
  assumes "pc_point_attr source ''positions'' = Some sp" "shape sp = n # s" "0 < n"
    and "pc_point_attr source ''colors'' = Some sc" "shape sc = n' # s'"
  shows "ColoredICP_attributes (append_points k extra source) target
       = ColoredICP_attributes source target"
  unfolding ColoredICP_attributes_def HasPointColors_def
  by (simp add: pc_HasPointAttr_append [OF assms] cong: if_cong)

lemma sentinel_ColoredICP:
  assumes "pc_point_attr source ''positions'' = Some sp" "shape sp = n # s" "wf_tensor sp"
    and "shape cors = [n]" "length (data cors) = n"
    and "pc_point_attr source ''colors'' = Some sc" "shape sc = n # s'" "wf_tensor sc"
    and "0 < n"
  shows "ComputeRMSE_ColoredICP lambda_geometric (append_points k extra source) target
         (append_unmatched k cors)
       = ComputeRMSE_ColoredICP lambda_geometric source target cors"
    and "ComputeTransformation_ColoredICP (ComputePoseColoredICP solve) to_transformation
         robust_kernel lambda_geometric (append_points k extra source) target
         (append_unmatched k cors)
       = ComputeTransformation_ColoredICP (ComputePoseColoredICP solve) to_transformation
         robust_kernel lambda_geometric source target cors"
  unfolding ComputeRMSE_ColoredICP_def ComputeTransformation_ColoredICP_def
    ComputePoseColoredICP_def gather_source_def gather_target_def
  by (simp_all add: ColoredICP_attributes_append [OF assms(1,2,9,6,7)]
      GetPoints_append(1) [OF assms(1)] GetPoints_Some(1) [OF assms(1)]
      GetPoints_append(2) [OF assms(6)] GetPoints_Some(2) [OF assms(6)]
      Let_def
      IndexGet_mask_append [OF assms(2,3,5)] IndexGet_mask_append [OF assms(7,8,5)]
      neighbours_append [OF assms(4,5)] cong: if_cong)

lemma extended_examples:
  "append_points 1 extra_point source0 = source0_extended"
  "append_unmatched 1 cors0 = cors0_extended"
  by (auto simp: append_points_def source0_def source0_extended_def extra_point_def
      append_rows_def float_tensor_def append_unmatched_def cors0_def cors0_extended_def
      index_tensor_def fun_eq_iff)

lemma pc_HasPointAttr_absent:
  assumes "pc_point_attr pc key = None"
  shows "pc_HasPointAttr pc key = Inr False"
    and "pc_HasPointAttr (append_points k extra pc) key = Inr False"
  using assms by (simp_all add: pc_HasPointAttr_def Contains_def)

lemma pc_HasPointAttr_empty:
  assumes "pc_point_attr pc key = Some t" and "shape t = 0 # s"
  shows "pc_HasPointAttr pc key = Inr False"
  using assms
  by (simp add: pc_HasPointAttr_def Contains_def pc_GetPointAttr_def at_key_def GetLength_def)

lemma ColoredICP_attributes_no_source_colors:
  assumes "HasPointColors source = Inr False"
  shows "\<exists>e. ColoredICP_attributes source target = Inl e"
  using assms
  by (cases "HasPointColors target") (auto simp add: ColoredICP_attributes_def)

lemma ColoredICP_no_source_colors:
  assumes "HasPointColors source = Inr False"
  shows "\<exists>e. ComputeRMSE_ColoredICP lam source target cors = Inl e"
    and "\<exists>e. ComputeTransformation_ColoredICP K conv rk lam source target cors = Inl e"
  using ColoredICP_attributes_no_source_colors [OF assms, of target]
    ColoredICP_attributes_fail [of source target _ lam cors K conv rk]
  by blast+

lemma sentinel_ColoredICP_absent:
  assumes "pc_point_attr source ''colors'' = None"
  shows "ComputeRMSE_ColoredICP lambda_geometric (append_points k extra source) target
         (append_unmatched k cors)
       = ComputeRMSE_ColoredICP lambda_geometric source target cors"
    and "ComputeTransformation_ColoredICP K to_transformation
         robust_kernel lambda_geometric (append_points k extra source) target
         (append_unmatched k cors)
       = ComputeTransformation_ColoredICP K' to_transformation
         robust_kernel lambda_geometric source target cors"
proof -
  have no: "HasPointColors source = Inr False"
      "HasPointColors (append_points k extra source) = Inr False"
    using pc_HasPointAttr_absent [OF assms] by (simp_all add: HasPointColors_def)
  then have same: "ColoredICP_attributes (append_points k extra source) target
      = ColoredICP_attributes source target"
    by (simp add: ColoredICP_attributes_def cong: if_cong)
  from ColoredICP_attributes_no_source_colors [OF no(1)]
  obtain e where e: "ColoredICP_attributes source target = Inl e" by blast
  show "ComputeRMSE_ColoredICP lambda_geometric (append_points k extra source) target
         (append_unmatched k cors)
       = ComputeRMSE_ColoredICP lambda_geometric source target cors"
    using e same by (simp add: ComputeRMSE_ColoredICP_def)
  show "ComputeTransformation_ColoredICP K to_transformation
         robust_kernel lambda_geometric (append_points k extra source) target
         (append_unmatched k cors)
       = ComputeTransformation_ColoredICP K' to_transformation
         robust_kernel lambda_geometric source target cors"
    using e same by (simp add: ComputeTransformation_ColoredICP_def)
qed

lemma ColoredICP_empty_source:
  assumes "case pc_point_attr source ''colors'' of None \<Rightarrow> True
           | Some sc \<Rightarrow> shape sc = [0, 3] \<and> wf_tensor sc"
  shows "\<exists>e. ComputeRMSE_ColoredICP lam source target cors = Inl e"
    and "\<exists>e. ComputeTransformation_ColoredICP K conv rk lam source target cors = Inl e"
proof -
  have "HasPointColors source = Inr False"
    using assms pc_HasPointAttr_absent(1) [of source "''colors''"]
      pc_HasPointAttr_empty [of source "''colors''"]
    by (auto simp add: HasPointColors_def split: option.splits)
  then show "\<exists>e. ComputeRMSE_ColoredICP lam source target cors = Inl e"
    and "\<exists>e. ComputeTransformation_ColoredICP K conv rk lam source target cors = Inl e"
    by (rule ColoredICP_no_source_colors)+
qed

lemma transformation_follows_kernel:
  assumes "pc_point_attr source ''positions'' = Some sp"
  shows "(\<And>tp. K (append_rows k (extra ''positions'') sp) tp (append_unmatched k cors)
              = K sp tp cors) \<Longrightarrow>
     ComputeTransformation_PointToPoint K convert_Rt (append_points k extra source) target
         (append_unmatched k cors)
       = ComputeTransformation_PointToPoint K convert_Rt source target cors"
    and "(\<And>tp tn. K' (append_rows k (extra ''positions'') sp) tp tn (append_unmatched k cors)
                   robust_kernel
              = K' sp tp tn cors robust_kernel) \<Longrightarrow>
     ComputeTransformation_PointToPlane K' convert robust_kernel
         (append_points k extra source) target (append_unmatched k cors)
       = ComputeTransformation_PointToPlane K' convert robust_kernel source target cors"
  unfolding ComputeTransformation_PointToPoint_def ComputeTransformation_PointToPlane_def
  by (simp_all add: GetPoints_append(1) [OF assms] GetPoints_Some(1) [OF assms] cong: if_cong)

lemma colored_transformation_follows_kernel:
  assumes "pc_point_attr source ''positions'' = Some sp" "shape sp = n # s" "0 < n"
    and "pc_point_attr source ''colors'' = Some sc" "shape sc = n # s'"
    and "\<And>tp tn tc tg.
           K (append_rows k (extra ''positions'') sp) (append_rows k (extra ''colors'') sc)
             tp tn tc tg (append_unmatched k cors) robust_kernel lambda_geometric
         = K sp sc tp tn tc tg cors robust_kernel lambda_geometric"
  shows "ComputeTransformation_ColoredICP K convert robust_kernel lambda_geometric
         (append_points k extra source) target (append_unmatched k cors)
       = ComputeTransformation_ColoredICP K convert robust_kernel lambda_geometric source
         target cors"
  unfolding ComputeTransformation_ColoredICP_def
  by (simp add: ColoredICP_attributes_append [OF assms(1-5)]
      GetPoints_append(1) [OF assms(1)] GetPoints_Some(1) [OF assms(1)]
      GetPoints_append(2) [OF assms(4)] GetPoints_Some(2) [OF assms(4)] assms(6)
      cong: if_cong)

lemma empty_colored_source_errors:
  "ComputeRMSE_ColoredICP lambda_example source0 target1 cors0 =
     Inl (LogError ''Source and/or Target pointcloud missing colors attribute.'') \<and>
   ComputeRMSE_ColoredICP lambda_example (append_points 1 extra_point source0) target1
       (append_unmatched 1 cors0) = Inl (ShapeError [0])"
proof
  have "HasPointColors target1 = Inr True" "HasPointColors source0 = Inr False"
    by (simp_all add: pc_defs target1_def source0_def float_tensor_def cong: bind_e_weak_cong)
  then show "ComputeRMSE_ColoredICP lambda_example source0 target1 cors0 =
     Inl (LogError ''Source and/or Target pointcloud missing colors attribute.'')"
    by (intro ColoredICP_colors_fail [THEN conjunct1]) simp
next
  let ?sp = "float_tensor [1, 3] [5, 5, 5]"
  let ?sc = "float_tensor [1, 3] [0, 0, 0]"
  let ?tp = "float_tensor [1, 3] [0, 0, 0]"
  let ?tn = "float_tensor [1, 3] [3 / 5, 4 / 5, 0]"
  let ?tc = "float_tensor [1, 3] [1, 1, 1]"
  let ?tg = "float_tensor [1, 3] [0, 0, 0]"
  let ?valid = "Reshape_flat (Ne cors0_extended (- 1))"
  let ?G = "index_tensor []"
  let ?e = "float_tensor [0, 3] []"
  let ?d = "float_tensor [0] []"
  have attrs: "ColoredICP_attributes source0_extended target1 = Inr ()"
    by (simp add: ColoredICP_attributes_def pc_defs source0_extended_def target1_def
        float_tensor_def cong: bind_e_weak_cong)
  have get: "GetPoints source0_extended = Inr ?sp" "GetPointColors source0_extended = Inr ?sc"
      "GetPoints target1 = Inr ?tp" "GetPointNormals target1 = Inr ?tn"
      "GetPointColors target1 = Inr ?tc" "pc_GetPointAttr target1 ''color_gradients'' = Inr ?tg"
    by (simp_all add: pc_defs source0_extended_def target1_def)
  have chk: "AssertDevice ?tp (device ?sp) = Inr ()"
      "AssertDevice cors0_extended (device ?sp) = Inr ()"
      "AssertDtype ?sc (dtype ?sp) = Inr ()" "AssertDtype ?tp (dtype ?sp) = Inr ()"
      "AssertDtype ?tn (dtype ?sp) = Inr ()" "AssertDtype ?tc (dtype ?sp) = Inr ()"
      "AssertDtype ?tg (dtype ?sp) = Inr ()" "AssertDtype cors0_extended Int64 = Inr ()"
    by (simp_all add: AssertDevice_def AssertDtype_def float_tensor_def cors0_extended_def
        index_tensor_def)
  have gather: "IndexGet_mask cors0_extended ?valid = Inr ?G" "Reshape_flat ?G = ?G"
      "IndexGet_mask ?sp ?valid = Inr ?e" "IndexGet_mask ?sc ?valid = Inr ?e"
      "IndexGet ?tp ?G = Inr ?e" "IndexGet ?tn ?G = Inr ?e"
      "IndexGet ?tc ?G = Inr ?e" "IndexGet ?tg ?G = Inr ?e"
    by (simp_all add: prim_defs float_tensor_def cors0_extended_def index_tensor_def upt_rec)
  have arith: "Sub ?e ?e = Inr ?e" "Mul ?e ?e = Inr ?e" "Sum ?e [1] = Inr ?d"
      "Mul ?d ?e = Inl (ShapeError [0])"
    by (simp_all add: prim_defs float_tensor_def upt_rec)
  show "ComputeRMSE_ColoredICP lambda_example (append_points 1 extra_point source0) target1
       (append_unmatched 1 cors0) = Inl (ShapeError [0])"
    unfolding extended_examples ComputeRMSE_ColoredICP_def attrs
    by (simp add: get chk gather arith Let_def del: One_nat_def cong: bind_e_weak_cong)
qed

subsection \<open>The attribute store and the line set\<close>

lemma on_device_after_call: "on_device ls \<Longrightarrow> on_device (after_call ls c)"
  by (cases c)
     (auto simp: on_device_def after_call_def SetPointAttr_def SetPointPositions_def
        SetLineAttr_def SetLineIndices_def SetLineColors_def RemovePointAttr_def
        RemoveLineAttr_def Clear_def Erase_def AssertDevice_def AssertShapeCompatible_def
        bind_e_def ran_def split: sum.splits if_splits)

lemma on_device_after_calls: "on_device ls \<Longrightarrow> on_device (after_calls ls cs)"
  unfolding after_calls_def
  by (induction cs arbitrary: ls) (auto simp: on_device_after_call)

lemma on_device_new: "on_device (LineSet_new d)"
  by (simp add: on_device_def LineSet_new_def)

lemma setters_reject_device:
  assumes "device v \<noteq> ls_device ls"
  shows "SetPointAttr ls key v = Inl (DeviceError (device v) (ls_device ls))"
    and "SetLineAttr ls key v = Inl (DeviceError (device v) (ls_device ls))"
    and "isl (SetPointPositions ls v)"
    and "isl (SetLineIndices ls v)"
    and "isl (SetLineColors ls v)"
  using assms
  by (simp_all add: SetPointAttr_def SetLineAttr_def SetPointPositions_def SetLineIndices_def
      SetLineColors_def AssertDevice_def AssertShapeCompatible_def)

section \<open>The store\<close>

subsection \<open>What the estimators leave alone\<close>

lemma keeps_bind:
  assumes "keeps b Q c" and "\<And>x. Q x \<Longrightarrow> keeps b R (f x)"
  shows "keeps b R (bind_s c f)"
  unfolding keeps_def
proof (intro allI impI)
  fix s :: store assume b: "b \<le> next_blob s"
  obtain r s' where c: "c s = (r, s')" by (cases "c s")
  from assms(1) b c have 1: "b \<le> next_blob s'" "\<forall>a<b. same_blob a s s'"
    "\<forall>x. r = Inr x \<longrightarrow> Q x"
    unfolding keeps_def by (auto dest!: spec [where x = s])
  show "b \<le> next_blob (snd (bind_s c f s)) \<and> (\<forall>a<b. same_blob a s (snd (bind_s c f s))) \<and>
        (\<forall>x. fst (bind_s c f s) = Inr x \<longrightarrow> R x)"
  proof (cases r)
    case (Inl e)
    with c 1 show ?thesis by (simp add: bind_s_def)
  next
    case (Inr x)
    with 1 have "Q x" by simp
    from assms(2) [OF this] 1(1)
    have 2: "b \<le> next_blob (snd (f x s'))" "\<forall>a<b. same_blob a s' (snd (f x s'))"
      "\<forall>y. fst (f x s') = Inr y \<longrightarrow> R y"
      unfolding keeps_def by (auto dest!: spec [where x = s'])
    from 1(2) 2(2) have "\<forall>a<b. same_blob a s (snd (f x s'))"
      by (simp add: same_blob_def)
    with c Inr 2 show ?thesis by (simp add: bind_s_def)
  qed
qed

lemma keeps_pure: "(\<And>x. r = Inr x \<Longrightarrow> Q x) \<Longrightarrow> keeps b Q (pure_s r)"
  by (simp add: keeps_def pure_s_def same_blob_def)

lemma keeps_pure_any: "keeps b (\<lambda>_. True) (pure_s r)"
  by (simp add: keeps_def pure_s_def same_blob_def)

lemma keeps_weaken: "keeps b Q c \<Longrightarrow> (\<And>x. Q x \<Longrightarrow> R x) \<Longrightarrow> keeps b R c"
  by (simp add: keeps_def)

lemma keeps_load_floats: "keeps b (\<lambda>_. True) (load_floats h)"
  by (simp add: keeps_def load_floats_def same_blob_def split: option.splits)

lemma keeps_load_indices: "keeps b (\<lambda>_. True) (load_indices h)"
  by (simp add: keeps_def load_indices_def same_blob_def split: option.splits)

lemma keeps_load_masks: "keeps b (\<lambda>_. True) (load_masks h)"
  by (simp add: keeps_def load_masks_def same_blob_def split: option.splits)

lemma keeps_new_floats: "keeps b (fresh b) (new_floats t)"
  by (simp add: keeps_def new_floats_def same_blob_def fresh_def with_data_def)

lemma keeps_new_indices: "keeps b (fresh b) (new_indices t)"
  by (simp add: keeps_def new_indices_def same_blob_def fresh_def with_data_def)

lemma keeps_new_masks: "keeps b (fresh b) (new_masks t)"
  by (simp add: keeps_def new_masks_def same_blob_def fresh_def with_data_def)

lemma keeps_write_floats: "fresh b h \<Longrightarrow> keeps b (fresh b) (write_floats h t)"
  by (simp add: keeps_def write_floats_def same_blob_def fresh_def)

lemma fresh_Reshape_flat [simp]: "fresh b (Reshape_flat h) = fresh b h"
  by (simp add: fresh_def Reshape_flat_def)

lemma keeps_Ne_s: "keeps b (fresh b) (Ne_s h v)"
  unfolding Ne_s_def by (rule keeps_bind [OF keeps_load_indices keeps_new_masks])

lemma keeps_IndexGet_mask_indices_s: "keeps b (fresh b) (IndexGet_mask_indices_s h m)"
  unfolding IndexGet_mask_indices_s_def
  by (intro keeps_bind [OF keeps_load_indices] keeps_bind [OF keeps_load_masks]
      keeps_bind [OF keeps_pure_any] keeps_new_indices)

lemma keeps_IndexGet_mask_s: "keeps b (fresh b) (IndexGet_mask_s h m)"
  unfolding IndexGet_mask_s_def
  by (intro keeps_bind [OF keeps_load_floats] keeps_bind [OF keeps_load_masks]
      keeps_bind [OF keeps_pure_any] keeps_new_floats)

lemma keeps_IndexGet_s: "keeps b (fresh b) (IndexGet_s h i)"
  unfolding IndexGet_s_def
  by (intro keeps_bind [OF keeps_load_floats] keeps_bind [OF keeps_load_indices]
      keeps_bind [OF keeps_pure_any] keeps_new_floats)

lemma keeps_binary_s: "keeps b (fresh b) (binary_s f x y)"
  unfolding binary_s_def
  by (intro keeps_bind [OF keeps_load_floats] keeps_bind [OF keeps_pure_any] keeps_new_floats)

lemma keeps_binary_inplace_s: "fresh b x \<Longrightarrow> keeps b (fresh b) (binary_inplace_s f x y)"
  unfolding binary_inplace_s_def
  by (intro keeps_bind [OF keeps_load_floats] keeps_bind [OF keeps_pure_any] keeps_write_floats)

lemmas keeps_arith =
  keeps_binary_s [of _ Sub, folded Sub_s_def]
  keeps_binary_s [of _ Mul, folded Mul_s_def]
  keeps_binary_s [of _ Add, folded Add_s_def]

lemmas keeps_inplace =
  keeps_binary_inplace_s [of _ _ Mul_inplace, folded Mul_inplace_s_def]
  keeps_binary_inplace_s [of _ _ Add_inplace, folded Add_inplace_s_def]

lemma keeps_Mul_scalar_s: "keeps b (fresh b) (Mul_scalar_s h c)"
  unfolding Mul_scalar_s_def by (rule keeps_bind [OF keeps_load_floats keeps_new_floats])

lemma keeps_Sum_s: "keeps b (fresh b) (Sum_s h dims)"
  unfolding Sum_s_def
  by (intro keeps_bind [OF keeps_load_floats] keeps_bind [OF keeps_pure_any] keeps_new_floats)

lemma keeps_Mean_s: "keeps b (fresh b) (Mean_s h dims)"
  unfolding Mean_s_def
  by (intro keeps_bind [OF keeps_load_floats] keeps_bind [OF keeps_pure_any] keeps_new_floats)

lemma keeps_To_s: "fresh b h \<Longrightarrow> keeps b (fresh b) (To_s h d)"
  unfolding To_s_def
  by (auto intro!: keeps_pure keeps_bind [OF keeps_load_floats] keeps_new_floats)

lemma keeps_Item_s: "keeps b (\<lambda>_. True) (Item_s h)"
  unfolding Item_s_def by (intro keeps_bind [OF keeps_load_floats] keeps_pure_any)

lemma keeps_if: "(P \<Longrightarrow> keeps b Q c) \<Longrightarrow> (\<not> P \<Longrightarrow> keeps b Q d) \<Longrightarrow> keeps b Q (if P then c else d)"
  by simp

lemmas keeps_steps =
  keeps_bind [OF keeps_pure_any] keeps_bind [OF keeps_Ne_s]
  keeps_bind [OF keeps_IndexGet_mask_indices_s] keeps_bind [OF keeps_IndexGet_mask_s]
  keeps_bind [OF keeps_IndexGet_s] keeps_bind [OF keeps_arith(1)] keeps_bind [OF keeps_arith(2)]
  keeps_bind [OF keeps_arith(3)] keeps_bind [OF keeps_Mul_scalar_s] keeps_bind [OF keeps_Sum_s]
  keeps_bind [OF keeps_Mean_s] keeps_bind [OF keeps_Item_s]
  keeps_bind [OF keeps_inplace(1)] keeps_bind [OF keeps_inplace(2)] keeps_bind [OF keeps_To_s]
  keeps_if keeps_pure_any

lemma keeps_ComputeRMSE_PointToPoint_s:
  "keeps b (\<lambda>_. True) (ComputeRMSE_PointToPoint_s source target correspondences)"
  unfolding ComputeRMSE_PointToPoint_s_def Let_def
  by (intro keeps_steps) simp_all

lemma keeps_ComputeRMSE_PointToPlane_s:
  "keeps b (\<lambda>_. True) (ComputeRMSE_PointToPlane_s source target correspondences)"
  unfolding ComputeRMSE_PointToPlane_s_def Let_def
  by (intro keeps_steps) simp_all

lemma keeps_ComputeRMSE_ColoredICP_s:
  "keeps b (\<lambda>_. True) (ComputeRMSE_ColoredICP_s lambda_geometric source target correspondences)"
  unfolding ComputeRMSE_ColoredICP_s_def Let_def
  by (intro keeps_steps) simp_all


lemma write_floats_writes:
  "floats (snd (write_floats h t s)) (data h) = Some (data t)"
  by (simp add: write_floats_def)

lemma keeps_gather_source_s: "keeps b (fresh b) (gather_source_s t correspondences)"
  unfolding gather_source_s_def by (intro keeps_steps keeps_IndexGet_mask_s)

lemma keeps_gather_target_s: "keeps b (fresh b) (gather_target_s t correspondences)"
  unfolding gather_target_s_def by (intro keeps_steps keeps_IndexGet_s)

lemmas keeps_kernel_steps =
  keeps_bind [OF keeps_gather_source_s] keeps_bind [OF keeps_gather_target_s]
  keeps_bind [OF keeps_load_floats] keeps_bind [OF keeps_new_floats] keeps_bind [OF keeps_pure_any]
  keeps_if keeps_pure_any keeps_new_floats

lemma keeps_ComputeRtPointToPoint_s:
  "keeps b (\<lambda>_. True) (ComputeRtPointToPoint_s solve source_points target_points correspondences)"
  unfolding ComputeRtPointToPoint_s_def by (intro keeps_kernel_steps)

lemma keeps_RtToTransformation_s: "keeps b (fresh b) (RtToTransformation_s convert R t)"
  unfolding RtToTransformation_s_def by (intro keeps_kernel_steps)

lemma keeps_PoseToTransformation_s: "keeps b (fresh b) (PoseToTransformation_s convert pose)"
  unfolding PoseToTransformation_s_def by (intro keeps_kernel_steps)

lemma keeps_ComputePosePointToPlane_s:
  "keeps b (fresh b) (ComputePosePointToPlane_s solve source_points target_points
     target_normals correspondences robust_kernel)"
  unfolding ComputePosePointToPlane_s_def by (intro keeps_kernel_steps)

lemma keeps_ComputePoseColoredICP_s:
  "keeps b (fresh b) (ComputePoseColoredICP_s solve sp sc tp tn tc tg correspondences robust_kernel
     lambda_geometric)"
  unfolding ComputePoseColoredICP_s_def by (intro keeps_kernel_steps)

lemma keeps_ComputeTransformation_PointToPoint_s:
  "keeps b (fresh b)
     (ComputeTransformation_PointToPoint_s solve convert source target correspondences)"
  unfolding ComputeTransformation_PointToPoint_s_def
  by (intro keeps_bind [OF keeps_pure_any] keeps_bind [OF keeps_ComputeRtPointToPoint_s]
      keeps_RtToTransformation_s)

lemma keeps_ComputeTransformation_PointToPlane_s:
  "keeps b (fresh b)
     (ComputeTransformation_PointToPlane_s solve convert robust_kernel source target
        correspondences)"
  unfolding ComputeTransformation_PointToPlane_s_def
  by (intro keeps_bind [OF keeps_pure_any] keeps_bind [OF keeps_ComputePosePointToPlane_s]
      keeps_PoseToTransformation_s keeps_if keeps_pure) simp_all

lemma keeps_ComputeTransformation_ColoredICP_s:
  "keeps b (fresh b)
     (ComputeTransformation_ColoredICP_s solve convert robust_kernel lambda_geometric source
        target correspondences)"
  unfolding ComputeTransformation_ColoredICP_s_def
  by (intro keeps_bind [OF keeps_pure_any] keeps_bind [OF keeps_ComputePoseColoredICP_s]
      keeps_PoseToTransformation_s)

lemma keeps_same_blob:
  fixes s :: store
  assumes "keeps (next_blob s) Q c" and "a < next_blob s"
  shows "same_blob a s (snd (c s))"
  using assms unfolding keeps_def by (auto dest!: spec [where x = s])

subsection \<open>The estimators on handles compute what the estimators on values compute\<close>

lemma with_data_data [simp]:
  fixes t :: "'a Tensor"
  shows "with_data t (data t) = t"
  by (cases t) (simp add: with_data_def)

lemma load_cloud_device [simp]: "GetDevice (load_cloud s pc) = GetDevice pc"
  by (simp add: load_cloud_def GetDevice_def)

lemma with_data_sel [simp]:
  "shape (with_data t x) = shape t" "dtype (with_data t x) = dtype t"
  "device (with_data t x) = device t" "data (with_data t x) = x"
  by (simp_all add: with_data_def)

lemma with_data_twice [simp]: "with_data (with_data t a) x = with_data t x"
  by (simp add: with_data_def)

lemma with_data_Reshape_flat [simp]:
  "with_data (Reshape_flat t) x = Reshape_flat (with_data t x)"
  by (simp add: with_data_def Reshape_flat_def)

lemma with_data_same:
  fixes r :: "'a Tensor"
  assumes "shape r = shape t" "dtype r = dtype t" "device r = device t"
  shows "with_data t (data r) = r"
  using assms by (cases r) (simp add: with_data_def)

lemma data_Reshape_flat [simp]: "data (Reshape_flat t) = data t"
  by (simp add: Reshape_flat_def)

lemma BinaryEW_inplace_same_meta:
  assumes "BinaryEW_inplace f a b = Inr r"
  shows "shape r = shape a \<and> dtype r = dtype a \<and> device r = device a"
  using assms
  by (auto simp add: BinaryEW_inplace_def BinaryEW_def bind_e_def
      split: if_splits sum.splits)

lemma with_data_inplace:
  assumes "BinaryEW_inplace f a b = Inr r"
  shows "with_data a (data r) = r"
  using BinaryEW_inplace_same_meta [OF assms] by (intro with_data_same) simp_all

lemma with_data_inplace_twice:
  assumes "BinaryEW_inplace f a b = Inr r" and "BinaryEW_inplace g r c = Inr r'"
  shows "with_data a (data r') = r'"
  using BinaryEW_inplace_same_meta [OF assms(1)] BinaryEW_inplace_same_meta [OF assms(2)]
  by (intro with_data_same) simp_all

lemma GetLength_with_data [simp]: "GetLength (with_data t x) = GetLength t"
  by (simp add: GetLength_def)

lemma GetLength_Reshape_flat_with_data [simp]:
  "GetLength (Reshape_flat (with_data t x)) = GetLength (Reshape_flat t)"
  by (simp add: GetLength_def Reshape_flat_def)

lemma Item_To [simp]: "Item (To t d) = Item t"
  by (simp add: Item_def To_def split: list.splits)

lemma To_same: "dtype t = d \<Longrightarrow> To t d = t"
  by (simp add: To_def)

lemma GetPoints_load_cloud:
  assumes "cloud_in s pc"
  shows "pc_GetPointAttr (load_cloud s pc) key =
          (case pc_GetPointAttr pc key of
             Inl e \<Rightarrow> Inl e
           | Inr h \<Rightarrow> Inr (with_data h (the (floats s (data h)))))"
  using assms
  by (auto simp add: pc_GetPointAttr_def at_key_def load_cloud_def cloud_in_def
      split: option.splits)

lemma Contains_load_cloud:
  assumes "cloud_in s pc"
  shows "Contains (pc_point_attr (load_cloud s pc)) key = Contains (pc_point_attr pc) key"
  using assms by (auto simp add: Contains_def load_cloud_def cloud_in_def split: option.splits)

lemma pc_HasPointAttr_load_cloud:
  assumes "cloud_in s pc"
  shows "pc_HasPointAttr (load_cloud s pc) key = pc_HasPointAttr pc key"
  using assms
  by (simp add: pc_HasPointAttr_def GetPoints_def Contains_load_cloud GetPoints_load_cloud
      bind_e_def split: sum.splits)

lemma ColoredICP_attributes_load_cloud:
  assumes "cloud_in s source" "cloud_in s target"
  shows "ColoredICP_attributes (load_cloud s source) (load_cloud s target) =
         ColoredICP_attributes source target"
  using assms
  by (simp add: ColoredICP_attributes_def HasPointColors_def HasPointNormals_def
      pc_HasPointAttr_load_cloud cong: if_cong)

lemma attr_in:
  assumes "cloud_in s pc" and "pc_GetPointAttr pc key = Inr h"
  obtains xs where "floats s (data h) = Some xs" and "data h < next_blob s"
    and "pc_GetPointAttr (load_cloud s pc) key = Inr (with_data h xs)"
proof -
  from assms have "pc_point_attr pc key = Some h"
    by (simp add: pc_GetPointAttr_def at_key_def split: option.splits)
  with assms(1) obtain xs where xs: "floats s (data h) = Some xs" "data h < next_blob s"
    by (auto simp add: cloud_in_def)
  with assms have "pc_GetPointAttr (load_cloud s pc) key = Inr (with_data h xs)"
    by (simp add: GetPoints_load_cloud)
  with xs show thesis by (rule that)
qed

lemma HasPointAttr_attr:
  assumes "pc_HasPointAttr pc key = Inr True"
  shows "\<exists>h p. pc_GetPointAttr pc key = Inr h \<and> pc_GetPointAttr pc ''positions'' = Inr p"
  using assms
  by (auto simp add: pc_HasPointAttr_def GetPoints_def bind_e_def
      split: if_splits sum.splits)

lemmas store_defs =
  bind_s_def pure_s_def Ne_s_def IndexGet_mask_indices_s_def IndexGet_mask_s_def IndexGet_s_def
  Sub_s_def Mul_s_def Add_s_def Mul_inplace_s_def Add_inplace_s_def binary_s_def
  binary_inplace_s_def Mul_scalar_s_def Sum_s_def Mean_s_def To_s_def Item_s_def
  load_floats_def load_indices_def load_masks_def new_floats_def new_indices_def
  new_masks_def write_floats_def

lemma link_PointToPoint:
  assumes "cloud_in s source" and "cloud_in s target"
    and "data correspondences < next_blob s"
    and "indices s (data correspondences) = Some cs"
  shows "fst (ComputeRMSE_PointToPoint_s source target correspondences s) =
         ComputeRMSE_PointToPoint (load_cloud s source) (load_cloud s target)
           (with_data correspondences cs)"
proof (cases "GetPoints target")
  case (Inl e)
  then show ?thesis
    using assms(2)
    by (simp add: ComputeRMSE_PointToPoint_s_def ComputeRMSE_PointToPoint_def GetPoints_def
        GetPoints_load_cloud bind_s_def pure_s_def)
next
  case tp: (Inr tp)
  show ?thesis
  proof (cases "GetPoints source")
    case (Inl e)
    then show ?thesis
      using assms(1,2) tp
      by (simp add: ComputeRMSE_PointToPoint_s_def ComputeRMSE_PointToPoint_def GetPoints_def
          GetPoints_load_cloud bind_s_def pure_s_def)
  next
    case sp: (Inr sp)
    from sp assms(1) obtain xs where xs: "floats s (data sp) = Some xs" "data sp < next_blob s"
      by (auto simp add: GetPoints_def pc_GetPointAttr_def at_key_def cloud_in_def
          split: option.splits)
    from tp assms(2) obtain ys where ys: "floats s (data tp) = Some ys" "data tp < next_blob s"
      by (auto simp add: GetPoints_def pc_GetPointAttr_def at_key_def cloud_in_def
          split: option.splits)
    have vsp: "GetPoints (load_cloud s source) = Inr (with_data sp xs)"
      using sp xs assms(1) by (simp add: GetPoints_def GetPoints_load_cloud)
    have vtp: "GetPoints (load_cloud s target) = Inr (with_data tp ys)"
      using tp ys assms(2) by (simp add: GetPoints_def GetPoints_load_cloud)
    show ?thesis
      using xs ys assms(3,4)
      unfolding ComputeRMSE_PointToPoint_s_def ComputeRMSE_PointToPoint_def
      apply (simp add: sp tp vsp vtp Let_def cong: if_cong)
      apply (simp add: store_defs Mul_inplace_def with_data_inplace To_same AssertDtype_def
          split: sum.splits if_splits cong: if_cong)
      done
  qed
qed


lemma link_PointToPlane:
  assumes "cloud_in s source" and "cloud_in s target"
    and "data correspondences < next_blob s"
    and "indices s (data correspondences) = Some cs"
  shows "fst (ComputeRMSE_PointToPlane_s source target correspondences s) =
         ComputeRMSE_PointToPlane (load_cloud s source) (load_cloud s target)
           (with_data correspondences cs)"
proof (cases "HasPointNormals target = Inr True")
  case False
  then show ?thesis
    using assms(2)
    by (cases "HasPointNormals target")
      (simp_all add: ComputeRMSE_PointToPlane_s_def ComputeRMSE_PointToPlane_def
        HasPointNormals_def pc_HasPointAttr_load_cloud bind_s_def pure_s_def)
next
  case True
  then obtain tn tp where tn: "pc_GetPointAttr target ''normals'' = Inr tn"
    and tp: "pc_GetPointAttr target ''positions'' = Inr tp"
    using HasPointAttr_attr [of target "''normals''"] by (auto simp add: HasPointNormals_def)
  from attr_in [OF assms(2) tn] obtain ns where ns: "floats s (data tn) = Some ns"
    "data tn < next_blob s" "pc_GetPointAttr (load_cloud s target) ''normals'' = Inr (with_data tn ns)"
    by blast
  from attr_in [OF assms(2) tp] obtain ys where ys: "floats s (data tp) = Some ys"
    "data tp < next_blob s" "pc_GetPointAttr (load_cloud s target) ''positions'' = Inr (with_data tp ys)"
    by blast
  have has: "HasPointNormals (load_cloud s target) = Inr True"
    using True assms(2) by (simp add: HasPointNormals_def pc_HasPointAttr_load_cloud)
  show ?thesis
  proof (cases "pc_GetPointAttr source ''positions''")
    case (Inl e)
    then show ?thesis
      using assms(1) True has tn tp ns ys
      by (simp add: ComputeRMSE_PointToPlane_s_def ComputeRMSE_PointToPlane_def GetPoints_def
          GetPoints_load_cloud bind_s_def pure_s_def AssertDevice_def Let_def cong: if_cong)
  next
    case sp: (Inr sp)
    from attr_in [OF assms(1) sp] obtain xs where xs: "floats s (data sp) = Some xs"
      "data sp < next_blob s"
      "pc_GetPointAttr (load_cloud s source) ''positions'' = Inr (with_data sp xs)"
      by blast
    show ?thesis
      using xs(1,2) ys(1,2) ns(1,2) assms(3,4)
      unfolding ComputeRMSE_PointToPlane_s_def ComputeRMSE_PointToPlane_def
      apply (simp add: True has sp tp tn xs(3) ys(3) ns(3) GetPoints_def GetPointNormals_def
          Let_def cong: if_cong)
      apply (simp add: store_defs Mul_inplace_def with_data_inplace with_data_inplace_twice
          To_same AssertDtype_def AssertDevice_def
          split: sum.splits if_splits cong: if_cong)
      done
  qed
qed


lemma ColoredICP_attributes_attrs:
  assumes "ColoredICP_attributes source target = Inr ()"
  shows "\<exists>sp sc tp tn tc tg.
           pc_GetPointAttr source ''positions'' = Inr sp \<and>
           pc_GetPointAttr source ''colors'' = Inr sc \<and>
           pc_GetPointAttr target ''positions'' = Inr tp \<and>
           pc_GetPointAttr target ''normals'' = Inr tn \<and>
           pc_GetPointAttr target ''colors'' = Inr tc \<and>
           pc_GetPointAttr target ''color_gradients'' = Inr tg"
proof -
  from assms have "HasPointColors target = Inr True \<and> HasPointColors source = Inr True \<and>
      HasPointNormals target = Inr True \<and> pc_HasPointAttr target ''color_gradients'' = Inr True"
    by (auto simp add: ColoredICP_attributes_def bind_e_def split: sum.splits if_splits)
  then show ?thesis
    using HasPointAttr_attr [of target "''colors''"] HasPointAttr_attr [of source "''colors''"]
      HasPointAttr_attr [of target "''normals''"]
      HasPointAttr_attr [of target "''color_gradients''"]
    by (auto simp add: HasPointColors_def HasPointNormals_def)
qed

lemma link_ColoredICP:
  assumes "cloud_in s source" and "cloud_in s target"
    and "data correspondences < next_blob s"
    and "indices s (data correspondences) = Some cs"
  shows "fst (ComputeRMSE_ColoredICP_s lambda_geometric source target correspondences s) =
         ComputeRMSE_ColoredICP lambda_geometric (load_cloud s source) (load_cloud s target)
           (with_data correspondences cs)"
proof (cases "ColoredICP_attributes source target")
  case (Inl e)
  then show ?thesis
    using assms(1,2)
    by (simp add: ComputeRMSE_ColoredICP_s_def ComputeRMSE_ColoredICP_def
        ColoredICP_attributes_load_cloud bind_s_def pure_s_def)
next
  case (Inr u)
  then have ok: "ColoredICP_attributes source target = Inr ()" by simp
  from ColoredICP_attributes_attrs [OF ok] obtain sp sc tp tn tc tg where
    a: "pc_GetPointAttr source ''positions'' = Inr sp"
      "pc_GetPointAttr source ''colors'' = Inr sc"
      "pc_GetPointAttr target ''positions'' = Inr tp"
      "pc_GetPointAttr target ''normals'' = Inr tn"
      "pc_GetPointAttr target ''colors'' = Inr tc"
      "pc_GetPointAttr target ''color_gradients'' = Inr tg"
    by blast
  from attr_in [OF assms(1) a(1)] obtain xs where xs: "floats s (data sp) = Some xs"
    "data sp < next_blob s"
    "pc_GetPointAttr (load_cloud s source) ''positions'' = Inr (with_data sp xs)"
    by blast
  from attr_in [OF assms(1) a(2)] obtain xc where xc: "floats s (data sc) = Some xc"
    "data sc < next_blob s"
    "pc_GetPointAttr (load_cloud s source) ''colors'' = Inr (with_data sc xc)"
    by blast
  from attr_in [OF assms(2) a(3)] obtain ys where ys: "floats s (data tp) = Some ys"
    "data tp < next_blob s"
    "pc_GetPointAttr (load_cloud s target) ''positions'' = Inr (with_data tp ys)"
    by blast
  from attr_in [OF assms(2) a(4)] obtain ns where ns: "floats s (data tn) = Some ns"
    "data tn < next_blob s"
    "pc_GetPointAttr (load_cloud s target) ''normals'' = Inr (with_data tn ns)"
    by blast
  from attr_in [OF assms(2) a(5)] obtain yc where yc: "floats s (data tc) = Some yc"
    "data tc < next_blob s"
    "pc_GetPointAttr (load_cloud s target) ''colors'' = Inr (with_data tc yc)"
    by blast
  from attr_in [OF assms(2) a(6)] obtain gs where gs: "floats s (data tg) = Some gs"
    "data tg < next_blob s"
    "pc_GetPointAttr (load_cloud s target) ''color_gradients'' = Inr (with_data tg gs)"
    by blast
  have ok': "ColoredICP_attributes (load_cloud s source) (load_cloud s target) = Inr ()"
    using ok assms(1,2) by (simp add: ColoredICP_attributes_load_cloud)
  show ?thesis
    using xs(1,2) xc(1,2) ys(1,2) ns(1,2) yc(1,2) gs(1,2) assms(3,4)
    unfolding ComputeRMSE_ColoredICP_s_def ComputeRMSE_ColoredICP_def
    apply (simp add: ok ok' a xs(3) xc(3) ys(3) ns(3) yc(3) gs(3) GetPoints_def
        GetPointNormals_def GetPointColors_def Let_def cong: if_cong)
    apply (simp add: store_defs Add_inplace_def with_data_inplace To_same AssertDtype_def
        AssertDevice_def
        split: sum.splits if_splits cong: if_cong)
    done
qed


lemmas kernel_defs =
  gather_source_s_def gather_target_s_def gather_source_def gather_target_def
  ComputeRtPointToPoint_s_def RtToTransformation_s_def ComputePosePointToPlane_s_def
  PoseToTransformation_s_def ComputePoseColoredICP_s_def
  ComputeRtPointToPoint_def ComputePosePointToPlane_def ComputePoseColoredICP_def

lemma link_Transformation_PointToPoint:
  assumes "cloud_in s source" and "cloud_in s target"
    and "data correspondences < next_blob s"
    and "indices s (data correspondences) = Some cs"
  shows "result_value
           (ComputeTransformation_PointToPoint_s solve convert source target correspondences s) =
         ComputeTransformation_PointToPoint (ComputeRtPointToPoint solve) convert
           (load_cloud s source) (load_cloud s target) (with_data correspondences cs)"
proof (cases "pc_GetPointAttr source ''positions''")
  case (Inl e)
  then show ?thesis
    using assms(1)
    by (simp add: ComputeTransformation_PointToPoint_s_def ComputeTransformation_PointToPoint_def
        GetPoints_def GetPoints_load_cloud bind_s_def pure_s_def result_value_def)
next
  case sp: (Inr sp)
  from attr_in [OF assms(1) sp] obtain xs where xs: "floats s (data sp) = Some xs"
    "data sp < next_blob s"
    "pc_GetPointAttr (load_cloud s source) ''positions'' = Inr (with_data sp xs)"
    by blast
  show ?thesis
  proof (cases "pc_GetPointAttr target ''positions''")
    case (Inl e)
    then show ?thesis
      using assms(2) sp xs
      by (simp add: ComputeTransformation_PointToPoint_s_def
          ComputeTransformation_PointToPoint_def
          GetPoints_def GetPoints_load_cloud bind_s_def pure_s_def result_value_def)
  next
    case tp: (Inr tp)
    from attr_in [OF assms(2) tp] obtain ys where ys: "floats s (data tp) = Some ys"
      "data tp < next_blob s"
      "pc_GetPointAttr (load_cloud s target) ''positions'' = Inr (with_data tp ys)"
      by blast
    show ?thesis
      using xs(1,2) ys(1,2) assms(3,4)
      unfolding ComputeTransformation_PointToPoint_s_def ComputeTransformation_PointToPoint_def
      apply (simp add: sp tp xs(3) ys(3) GetPoints_def cong: if_cong)
      apply (simp add: result_value_def kernel_defs store_defs
          split: sum.splits if_splits prod.splits cong: if_cong)
      done
  qed
qed


lemma link_Transformation_PointToPlane:
  assumes "cloud_in s source" and "cloud_in s target"
    and "data correspondences < next_blob s"
    and "indices s (data correspondences) = Some cs"
  shows "result_value
           (ComputeTransformation_PointToPlane_s solve convert robust_kernel source target
              correspondences s) =
         ComputeTransformation_PointToPlane (ComputePosePointToPlane solve) convert
           robust_kernel (load_cloud s source) (load_cloud s target)
           (with_data correspondences cs)"
proof (cases "HasPointNormals target = Inr True")
  case False
  then show ?thesis
    using assms(2)
    by (cases "HasPointNormals target")
      (simp_all add: ComputeTransformation_PointToPlane_s_def
        ComputeTransformation_PointToPlane_def result_value_def
        HasPointNormals_def pc_HasPointAttr_load_cloud bind_s_def pure_s_def)
next
  case True
  then obtain tn tp where tn: "pc_GetPointAttr target ''normals'' = Inr tn"
    and tp: "pc_GetPointAttr target ''positions'' = Inr tp"
    using HasPointAttr_attr [of target "''normals''"] by (auto simp add: HasPointNormals_def)
  from attr_in [OF assms(2) tn] obtain ns where ns: "floats s (data tn) = Some ns"
    "data tn < next_blob s" "pc_GetPointAttr (load_cloud s target) ''normals'' = Inr (with_data tn ns)"
    by blast
  from attr_in [OF assms(2) tp] obtain ys where ys: "floats s (data tp) = Some ys"
    "data tp < next_blob s" "pc_GetPointAttr (load_cloud s target) ''positions'' = Inr (with_data tp ys)"
    by blast
  have has: "HasPointNormals (load_cloud s target) = Inr True"
    using True assms(2) by (simp add: HasPointNormals_def pc_HasPointAttr_load_cloud)
  show ?thesis
  proof (cases "pc_GetPointAttr source ''positions''")
    case (Inl e)
    then show ?thesis
      using assms(1) True has tn tp ns ys
      by (simp add: ComputeTransformation_PointToPlane_s_def
          ComputeTransformation_PointToPlane_def result_value_def GetPoints_def
          GetPoints_load_cloud bind_s_def pure_s_def cong: if_cong)
  next
    case sp: (Inr sp)
    from attr_in [OF assms(1) sp] obtain xs where xs: "floats s (data sp) = Some xs"
      "data sp < next_blob s"
      "pc_GetPointAttr (load_cloud s source) ''positions'' = Inr (with_data sp xs)"
      by blast
    show ?thesis
      using xs(1,2) ys(1,2) ns(1,2) assms(3,4)
      unfolding ComputeTransformation_PointToPlane_s_def ComputeTransformation_PointToPlane_def
      apply (simp add: True has sp tp tn xs(3) ys(3) ns(3) GetPoints_def GetPointNormals_def
          cong: if_cong)
      apply (simp add: result_value_def kernel_defs store_defs
          split: sum.splits if_splits cong: if_cong)
      done
  qed
qed

lemma link_Transformation_ColoredICP:
  assumes "cloud_in s source" and "cloud_in s target"
    and "data correspondences < next_blob s"
    and "indices s (data correspondences) = Some cs"
  shows "result_value
           (ComputeTransformation_ColoredICP_s solve convert robust_kernel lambda_geometric
              source target correspondences s) =
         ComputeTransformation_ColoredICP (ComputePoseColoredICP solve) convert
           robust_kernel lambda_geometric (load_cloud s source) (load_cloud s target)
           (with_data correspondences cs)"
proof (cases "ColoredICP_attributes source target")
  case (Inl e)
  then show ?thesis
    using assms(1,2)
    by (simp add: ComputeTransformation_ColoredICP_s_def ComputeTransformation_ColoredICP_def
        ColoredICP_attributes_load_cloud bind_s_def pure_s_def result_value_def)
next
  case (Inr u)
  then have ok: "ColoredICP_attributes source target = Inr ()" by simp
  from ColoredICP_attributes_attrs [OF ok] obtain sp sc tp tn tc tg where
    a: "pc_GetPointAttr source ''positions'' = Inr sp"
      "pc_GetPointAttr source ''colors'' = Inr sc"
      "pc_GetPointAttr target ''positions'' = Inr tp"
      "pc_GetPointAttr target ''normals'' = Inr tn"
      "pc_GetPointAttr target ''colors'' = Inr tc"
      "pc_GetPointAttr target ''color_gradients'' = Inr tg"
    by blast
  from attr_in [OF assms(1) a(1)] obtain xs where xs: "floats s (data sp) = Some xs"
    "data sp < next_blob s"
    "pc_GetPointAttr (load_cloud s source) ''positions'' = Inr (with_data sp xs)"
    by blast
  from attr_in [OF assms(1) a(2)] obtain xc where xc: "floats s (data sc) = Some xc"
    "data sc < next_blob s"
    "pc_GetPointAttr (load_cloud s source) ''colors'' = Inr (with_data sc xc)"
    by blast
  from attr_in [OF assms(2) a(3)] obtain ys where ys: "floats s (data tp) = Some ys"
    "data tp < next_blob s"
    "pc_GetPointAttr (load_cloud s target) ''positions'' = Inr (with_data tp ys)"
    by blast
  from attr_in [OF assms(2) a(4)] obtain ns where ns: "floats s (data tn) = Some ns"
    "data tn < next_blob s"
    "pc_GetPointAttr (load_cloud s target) ''normals'' = Inr (with_data tn ns)"
    by blast
  from attr_in [OF assms(2) a(5)] obtain yc where yc: "floats s (data tc) = Some yc"
    "data tc < next_blob s"
    "pc_GetPointAttr (load_cloud s target) ''colors'' = Inr (with_data tc yc)"
    by blast
  from attr_in [OF assms(2) a(6)] obtain gs where gs: "floats s (data tg) = Some gs"
    "data tg < next_blob s"
    "pc_GetPointAttr (load_cloud s target) ''color_gradients'' = Inr (with_data tg gs)"
    by blast
  have ok': "ColoredICP_attributes (load_cloud s source) (load_cloud s target) = Inr ()"
    using ok assms(1,2) by (simp add: ColoredICP_attributes_load_cloud)
  show ?thesis
    using xs(1,2) xc(1,2) ys(1,2) ns(1,2) yc(1,2) gs(1,2) assms(3,4)
    unfolding ComputeTransformation_ColoredICP_s_def ComputeTransformation_ColoredICP_def
    apply (simp add: ok ok' a xs(3) xc(3) ys(3) ns(3) yc(3) gs(3) GetPoints_def
        GetPointNormals_def GetPointColors_def cong: if_cong)
    apply (simp add: result_value_def kernel_defs store_defs
        split: sum.splits if_splits cong: if_cong)
    done
qed

subsection \<open>The examples in the store\<close>

lemma cloud_in_examples:
  "cloud_in store_example source2_handles" "cloud_in store_example target1_handles"
  by (auto simp add: cloud_in_def store_example_def source2_handles_def target1_handles_def
      float_handle_def split: if_splits)

lemma load_cloud_examples:
  "load_cloud store_example source2_handles = source2"
  "load_cloud store_example target1_handles = target1"
  by (auto simp add: load_cloud_def store_example_def source2_handles_def target1_handles_def
      source2_def target1_def float_handle_def float_tensor_def with_data_def
      intro!: ext)

lemma cors2_example:
  "data cors2_handle < next_blob store_example"
  "indices store_example (data cors2_handle) = Some (data cors2)"
  "with_data cors2_handle (data cors2) = cors2"
  by (simp_all add: cors2_handle_def store_example_def cors2_def index_tensor_def with_data_def)

lemma store_example_estimators:
  "fst (ComputeRMSE_PointToPoint_s source2_handles target1_handles cors2_handle store_example)
     = ComputeRMSE_PointToPoint source2 target1 cors2"
  "fst (ComputeRMSE_PointToPlane_s source2_handles target1_handles cors2_handle store_example)
     = ComputeRMSE_PointToPlane source2 target1 cors2"
  "fst (ComputeRMSE_ColoredICP_s lambda_geometric source2_handles target1_handles cors2_handle
          store_example)
     = ComputeRMSE_ColoredICP lambda_geometric source2 target1 cors2"
  using link_PointToPoint [OF cloud_in_examples cors2_example(1,2)]
    link_PointToPlane [OF cloud_in_examples cors2_example(1,2)]
    link_ColoredICP [OF cloud_in_examples cors2_example(1,2)]
  by (simp_all only: load_cloud_examples cors2_example(3))

lemma store_example_transformations:
  "result_value (ComputeTransformation_PointToPoint_s solve convert source2_handles
       target1_handles cors2_handle store_example)
     = ComputeTransformation_PointToPoint (ComputeRtPointToPoint solve) convert source2 target1
         cors2"
  "result_value (ComputeTransformation_PointToPlane_s solve' convert' robust_kernel
       source2_handles target1_handles cors2_handle store_example)
     = ComputeTransformation_PointToPlane (ComputePosePointToPlane solve') convert'
         robust_kernel source2 target1 cors2"
  "result_value (ComputeTransformation_ColoredICP_s solve'' convert' robust_kernel
       lambda_geometric source2_handles target1_handles cors2_handle store_example)
     = ComputeTransformation_ColoredICP (ComputePoseColoredICP solve'') convert'
         robust_kernel lambda_geometric source2 target1 cors2"
  using link_Transformation_PointToPoint [OF cloud_in_examples cors2_example(1,2)]
    link_Transformation_PointToPlane [OF cloud_in_examples cors2_example(1,2)]
    link_Transformation_ColoredICP [OF cloud_in_examples cors2_example(1,2)]
  by (simp_all only: load_cloud_examples cors2_example(3))

section \<open>The claims\<close>

subsection \<open>C1: no valid correspondence\<close>

text \<open>
  C1, as stated: where no entry of the correspondences is a valid index, \<open>ComputeRMSE\<close>
  and \<open>ComputeTransformation\<close> of every estimator fail with an explicit error. The
  point-to-point \<open>ComputeRMSE\<close> does not: on a source of two points, both unmatched, it
  returns NaN.
\<close>

theorem ComputeRMSE_PointToPoint_unmatched_returns:
  "ComputeRMSE_PointToPoint source2 target1 unmatched2 = Inr NaN"
  by (rule unmatched_P2P [where n = 2 and m = 1
        and sp = "float_tensor [2, 3] [1, 1, 0,  5, 5, 5]" and tp = "float_tensor [1, 3] [0, 0, 0]"])
     (simp_all add: ex_defs wf_tensor_def correspondences_ok_def)

text \<open>
  C1, as amended: where no entry of the correspondences is a valid index, the
  point-to-point and the point-to-plane \<open>ComputeRMSE\<close> raise no error on inputs that
  pass their checks: the sum over no pairs is 0, it is divided by the count 0, and the
  result is NaN. The inputs are an \<open>n \<times> 3\<close> source and an \<open>m \<times> 3\<close> target of one
  dtype on one device and Int64 correspondences, one per source point, all \<open>-1\<close>; for
  point to plane the target has normals and the correspondences are on the device too.
\<close>

theorem ComputeRMSE_no_valid_correspondence:
  assumes "pc_point_attr source ''positions'' = Some sp" "shape sp = [n, 3]" "wf_tensor sp"
    and "pc_point_attr target ''positions'' = Some tp" "shape tp = [m, 3]" "wf_tensor tp"
    and "dtype tp = dtype sp"
    and "device sp = pc_device source" "device tp = pc_device target"
    and "pc_device target = pc_device source"
    and "correspondences_ok cors n m" "dtype cors = Int64"
    and "\<forall>c \<in> set (data cors). c = - 1"
  shows "ComputeRMSE_PointToPoint source target cors = Inr NaN \<and>
    (pc_point_attr target ''normals'' = Some tn \<and> shape tn = [m, 3] \<and> wf_tensor tn \<and> 0 < m \<and>
     dtype tn = dtype sp \<and> device tn = pc_device target \<and> device cors = pc_device source \<longrightarrow>
     ComputeRMSE_PointToPlane source target cors = Inr NaN)"
proof (intro conjI impI)
  show "ComputeRMSE_PointToPoint source target cors = Inr NaN"
    using assms by (intro unmatched_P2P [where sp = sp and tp = tp and n = n and m = m]) simp_all
next
  assume "pc_point_attr target ''normals'' = Some tn \<and> shape tn = [m, 3] \<and> wf_tensor tn \<and> 0 < m \<and>
     dtype tn = dtype sp \<and> device tn = pc_device target \<and> device cors = pc_device source"
  then show "ComputeRMSE_PointToPlane source target cors = Inr NaN"
    using assms
    by (intro unmatched_P2Plane [where sp = sp and tp = tp and tn = tn and n = n and m = m])
       simp_all
qed

theorem ComputeRMSE_no_valid_correspondence_witness:
  "data unmatched2 = [- 1, - 1] \<and>
   ComputeRMSE_PointToPoint source2 target1 unmatched2 = Inr NaN \<and>
   ComputeRMSE_PointToPlane source2 target1 unmatched2 = Inr NaN"
proof -
  let ?sp = "float_tensor [2, 3] [1, 1, 0,  5, 5, 5]"
  let ?tp = "float_tensor [1, 3] [0, 0, 0]"
  let ?tn = "float_tensor [1, 3] [3 / 5, 4 / 5, 0]"
  have normals: "pc_point_attr target1 ''normals'' = Some ?tn \<and> shape ?tn = [1, 3] \<and>
      wf_tensor ?tn \<and> 0 < (1 :: nat) \<and> dtype ?tn = dtype ?sp \<and> device ?tn = pc_device target1 \<and>
      device unmatched2 = pc_device source2"
    by (simp add: ex_defs wf_tensor_def)
  have "ComputeRMSE_PointToPoint source2 target1 unmatched2 = Inr NaN \<and>
    (pc_point_attr target1 ''normals'' = Some ?tn \<and> shape ?tn = [1, 3] \<and>
      wf_tensor ?tn \<and> 0 < (1 :: nat) \<and> dtype ?tn = dtype ?sp \<and> device ?tn = pc_device target1 \<and>
      device unmatched2 = pc_device source2 \<longrightarrow>
     ComputeRMSE_PointToPlane source2 target1 unmatched2 = Inr NaN)"
    by (rule ComputeRMSE_no_valid_correspondence [where n = 2 and sp = ?sp and tp = ?tp])
       (simp_all add: ex_defs wf_tensor_def correspondences_ok_def)
  moreover have "data unmatched2 = [- 1, - 1]"
    by (simp add: unmatched2_def index_tensor_def)
  ultimately show ?thesis
    using normals by blast
qed

subsection \<open>C2: the point-to-plane RMSE\<close>

text \<open>
  C2 says that the point-to-plane \<open>ComputeRMSE\<close> returns the square root of the mean,
  over the valid correspondences, of the squared dot product of the target normal with
  the displacement. The function multiplies the displacement by the normal
  component by component and squares each product before it sums: no product is summed
  along the row first. On the source point \<open>(1, 1, 0)\<close> matched with the target point
  \<open>(0, 0, 0)\<close> of unit normal \<open>(3/5, 4/5, 0)\<close> it returns \<open>1\<close>, the square root of
  \<open>9/25 + 16/25\<close>, where the value of the specification is \<open>7/5\<close>.
\<close>

theorem ComputeRMSE_PointToPlane_squares_components:
  "ComputeRMSE_PointToPlane source2 target1 cors2 = Inr (Finite 1) \<and>
   claimed_PointToPlane_RMSE (float_tensor [2, 3] [1, 1, 0,  5, 5, 5])
     (float_tensor [1, 3] [0, 0, 0]) (float_tensor [1, 3] [3 / 5, 4 / 5, 0]) cors2 = 7 / 5"
proof
  have "ComputeRMSE_PointToPlane source2 target1 cors2 =
     Inr (dsqrt (ddiv
       (sum_list (map (\<lambda>x. x * x)
          (map2 (*)
            (map2 (-) (concat (gathered_source (float_tensor [2, 3] [1, 1, 0,  5, 5, 5]) cors2))
               (concat (gathered_target (float_tensor [1, 3] [0, 0, 0]) cors2)))
            (concat (gathered_target (float_tensor [1, 3] [3 / 5, 4 / 5, 0]) cors2)))))
       (real (length (valid_indices cors2)))))"
    by (rule ComputeRMSE_PointToPlane_gathered [where n = 2 and m = 1])
       (simp_all add: ex_defs wf_tensor_def correspondences_ok_def)
  then show "ComputeRMSE_PointToPlane source2 target1 cors2 = Inr (Finite 1)"
    unfolding gathered_cors2 valid_cors2
    by (simp add: row_def chunk_def float_tensor_def ddiv_def)
next
  have V: "{i. i < length (data cors2) \<and> data cors2 ! i \<noteq> - 1} = {0}"
    by (auto simp: cors2_def index_tensor_def less_Suc_eq)
  have c0: "nat (data cors2 ! 0) = 0"
    by (simp add: cors2_def index_tensor_def)
  have rows: "row (float_tensor [2, 3] [1, 1, 0,  5, 5, 5]) 0 = [1, 1, 0]"
      "row (float_tensor [1, 3] [0, 0, 0]) 0 = [0, 0, 0]"
      "row (float_tensor [1, 3] [3 / 5, 4 / 5, 0]) 0 = [3 / 5, 4 / 5, 0]"
    by (simp_all add: row_def chunk_def float_tensor_def)
  have "sqrt ((7 / 5)\<^sup>2) = (7 / 5 :: real)"
    by simp
  then show "claimed_PointToPlane_RMSE (float_tensor [2, 3] [1, 1, 0,  5, 5, 5])
     (float_tensor [1, 3] [0, 0, 0]) (float_tensor [1, 3] [3 / 5, 4 / 5, 0]) cors2 = 7 / 5"
    unfolding claimed_PointToPlane_RMSE_def V
    by (simp add: c0 rows sum_upto_3 del: One_nat_def)
qed

subsection \<open>C3: the point-to-point RMSE\<close>

text \<open>
  C3. For every input with at least one valid correspondence, the point-to-point
  \<open>ComputeRMSE\<close> returns the square root of the sum, over exactly the valid
  correspondences, of the squared Euclidean distance between the source point and its
  matched target point, divided by the number of valid correspondences. The inputs are
  an \<open>n \<times> 3\<close> source and an \<open>m \<times> 3\<close> target of one dtype on one device and Int64
  correspondences, one per source point, each \<open>-1\<close> or a target index. The arithmetic
  is that of the real numbers.
\<close>

theorem ComputeRMSE_PointToPoint_value:
  assumes "pc_point_attr source ''positions'' = Some sp" "shape sp = [n, 3]" "wf_tensor sp"
    and "pc_point_attr target ''positions'' = Some tp" "shape tp = [m, 3]" "wf_tensor tp"
    and "dtype tp = dtype sp" "device tp = device sp" "pc_device target = pc_device source"
    and "correspondences_ok cors n m" "dtype cors = Int64"
    and "\<exists>c \<in> set (data cors). c \<noteq> - 1"
  shows "ComputeRMSE_PointToPoint source target cors =
     Inr (Finite (sqrt
       ((\<Sum>i \<in> {i. i < n \<and> data cors ! i \<noteq> - 1}.
           \<Sum>k<3. (row sp i ! k - row tp (nat (data cors ! i)) ! k)\<^sup>2)
        / real (card {i. i < n \<and> data cors ! i \<noteq> - 1}))))"
proof -
  let ?V = "{i. i < n \<and> data cors ! i \<noteq> - 1}"
  let ?S = "\<Sum>i \<in> ?V. \<Sum>k<3. (row sp i ! k - row tp (nat (data cors ! i)) ! k)\<^sup>2"
  have len: "length (data cors) = n"
    using assms(10) by (simp add: correspondences_ok_def)
  have "?V \<noteq> {}"
    using assms(12) len by (auto simp: in_set_conv_nth)
  moreover have "finite ?V" by simp
  ultimately have pos: "0 < card ?V"
    by (simp add: card_gt_0_iff)
  have nonneg: "0 \<le> ?S"
    by (intro sum_nonneg) simp
  have "ComputeRMSE_PointToPoint source target cors = Inr (dsqrt (ddiv ?S (real (card ?V))))"
    using ComputeRMSE_PointToPoint_gathered [OF assms(1-11)]
      sum_squared_distances [OF assms(2,3,5,6,10)] length_valid_indices [OF len]
    by simp
  moreover have "dsqrt (ddiv ?S (real (card ?V))) = Finite (sqrt (?S / real (card ?V)))"
    using nonneg pos by (intro dsqrt_ddiv) simp_all
  ultimately show ?thesis by (simp only:)
qed

theorem ComputeRMSE_PointToPoint_value_witness:
  "ComputeRMSE_PointToPoint source2 target1 cors2 = Inr (Finite (sqrt 2))"
proof -
  let ?sp = "float_tensor [2, 3] [1, 1, 0,  5, 5, 5]"
  let ?tp = "float_tensor [1, 3] [0, 0, 0]"
  have V: "{i. i < 2 \<and> data cors2 ! i \<noteq> - 1} = {0}"
    by (auto simp: cors2_def index_tensor_def less_2_cases_iff)
  have c0: "nat (data cors2 ! 0) = 0"
    by (simp add: cors2_def index_tensor_def)
  have rows: "row ?sp 0 = [1, 1, 0]" "row ?tp 0 = [0, 0, 0]"
    by (simp_all add: row_def chunk_def float_tensor_def)
  have "ComputeRMSE_PointToPoint source2 target1 cors2 =
     Inr (Finite (sqrt
       ((\<Sum>i \<in> {i. i < 2 \<and> data cors2 ! i \<noteq> - 1}.
           \<Sum>k<3. (row ?sp i ! k - row ?tp (nat (data cors2 ! i)) ! k)\<^sup>2)
        / real (card {i. i < 2 \<and> data cors2 ! i \<noteq> - 1}))))"
    by (rule ComputeRMSE_PointToPoint_value [where m = 1])
       (simp_all add: source2_def target1_def cors2_def float_tensor_def index_tensor_def
          wf_tensor_def correspondences_ok_def)
  then have "ComputeRMSE_PointToPoint source2 target1 cors2 =
     Inr (Finite (sqrt ((\<Sum>k<3. ([1, 1, 0] ! k - [0, 0, 0] ! k :: real)\<^sup>2) / real (card {0 :: nat}))))"
    by (simp only: V sum.empty sum.insert finite.emptyI empty_iff if_False add_0_right c0 rows
        not_False_eq_True)
  then show ?thesis
    by (simp add: sum_upto_3)
qed

subsection \<open>C4: the colored-ICP RMSE\<close>

text \<open>
  C4 says that the colored-ICP \<open>ComputeRMSE\<close> returns the sum over the valid pairs of
  \<open>\<lambda> d\<^sup>2 + (1 - \<lambda>) (is - is_proj)\<^sup>2\<close>. The function returns no value: \<open>d\<close> is the
  sum of a matrix along dimension 1, a tensor of one dimension, and
  \<open>d.Mul(sqrt_lambda_geometric).Sum({1})\<close> sums it along dimension 1 again, which a
  tensor of one dimension does not have. On one matched pair, whatever the weight, the
  call ends in the error of that reduction.
\<close>

theorem ComputeRMSE_ColoredICP_raises:
  "ComputeRMSE_ColoredICP lambda_geometric source2 target1 cors2 = Inl (DimError 1 1)"
proof -
  let ?sp = "float_tensor [2, 3] [1, 1, 0,  5, 5, 5]"
  let ?sc = "float_tensor [2, 3] [1, 1, 1,  0, 0, 0]"
  let ?tp = "float_tensor [1, 3] [0, 0, 0]"
  let ?tn = "float_tensor [1, 3] [3 / 5, 4 / 5, 0]"
  let ?tc = "float_tensor [1, 3] [1, 1, 1]"
  let ?tg = "float_tensor [1, 3] [0, 0, 0]"
  let ?valid = "Reshape_flat (Ne cors2 (- 1))"
  let ?G = "index_tensor [0]"
  let ?vs = "float_tensor [1, 3] [1, 1, 0]"
  let ?d = "float_tensor [1] [7 / 5]"
  let ?d_nt = "float_tensor [1, 3] [21 / 25, 28 / 25, 0]"
  let ?vs_proj = "float_tensor [1, 3] [4 / 25, - (3 / 25), 0]"
  let ?one = "float_tensor [1] [1]"
  have get: "GetPoints source2 = Inr ?sp" "GetPointColors source2 = Inr ?sc"
      "GetPoints target1 = Inr ?tp" "GetPointNormals target1 = Inr ?tn"
      "GetPointColors target1 = Inr ?tc" "pc_GetPointAttr target1 ''color_gradients'' = Inr ?tg"
    by (simp_all add: pc_defs source2_def target1_def)
  have chk: "AssertDevice ?tp (device ?sp) = Inr ()" "AssertDevice cors2 (device ?sp) = Inr ()"
      "AssertDtype ?sc (dtype ?sp) = Inr ()" "AssertDtype ?tp (dtype ?sp) = Inr ()"
      "AssertDtype ?tn (dtype ?sp) = Inr ()" "AssertDtype ?tc (dtype ?sp) = Inr ()"
      "AssertDtype ?tg (dtype ?sp) = Inr ()" "AssertDtype cors2 Int64 = Inr ()"
    by (simp_all add: AssertDevice_def AssertDtype_def float_tensor_def cors2_def index_tensor_def)
  have gather: "IndexGet_mask cors2 ?valid = Inr ?G" "Reshape_flat ?G = ?G"
      "IndexGet_mask ?sp ?valid = Inr ?vs" "IndexGet_mask ?sc ?valid = Inr ?tc"
      "IndexGet ?tp ?G = Inr ?tp" "IndexGet ?tn ?G = Inr ?tn"
      "IndexGet ?tc ?G = Inr ?tc" "IndexGet ?tg ?G = Inr ?tg"
    by (simp_all add: prim_defs float_tensor_def cors2_def index_tensor_def upt_rec)
  have arith: "Sub ?vs ?tp = Inr ?vs" "Mul ?vs ?tn = Inr ?tn" "Sum ?tn [1] = Inr ?d"
      "Mul ?d ?tn = Inr ?d_nt" "Sub ?vs ?d_nt = Inr ?vs_proj"
      "Mean ?tc [1] = Inr ?one" "Sub ?vs_proj ?tp = Inr ?vs_proj"
      "Mul ?tg ?vs_proj = Inr ?tg" "Sum ?tg [1] = Inr (float_tensor [1] [0])"
      "Add (float_tensor [1] [0]) ?one = Inr ?one"
    by (simp_all add: prim_defs float_tensor_def upt_rec numeral_3_eq_3)
  have fail: "Sum (Mul_scalar ?d c) [1] = Inl (DimError 1 1)" for c
    by (simp add: Sum_def WrapDim_def Mul_scalar_def float_tensor_def)
  show ?thesis
    unfolding ComputeRMSE_ColoredICP_def ColoredICP_attributes_example
    by (simp add: get chk gather arith fail Let_def del: One_nat_def cong: bind_e_weak_cong)
qed

subsection \<open>C5: validation before any numeric work\<close>

text \<open>
  C5 says that every estimator checks, before any numeric work, that source, target and
  correspondences are on one device. The point-to-point \<open>ComputeRMSE\<close> checks the
  target against the source and never looks at the device or the dtype of the
  correspondences: with the correspondences on another device it returns an RMSE, where
  the point-to-plane \<open>ComputeRMSE\<close> fails on the same input with the device error.
\<close>

theorem ComputeRMSE_PointToPoint_unchecked_correspondences:
  "device cors2_cuda \<noteq> GetDevice source2 \<and>
   ComputeRMSE_PointToPoint source2 target1 cors2_cuda = Inr (Finite (sqrt 2)) \<and>
   ComputeRMSE_PointToPlane source2 target1 cors2_cuda = Inl (DeviceError cuda cpu)"
proof (intro conjI)
  show "device cors2_cuda \<noteq> GetDevice source2"
    by (simp add: cors2_cuda_def GetDevice_def source2_def cuda_def cpu_def)
next
  have v: "valid_indices cors2_cuda = [0]"
    by (simp add: valid_indices_def cors2_cuda_def cors2_def index_tensor_def upt_rec)
  have g: "gathered_source t cors2_cuda = [row t 0]" "gathered_target t cors2_cuda = [row t 0]" for t :: "real list Tensor"
    unfolding gathered_source_def gathered_target_def v
    by (simp_all add: cors2_cuda_def cors2_def index_tensor_def)
  have "ComputeRMSE_PointToPoint source2 target1 cors2_cuda =
     Inr (dsqrt (ddiv
       (sum_list (map (\<lambda>x. x * x)
          (map2 (-) (concat (gathered_source (float_tensor [2, 3] [1, 1, 0,  5, 5, 5]) cors2_cuda))
             (concat (gathered_target (float_tensor [1, 3] [0, 0, 0]) cors2_cuda)))))
       (real (length (valid_indices cors2_cuda)))))"
    by (rule ComputeRMSE_PointToPoint_gathered [where n = 2 and m = 1])
       (simp_all add: ex_defs cors2_cuda_def wf_tensor_def correspondences_ok_def)
  then show "ComputeRMSE_PointToPoint source2 target1 cors2_cuda = Inr (Finite (sqrt 2))"
    unfolding g v by (simp add: row_def chunk_def float_tensor_def ddiv_def)
next
  have h: "HasPointNormals target1 = Inr True"
    by (simp add: pc_defs target1_def float_tensor_def cong: bind_e_weak_cong)
  show "ComputeRMSE_PointToPlane source2 target1 cors2_cuda = Inl (DeviceError cuda cpu)"
    unfolding ComputeRMSE_PointToPlane_def h
    by (simp add: GetPoints_def pc_GetPointAttr_def at_key_def GetDevice_def AssertDevice_def
        source2_def target1_def float_tensor_def cors2_cuda_def cors2_def index_tensor_def
        cuda_def cpu_def cong: bind_e_weak_cong)
qed

subsection \<open>C6: missing attributes\<close>

text \<open>
  C6, as stated: where the target has no valid normals, both functions of the
  point-to-plane and of the colored estimator fail with an error that names the
  normals. The colored estimator asks for the colors first: on a target with neither
  normals nor colors its error names the colors.
\<close>

theorem ColoredICP_names_colors_not_normals:
  "HasPointNormals target_bare = Inr False \<and>
   ComputeRMSE_ColoredICP lambda_example source2 target_bare cors2 =
     Inl (LogError ''Source and/or Target pointcloud missing colors attribute.'')"
proof
  show "HasPointNormals target_bare = Inr False"
    by (rule has_examples)
  show "ComputeRMSE_ColoredICP lambda_example source2 target_bare cors2 =
     Inl (LogError ''Source and/or Target pointcloud missing colors attribute.'')"
    by (rule ColoredICP_colors_fail [THEN conjunct1]) (simp add: has_examples)
qed

text \<open>
  C6, as amended: where the target has no valid normals, both functions of the
  point-to-plane estimator fail with the error "Target pointcloud missing normals
  attribute."; both functions of the colored estimator fail with the error of the first
  check that fails, in the order colors (of the target, then of the source), normals of
  the target, color gradients of the target: the error names the colors where the
  target or the source lacks them, the normals where both have colors and the target
  lacks normals, the color gradients where only they are missing.
\<close>

theorem missing_attribute_errors:
  "(HasPointNormals target = Inr False \<longrightarrow>
      ComputeRMSE_PointToPlane source target cors =
        Inl (LogError ''Target pointcloud missing normals attribute.'') \<and>
      ComputeTransformation_PointToPlane plane_kernel to_transformation
          robust_kernel source target cors =
        Inl (LogError ''Target pointcloud missing normals attribute.'')) \<and>
   (HasPointColors target = Inr False \<or>
      (HasPointColors target = Inr True \<and> HasPointColors source = Inr False) \<longrightarrow>
      ComputeRMSE_ColoredICP lambda_geometric source target cors =
        Inl (LogError ''Source and/or Target pointcloud missing colors attribute.'') \<and>
      ComputeTransformation_ColoredICP colored_kernel to_transformation
          robust_kernel lambda_geometric source target cors =
        Inl (LogError ''Source and/or Target pointcloud missing colors attribute.'')) \<and>
   (HasPointColors target = Inr True \<and> HasPointColors source = Inr True \<and>
      HasPointNormals target = Inr False \<longrightarrow>
      ComputeRMSE_ColoredICP lambda_geometric source target cors =
        Inl (LogError ''Target pointcloud missing normals attribute.'') \<and>
      ComputeTransformation_ColoredICP colored_kernel to_transformation
          robust_kernel lambda_geometric source target cors =
        Inl (LogError ''Target pointcloud missing normals attribute.'')) \<and>
   (HasPointColors target = Inr True \<and> HasPointColors source = Inr True \<and>
      HasPointNormals target = Inr True \<and>
      pc_HasPointAttr target ''color_gradients'' = Inr False \<longrightarrow>
      ComputeRMSE_ColoredICP lambda_geometric source target cors =
        Inl (LogError ''Target pointcloud missing color_gradients attribute.'') \<and>
      ComputeTransformation_ColoredICP colored_kernel to_transformation
          robust_kernel lambda_geometric source target cors =
        Inl (LogError ''Target pointcloud missing color_gradients attribute.''))"
  using PointToPlane_normals_fail [where target = target and source = source and cors = cors
      and K = plane_kernel and conv = to_transformation and rk = robust_kernel]
    ColoredICP_colors_fail [where target = target
      and source = source and cors = cors and lam = lambda_geometric
      and K = colored_kernel and conv = to_transformation and rk = robust_kernel]
    ColoredICP_normals_fail [where target = target
      and source = source and cors = cors and lam = lambda_geometric
      and K = colored_kernel and conv = to_transformation and rk = robust_kernel]
    ColoredICP_gradients_fail [where target = target
      and source = source and cors = cors and lam = lambda_geometric
      and K = colored_kernel and conv = to_transformation and rk = robust_kernel]
  by blast

theorem missing_attribute_errors_witness:
  "ComputeRMSE_PointToPlane source2 target_bare cors2 =
     Inl (LogError ''Target pointcloud missing normals attribute.'') \<and>
   ComputeTransformation_PointToPlane pose_plane_zero transformation_identity ()
       source2 target_bare cors2 =
     Inl (LogError ''Target pointcloud missing normals attribute.'') \<and>
   ComputeTransformation_ColoredICP pose_colored_zero transformation_identity ()
       lambda_example source2 target_bare cors2 =
     Inl (LogError ''Source and/or Target pointcloud missing colors attribute.'') \<and>
   ComputeRMSE_ColoredICP lambda_example source2 target_colors cors2 =
     Inl (LogError ''Target pointcloud missing normals attribute.'') \<and>
   ComputeRMSE_ColoredICP lambda_example source2 target_no_gradients cors2 =
     Inl (LogError ''Target pointcloud missing color_gradients attribute.'')"
  using has_examples
    missing_attribute_errors [where source = source2 and target = target_bare and cors = cors2
      and plane_kernel = pose_plane_zero
      and colored_kernel = pose_colored_zero
      and to_transformation = transformation_identity and robust_kernel = "()"
      and lambda_geometric = lambda_example]
    missing_attribute_errors [where source = source2 and target = target_colors and cors = cors2
      and plane_kernel = pose_plane_zero
      and colored_kernel = pose_colored_zero
      and to_transformation = transformation_identity and robust_kernel = "()"
      and lambda_geometric = lambda_example]
    missing_attribute_errors [where source = source2 and target = target_no_gradients
      and cors = cors2
      and plane_kernel = pose_plane_zero
      and colored_kernel = pose_colored_zero
      and to_transformation = transformation_identity and robust_kernel = "()"
      and lambda_geometric = lambda_example]
  by blast

subsection \<open>C7: unmatched source points do not count\<close>

text \<open>
  C7. For every source, target and correspondences, appending source points whose
  correspondence is \<open>-1\<close> leaves the result of \<open>ComputeRMSE\<close> and of
  \<open>ComputeTransformation\<close> as it was. The source has \<open>n\<close> points (\<open>n \<times> 3\<close> positions,
  and \<open>n \<times> 3\<close> colors where it has colors) and one correspondence per point; \<open>k\<close> points
  are appended, of any values, and \<open>k\<close> correspondences \<open>-1\<close>. Whatever the target, the
  call with the appended points returns what the call without them returns and raises
  what it raises: for the point-to-point and the point-to-plane estimator always, for
  the colored estimator where the source has a point. Of an empty source the colored
  estimator computes no result to compare with: the colors of an empty cloud do not
  count as present, and the call raises. The kernels of \<open>ComputeTransformation\<close> are the
  modelled ones: the gather step, then any computation on the matched tensors.
\<close>

theorem sentinel_exclusion:
  assumes "pc_point_attr source ''positions'' = Some sp" "shape sp = [n, 3]" "wf_tensor sp"
    and "shape cors = [n]" "length (data cors) = n"
    and "case pc_point_attr source ''colors'' of None \<Rightarrow> True
         | Some sc \<Rightarrow> shape sc = [n, 3] \<and> wf_tensor sc"
  shows
   "ComputeRMSE_PointToPoint (append_points k extra source) target (append_unmatched k cors)
      = ComputeRMSE_PointToPoint source target cors \<and>
    ComputeTransformation_PointToPoint (ComputeRtPointToPoint solve_Rt) to_transformation_Rt
        (append_points k extra source) target (append_unmatched k cors)
      = ComputeTransformation_PointToPoint (ComputeRtPointToPoint solve_Rt) to_transformation_Rt
        source target cors \<and>
    ComputeRMSE_PointToPlane (append_points k extra source) target (append_unmatched k cors)
      = ComputeRMSE_PointToPlane source target cors \<and>
    ComputeTransformation_PointToPlane (ComputePosePointToPlane solve_plane_pose)
        to_transformation robust_kernel
        (append_points k extra source) target (append_unmatched k cors)
      = ComputeTransformation_PointToPlane (ComputePosePointToPlane solve_plane_pose)
        to_transformation robust_kernel source target cors \<and>
    (0 < n \<longrightarrow>
      ComputeRMSE_ColoredICP lambda_geometric (append_points k extra source) target
          (append_unmatched k cors)
        = ComputeRMSE_ColoredICP lambda_geometric source target cors \<and>
      ComputeTransformation_ColoredICP (ComputePoseColoredICP solve_colored_pose)
          to_transformation robust_kernel lambda_geometric
          (append_points k extra source) target (append_unmatched k cors)
        = ComputeTransformation_ColoredICP (ComputePoseColoredICP solve_colored_pose)
          to_transformation robust_kernel lambda_geometric source target cors) \<and>
    (n = 0 \<longrightarrow>
      (\<exists>e. ComputeRMSE_ColoredICP lambda_geometric source target cors = Inl e) \<and>
      (\<exists>e. ComputeTransformation_ColoredICP (ComputePoseColoredICP solve_colored_pose)
          to_transformation robust_kernel lambda_geometric source target cors = Inl e))"
proof (intro conjI impI)
  assume pos: "0 < n"
  show "ComputeRMSE_ColoredICP lambda_geometric (append_points k extra source) target
          (append_unmatched k cors)
        = ComputeRMSE_ColoredICP lambda_geometric source target cors"
  proof (cases "pc_point_attr source ''colors''")
    case None
    then show ?thesis by (rule sentinel_ColoredICP_absent(1))
  next
    case (Some sc)
    with assms(6) have "shape sc = [n, 3]" "wf_tensor sc" by simp_all
    with Some pos show ?thesis by (intro sentinel_ColoredICP(1) [OF assms(1-5)])
  qed
  show "ComputeTransformation_ColoredICP (ComputePoseColoredICP solve_colored_pose)
          to_transformation robust_kernel lambda_geometric
          (append_points k extra source) target (append_unmatched k cors)
        = ComputeTransformation_ColoredICP (ComputePoseColoredICP solve_colored_pose)
          to_transformation robust_kernel lambda_geometric source target cors"
  proof (cases "pc_point_attr source ''colors''")
    case None
    then show ?thesis by (rule sentinel_ColoredICP_absent(2))
  next
    case (Some sc)
    with assms(6) have "shape sc = [n, 3]" "wf_tensor sc" by simp_all
    with Some pos show ?thesis by (intro sentinel_ColoredICP(2) [OF assms(1-5)])
  qed
next
  assume "n = 0"
  with assms(6) have empty: "case pc_point_attr source ''colors'' of None \<Rightarrow> True
           | Some sc \<Rightarrow> shape sc = [0, 3] \<and> wf_tensor sc"
    by (simp split: option.splits)
  show "\<exists>e. ComputeRMSE_ColoredICP lambda_geometric source target cors = Inl e"
    by (rule ColoredICP_empty_source(1) [OF empty])
  show "\<exists>e. ComputeTransformation_ColoredICP (ComputePoseColoredICP solve_colored_pose)
          to_transformation robust_kernel lambda_geometric source target cors = Inl e"
    by (rule ColoredICP_empty_source(2) [OF empty])
qed (rule sentinel_PointToPoint [OF assms(1-5)] sentinel_PointToPlane [OF assms(1-5)])+

text \<open>A source of two points, one of them matched, and an empty source.\<close>

theorem sentinel_exclusion_witness:
  "ComputeRMSE_PointToPoint (append_points 1 extra_point source2) target1
       (append_unmatched 1 cors2)
     = ComputeRMSE_PointToPoint source2 target1 cors2 \<and>
   ComputeTransformation_PointToPoint (ComputeRtPointToPoint solve_pairs) embed_Rt
       (append_points 1 extra_point source2) target1 (append_unmatched 1 cors2)
     = ComputeTransformation_PointToPoint (ComputeRtPointToPoint solve_pairs) embed_Rt
       source2 target1 cors2 \<and>
   ComputeRMSE_PointToPlane (append_points 1 extra_point source2) target1
       (append_unmatched 1 cors2)
     = ComputeRMSE_PointToPlane source2 target1 cors2 \<and>
   ComputeTransformation_PointToPlane (ComputePosePointToPlane solve_plane)
       transformation_identity () (append_points 1 extra_point source2) target1
       (append_unmatched 1 cors2)
     = ComputeTransformation_PointToPlane (ComputePosePointToPlane solve_plane)
       transformation_identity () source2 target1 cors2 \<and>
   ComputeRMSE_ColoredICP lambda_example (append_points 1 extra_point source2) target1
       (append_unmatched 1 cors2)
     = ComputeRMSE_ColoredICP lambda_example source2 target1 cors2 \<and>
   ComputeTransformation_ColoredICP (ComputePoseColoredICP solve_colored)
       transformation_identity () lambda_example (append_points 1 extra_point source2) target1
       (append_unmatched 1 cors2)
     = ComputeTransformation_ColoredICP (ComputePoseColoredICP solve_colored)
       transformation_identity () lambda_example source2 target1 cors2 \<and>
   (\<exists>e. ComputeRMSE_ColoredICP lambda_example source0 target1 cors0 = Inl e) \<and>
   (\<exists>e. ComputeTransformation_ColoredICP (ComputePoseColoredICP solve_colored)
       transformation_identity () lambda_example source0 target1 cors0 = Inl e)"
proof -
  let ?sp = "float_tensor [2, 3] [1, 1, 0,  5, 5, 5]"
  let ?empty = "float_tensor [0, 3] []"
  have hyps: "pc_point_attr source2 ''positions'' = Some ?sp" "shape ?sp = [2, 3]"
      "wf_tensor ?sp" "shape cors2 = [2]" "length (data cors2) = 2"
    by (simp_all add: ex_defs wf_tensor_def)
  have colors: "case pc_point_attr source2 ''colors'' of None \<Rightarrow> True
       | Some sc \<Rightarrow> shape sc = [2, 3] \<and> wf_tensor sc"
    by (simp add: ex_defs wf_tensor_def)
  have hyps0: "pc_point_attr source0 ''positions'' = Some ?empty" "shape ?empty = [0, 3]"
      "wf_tensor ?empty" "shape cors0 = [0]" "length (data cors0) = 0"
    by (simp_all add: source0_def cors0_def float_tensor_def index_tensor_def wf_tensor_def)
  have colors0: "case pc_point_attr source0 ''colors'' of None \<Rightarrow> True
       | Some sc \<Rightarrow> shape sc = [0, 3] \<and> wf_tensor sc"
    by (simp add: source0_def float_tensor_def wf_tensor_def)
  show ?thesis
    using sentinel_exclusion [OF hyps colors, where k = 1 and extra = extra_point and target = target1
        and solve_Rt = solve_pairs and to_transformation_Rt = embed_Rt
        and solve_plane_pose = solve_plane and to_transformation = transformation_identity
        and robust_kernel = "()" and solve_colored_pose = solve_colored
        and lambda_geometric = lambda_example]
      sentinel_exclusion [OF hyps0 colors0, where k = 1 and extra = extra_point and target = target1
        and solve_Rt = solve_pairs and to_transformation_Rt = embed_Rt
        and solve_plane_pose = solve_plane and to_transformation = transformation_identity
        and robust_kernel = "()" and solve_colored_pose = solve_colored
        and lambda_geometric = lambda_example]
    by simp
qed

subsection \<open>C8: the inputs are left unchanged\<close>

text \<open>
  C8. For every estimator and every call of \<open>ComputeRMSE\<close> or \<open>ComputeTransformation\<close>,
  the source point cloud, the target point cloud and the correspondences are unchanged
  by the call. In the store model a call starts in a store \<open>s\<close> whose addresses below
  \<open>next_blob s\<close> are in use, those of the blobs of the inputs among them, and every
  blob at such an address is after the call what it was before, whether the call
  returns a value or raises: the in-place operations \<open>Mul_\<close> and \<open>Add_\<close> of the source
  write into blobs that the call itself allocated. That tensor operations allocate
  their results, and what the in-place operations write to, is the store model of the
  tensor library; the kernels of \<open>ComputeTransformation\<close> are those of the section on the
  kernels on handles, for any \<open>solve\<close> and any conversion to a transformation.
\<close>

theorem estimators_leave_inputs_unchanged:
  fixes s :: store
  assumes "a < next_blob s"
  shows "same_blob a s (snd (ComputeRMSE_PointToPoint_s source target correspondences s)) \<and>
         same_blob a s (snd (ComputeRMSE_PointToPlane_s source target correspondences s)) \<and>
         same_blob a s
           (snd (ComputeRMSE_ColoredICP_s lambda_geometric source target correspondences s)) \<and>
         same_blob a s
           (snd (ComputeTransformation_PointToPoint_s rt_solver rt_converter source target
                   correspondences s)) \<and>
         same_blob a s
           (snd (ComputeTransformation_PointToPlane_s plane_solver pose_converter robust_kernel
                   source target correspondences s)) \<and>
         same_blob a s
           (snd (ComputeTransformation_ColoredICP_s colored_solver pose_converter robust_kernel
                   lambda_geometric source target correspondences s))"
  using assms
  by (intro conjI keeps_same_blob [OF keeps_ComputeRMSE_PointToPoint_s]
      keeps_same_blob [OF keeps_ComputeRMSE_PointToPlane_s]
      keeps_same_blob [OF keeps_ComputeRMSE_ColoredICP_s]
      keeps_same_blob [OF keeps_ComputeTransformation_PointToPoint_s]
      keeps_same_blob [OF keeps_ComputeTransformation_PointToPlane_s]
      keeps_same_blob [OF keeps_ComputeTransformation_ColoredICP_s])

text \<open>The inputs of the example are in the store after each of the six calls: the
  source positions at address 0, the source colors at 1, the target positions at 2, the
  target normals at 3, the target color gradients at 5, the correspondences at 6.\<close>

theorem estimators_leave_inputs_unchanged_witness:
  "floats (snd (ComputeRMSE_PointToPoint_s source2_handles target1_handles cors2_handle
                  store_example)) 0 = Some [1, 1, 0,  5, 5, 5] \<and>
   floats (snd (ComputeRMSE_PointToPlane_s source2_handles target1_handles cors2_handle
                  store_example)) 3 = Some [3 / 5, 4 / 5, 0] \<and>
   indices (snd (ComputeRMSE_ColoredICP_s lambda_example source2_handles target1_handles
                   cors2_handle store_example)) 6 = Some [0, - 1] \<and>
   floats (snd (ComputeTransformation_PointToPoint_s solve_pairs embed_Rt source2_handles
                  target1_handles cors2_handle store_example)) 2 = Some [0, 0, 0] \<and>
   floats (snd (ComputeTransformation_PointToPlane_s solve_plane transformation_identity ()
                  source2_handles target1_handles cors2_handle store_example)) 1
     = Some [1, 1, 1,  0, 0, 0] \<and>
   floats (snd (ComputeTransformation_ColoredICP_s solve_colored transformation_identity ()
                  lambda_example source2_handles target1_handles cors2_handle store_example)) 5
     = Some [0, 0, 0]"
  using
    estimators_leave_inputs_unchanged [of 0 store_example source2_handles target1_handles
      cors2_handle lambda_example solve_pairs embed_Rt solve_plane transformation_identity "()"
      solve_colored]
    estimators_leave_inputs_unchanged [of 3 store_example source2_handles target1_handles
      cors2_handle lambda_example solve_pairs embed_Rt solve_plane transformation_identity "()"
      solve_colored]
    estimators_leave_inputs_unchanged [of 6 store_example source2_handles target1_handles
      cors2_handle lambda_example solve_pairs embed_Rt solve_plane transformation_identity "()"
      solve_colored]
    estimators_leave_inputs_unchanged [of 2 store_example source2_handles target1_handles
      cors2_handle lambda_example solve_pairs embed_Rt solve_plane transformation_identity "()"
      solve_colored]
    estimators_leave_inputs_unchanged [of 1 store_example source2_handles target1_handles
      cors2_handle lambda_example solve_pairs embed_Rt solve_plane transformation_identity "()"
      solve_colored]
    estimators_leave_inputs_unchanged [of 5 store_example source2_handles target1_handles
      cors2_handle lambda_example solve_pairs embed_Rt solve_plane transformation_identity "()"
      solve_colored]
  by (simp add: same_blob_def store_example_def)

subsection \<open>C9: the attribute-presence check\<close>

text \<open>
  C9. For every attribute key and every state of the attribute store, \<open>HasPointAttr\<close>
  returns true exactly when the key is in the store, the stored tensor is not empty,
  and its length is the length of the "positions" attribute. (Where the key names a
  non-empty tensor and "positions" is absent, the call throws and returns nothing.)
\<close>

theorem HasPointAttr_true_iff:
  "HasPointAttr ls key = Inr True \<longleftrightarrow>
     (\<exists>t p n. point_attr ls key = Some t \<and> GetLength t = Inr n \<and> 0 < n \<and>
        point_attr ls ''positions'' = Some p \<and> GetLength p = Inr n)"
  by (auto simp: HasPointAttr_def Contains_def GetPointAttr_def GetPointPositions_def
      at_key_def bind_e_def split: option.splits sum.splits)

subsection \<open>C10: every attribute of a line set is on its device\<close>

text \<open>
  C10. \<open>SetPointAttr\<close>, \<open>SetLineAttr\<close> and the setters built on them reject a tensor
  whose device is not the device of the line set; an empty line set has every attribute
  on its device, and after any sequence of calls of the member functions that change a
  line set (the setters, \<open>RemovePointAttr\<close>, \<open>RemoveLineAttr\<close>, \<open>Clear\<close>) every stored
  point and line attribute is still on the device of the line set.
\<close>

theorem LineSet_device_invariant:
  "(device v \<noteq> ls_device ls \<longrightarrow>
      SetPointAttr ls key v = Inl (DeviceError (device v) (ls_device ls)) \<and>
      SetLineAttr ls key v = Inl (DeviceError (device v) (ls_device ls)) \<and>
      isl (SetPointPositions ls v) \<and> isl (SetLineIndices ls v) \<and> isl (SetLineColors ls v)) \<and>
   on_device (LineSet_new d) \<and>
   (on_device ls \<longrightarrow> on_device (after_calls ls cs))"
  using setters_reject_device [of v ls] on_device_new [of d] on_device_after_calls [of ls cs]
  by blast

theorem LineSet_device_invariant_witness:
  "device (float_tensor [1, 3] [0, 0, 0]\<lparr>device := cuda\<rparr>)
     \<noteq> ls_device (LineSet_new cpu :: real list LineSet) \<and>
   SetPointAttr (LineSet_new cpu) ''positions'' (float_tensor [1, 3] [0, 0, 0]\<lparr>device := cuda\<rparr>)
     = Inl (DeviceError cuda cpu) \<and>
   on_device (LineSet_new cpu :: real list LineSet) \<and>
   on_device (after_calls (LineSet_new cpu)
     [CallSetPointPositions (float_tensor [1, 3] [0, 0, 0]),
      CallSetLineColors (float_tensor [1, 3] [0, 0, 0]\<lparr>device := cuda\<rparr>),
      CallSetPointAttr ''normals'' (float_tensor [1, 3] [0, 0, 1]),
      CallRemovePointAttr ''normals'', CallClear])"
proof -
  let ?v = "float_tensor [1, 3] [0, 0, 0]\<lparr>device := cuda\<rparr>"
  let ?ls = "LineSet_new cpu :: real list LineSet"
  have dv: "device ?v = cuda" "ls_device ?ls = cpu" "cuda \<noteq> cpu"
    by (simp_all add: LineSet_new_def cpu_def cuda_def)
  then have "device ?v \<noteq> ls_device ?ls"
    by simp
  then show ?thesis
    using LineSet_device_invariant [where v = ?v and ls = ?ls and key = "''positions''"
        and d = cpu
        and cs = "[CallSetPointPositions (float_tensor [1, 3] [0, 0, 0]),
          CallSetLineColors ?v,
          CallSetPointAttr ''normals'' (float_tensor [1, 3] [0, 0, 1]),
          CallRemovePointAttr ''normals'', CallClear]"]
    unfolding dv(1,2) by blast
qed

end
